theory Spec2Isabelle
  imports Complex_Main "HOL-Library.Word"
begin

section \<open>JavaScript values used by the bridge\<close>

text \<open>
  A JavaScript string is a sequence of UTF-16 code units. ASCII literals of the source
  are written with \<open>js\<close>; the Cyrillic literals are given by their code units.
\<close>

type_synonym jschar = "16 word"
type_synonym jsstring = "jschar list"
type_synonym bytes = "8 word list"

definition js :: "string \<Rightarrow> jsstring" where
  "js s = map (\<lambda>c. of_nat (of_char c)) s"

text \<open>\<open>String.prototype.trim\<close> removes WhiteSpace and LineTerminator code units at both ends.\<close>

definition isWhiteSpace :: "jschar \<Rightarrow> bool" where
  "isWhiteSpace c \<longleftrightarrow>
     c \<in> {0x0009, 0x000A, 0x000B, 0x000C, 0x000D, 0x0020, 0x00A0, 0x1680,
          0x2028, 0x2029, 0x202F, 0x205F, 0x3000, 0xFEFF}
     \<or> (0x2000 \<le> c \<and> c \<le> 0x200A)"

definition trim :: "jsstring \<Rightarrow> jsstring" where
  "trim s = rev (dropWhile isWhiteSpace (rev (dropWhile isWhiteSpace s)))"

text \<open>Truthiness of a value that is a string or \<open>undefined\<close> (\<open>None\<close>).\<close>

definition truthy :: "jsstring option \<Rightarrow> bool" where
  "truthy v = (case v of None \<Rightarrow> False | Some s \<Rightarrow> s \<noteq> [])"

text \<open>\<open>a || b\<close> on such values.\<close>

definition js_or :: "jsstring option \<Rightarrow> jsstring option \<Rightarrow> jsstring option" where
  "js_or a b = (if truthy a then a else b)"

text \<open>\<open>v || ''\<close>.\<close>

definition or_empty :: "jsstring option \<Rightarrow> jsstring" where
  "or_empty v = (case v of None \<Rightarrow> [] | Some s \<Rightarrow> s)"

text \<open>String conversion inside a template literal or \<open>+=\<close>.\<close>

definition to_str :: "jsstring option \<Rightarrow> jsstring" where
  "to_str v = (case v of None \<Rightarrow> js ''undefined'' | Some s \<Rightarrow> s)"

text \<open>Decimal rendering of a non-negative integer, as a template literal prints it.\<close>

fun digits :: "nat \<Rightarrow> jsstring" where
  "digits n = (if n < 10 then [of_nat (48 + n)]
               else digits (n div 10) @ [of_nat (48 + n mod 10)])"

declare digits.simps [simp del]

definition startsWith :: "jsstring \<Rightarrow> jsstring \<Rightarrow> bool" where
  "startsWith p s = (take (length p) s = p)"

text \<open>
  \<open>toLowerCase\<close> on the code units \<open>A\<close>..\<open>Z\<close>; the case mapping of letters outside
  ASCII is not modelled (no provider name contains one).
\<close>

definition toLowerCase :: "jsstring \<Rightarrow> jsstring" where
  "toLowerCase s = map (\<lambda>c. if 0x41 \<le> c \<and> c \<le> 0x5A then c + 0x20 else c) s"

text \<open>\<open>Array.prototype.join\<close> on strings.\<close>

fun join :: "jsstring \<Rightarrow> jsstring list \<Rightarrow> jsstring" where
  "join sep [] = []"
| "join sep [x] = x"
| "join sep (x # y # ys) = x @ sep @ join sep (y # ys)"

text \<open>
  \<open>Array.prototype.slice(start)\<close> with one argument: a negative start counts from the
  end and is clamped at 0, a non-negative one is clamped at the length.
\<close>

definition slice_from :: "int \<Rightarrow> 'a list \<Rightarrow> 'a list" where
  "slice_from start xs =
     (let len = int (length xs);
          k = (if start < 0 then max (len + start) 0 else min start len)
      in drop (nat k) xs)"

datatype js_error = Error (error_message: jsstring)

section \<open>Data model\<close>

datatype role = System | User | Assistant

text \<open>
  A turn as the handler builds it. \<open>msg_text\<close> is the source's \<open>text\<close> field; it is
  \<open>undefined\<close> (\<open>None\<close>) when the handler stores a value no branch has assigned.
  Turns pushed by \<open>formatMessagesForProvider\<close> carry no timestamp.
\<close>

record turn =
  role :: role
  msg_text :: "jsstring option"
  timestamp :: "nat option"

record session =
  systemPrompt :: jsstring
  messages :: "turn list"
  createdAt :: nat
  lastActivity :: nat

definition SESSION_TTL_MINUTES :: nat where
  "SESSION_TTL_MINUTES = 60"

definition MAX_MESSAGES_IN_SESSION :: int where
  "MAX_MESSAGES_IN_SESSION = 20"

section \<open>Message model (generate.js)\<close>

definition createNewSession :: "jsstring \<Rightarrow> nat \<Rightarrow> session" where
  "createNewSession sp now =
     \<lparr>systemPrompt = sp, messages = [], createdAt = now, lastActivity = now\<rparr>"

definition trimSessionHistory :: "turn list \<Rightarrow> int \<Rightarrow> turn list" where
  "trimSessionHistory msgs maxMessages =
     (if int (length msgs) \<le> maxMessages then msgs
      else slice_from (- maxMessages) msgs)"

definition formatMessagesForProvider ::
  "jsstring option \<Rightarrow> turn list \<Rightarrow> jsstring option \<Rightarrow> turn list" where
  "formatMessagesForProvider sp msgs newUserMessage =
     (let allMessages = [];
          allMessages =
            (if truthy sp \<and> trim (or_empty sp) \<noteq> []
             then allMessages @ [\<lparr>role = System, msg_text = sp, timestamp = None\<rparr>]
             else allMessages);
          allMessages = allMessages @ msgs;
          allMessages =
            (if truthy newUserMessage \<and> trim (or_empty newUserMessage) \<noteq> []
             then allMessages @ [\<lparr>role = User, msg_text = newUserMessage, timestamp = None\<rparr>]
             else allMessages)
      in allMessages)"


section \<open>The world outside the function\<close>

text \<open>
  Every effect of the source is explicit. The world holds the blob store, the outcomes
  the store and the network will give to the next operations (in order), the log of
  the provider calls made so far, and the clock. An operation that finds its script
  empty works (store) or is rejected (network). \<open>Date.now()\<close> reads \<open>clock\<close>, which
  stands still during one invocation. \<open>console\<close> output is not modelled.
\<close>

record http_response =
  status :: nat
  body_text :: "js_error + jsstring"
  body_json :: "js_error + jsstring option"
  reparsed :: "js_error + jsstring option"

text \<open>
  \<open>body_text\<close> is what \<open>res.text()\<close> gives, \<open>Inl\<close> when it throws. \<open>body_json\<close> is
  what \<open>res.json()\<close> followed by the property chain the adapter reads gives: \<open>Inl\<close>
  when \<open>res.json()\<close> throws, \<open>Inr None\<close> when the property is \<open>undefined\<close> or
  \<open>null\<close>, \<open>Inr (Some s)\<close> when it is the string \<open>s\<close>. \<open>reparsed\<close> is the same for
  \<open>JSON.parse\<close> applied to the body text. A body that parses to something other than
  an object, and a property that is not a string, are outside the model.
\<close>

datatype fetch_outcome = Rejected js_error | Responded http_response

record chat_message =
  cm_role :: role
  cm_content :: "jsstring option"

record yandex_message =
  ym_role :: role
  ym_text :: "jsstring option"

datatype net_call =
    OpenAIChat jsstring jsstring "chat_message list"
  | OpenAITranscribe jsstring jsstring bytes
  | MistralChat jsstring jsstring "chat_message list" "jsstring option"
  | YandexCompletion jsstring jsstring rat int "yandex_message list"
  | YandexSTT jsstring jsstring jsstring jsstring nat bytes
  | GeminiGenerate jsstring "jsstring option" "jsstring list" "bytes option"

text \<open>
  The arguments are, in order: OpenAI and Mistral chat: API key, model, messages (and
  for Mistral the \<open>system_prompt\<close> field when present); OpenAI transcription: API key,
  model, audio; Yandex completion: API key, model URI, temperature, maxTokens,
  messages; Yandex speech-to-text: API key, folder, lang, format, sample rate, audio;
  Gemini: API key, system instruction when present, text parts, inline audio.
\<close>

record world =
  blobs :: "jsstring \<rightharpoonup> session"
  store_script :: "js_error option list"
  net_script :: "fetch_outcome list"
  net_log :: "net_call list"
  clock :: nat

type_synonym 'a io = "world \<Rightarrow> (js_error + 'a) \<times> world"

definition return_io :: "'a \<Rightarrow> 'a io" where
  "return_io x = (\<lambda>w. (Inr x, w))"

definition throw :: "js_error \<Rightarrow> 'a io" where
  "throw e = (\<lambda>w. (Inl e, w))"

definition bind_io :: "'a io \<Rightarrow> ('a \<Rightarrow> 'b io) \<Rightarrow> 'b io" where
  "bind_io m f = (\<lambda>w. case m w of (Inl e, w') \<Rightarrow> (Inl e, w') | (Inr x, w') \<Rightarrow> f x w')"

text \<open>\<open>try { m } catch (e) { h(e) }\<close>.\<close>

definition try_catch :: "'a io \<Rightarrow> (js_error \<Rightarrow> 'a io) \<Rightarrow> 'a io" where
  "try_catch m h = (\<lambda>w. case m w of (Inl e, w') \<Rightarrow> h e w' | (Inr x, w') \<Rightarrow> (Inr x, w'))"

definition lift_result :: "js_error + 'a \<Rightarrow> 'a io" where
  "lift_result r = (\<lambda>w. (r, w))"

subsection \<open>The blob store\<close>

text \<open>
  One store operation is \<open>getBlobsStore()\<close> followed by the call on the store; either
  may throw, which is one fault of the script. The store keeps the session that
  \<open>JSON.stringify\<close> wrote and \<open>get\<close> with \<open>type: 'json'\<close> reads back. The expiry
  hint of \<open>SESSION_TTL_MINUTES * 60\<close> seconds that \<open>saveSession\<close> passes as metadata
  is left to the store and has no effect here.
\<close>

definition next_fault :: "world \<Rightarrow> js_error option \<times> world" where
  "next_fault w =
     (case store_script w of
        [] \<Rightarrow> (None, w)
      | f # fs \<Rightarrow> (f, w\<lparr>store_script := fs\<rparr>))"

definition store_get :: "jsstring \<Rightarrow> session option io" where
  "store_get key w =
     (case next_fault w of
        (Some e, w') \<Rightarrow> (Inl e, w')
      | (None, w') \<Rightarrow> (Inr (blobs w' key), w'))"

definition store_set :: "jsstring \<Rightarrow> session \<Rightarrow> unit io" where
  "store_set key v w =
     (case next_fault w of
        (Some e, w') \<Rightarrow> (Inl e, w')
      | (None, w') \<Rightarrow> (Inr (), w'\<lparr>blobs := (blobs w')(key \<mapsto> v)\<rparr>))"

definition store_delete :: "jsstring \<Rightarrow> unit io" where
  "store_delete key w =
     (case next_fault w of
        (Some e, w') \<Rightarrow> (Inl e, w')
      | (None, w') \<Rightarrow> (Inr (), w'\<lparr>blobs := (blobs w')(key := None)\<rparr>))"

subsection \<open>Session store gateway (generate.js)\<close>

definition getSession :: "jsstring option \<Rightarrow> session option io" where
  "getSession sessionId =
     (if \<not> truthy sessionId then return_io None
      else try_catch (store_get (or_empty sessionId)) (\<lambda>error. return_io None))"

definition saveSession :: "jsstring option \<Rightarrow> session \<Rightarrow> unit io" where
  "saveSession sessionId sessionData =
     (if \<not> truthy sessionId then return_io ()
      else try_catch (store_set (or_empty sessionId) sessionData) (\<lambda>error. return_io ()))"

definition deleteSession :: "jsstring option \<Rightarrow> unit io" where
  "deleteSession sessionId =
     (if \<not> truthy sessionId then return_io ()
      else try_catch (store_delete (or_empty sessionId)) (\<lambda>error. return_io ()))"

subsection \<open>The network\<close>

definition fetch :: "net_call \<Rightarrow> http_response io" where
  "fetch call w =
     (let w1 = w\<lparr>net_log := net_log w @ [call]\<rparr>
      in case net_script w of
           [] \<Rightarrow> (Inl (Error (js ''fetch failed'')), w1)
         | Rejected e # rest \<Rightarrow> (Inl e, w1\<lparr>net_script := rest\<rparr>)
         | Responded r # rest \<Rightarrow> (Inr r, w1\<lparr>net_script := rest\<rparr>))"

definition ok :: "http_response \<Rightarrow> bool" where
  "ok r \<longleftrightarrow> 200 \<le> status r \<and> status r \<le> 299"

definition safeReadText :: "http_response \<Rightarrow> jsstring" where
  "safeReadText res = (case body_text res of Inl e \<Rightarrow> js ''(no body)'' | Inr t \<Rightarrow> t)"

text \<open>The argument every adapter accepts: a string, a \<open>{prompt, system}\<close> object, or an array of turns.\<close>

datatype adapter_input =
    InputString jsstring
  | InputObject "jsstring option" "jsstring option"
  | InputTurns "turn list"

definition normalizeInput :: "adapter_input \<Rightarrow> jsstring \<times> jsstring" where
  "normalizeInput input =
     (case input of
        InputString s \<Rightarrow> (s, [])
      | InputObject p s \<Rightarrow> (or_empty p, or_empty s)
      | InputTurns ts \<Rightarrow> ([], []))"


section \<open>Provider adapters\<close>

text \<open>
  \<open>TRANSCRIPTION_LABEL\<close> is the Cyrillic literal of the adapters, in Latin letters
  "Transkripciya audio:". \<open>transcription_suffix t\<close> is the template literal that
  starts with two line feeds, then the label, a line feed and the transcript.
\<close>

definition TRANSCRIPTION_LABEL :: jsstring where
  "TRANSCRIPTION_LABEL =
     [0x0422, 0x0440, 0x0430, 0x043D, 0x0441, 0x043A, 0x0440, 0x0438, 0x043F, 0x0446,
      0x0438, 0x044F, 0x0020, 0x0430, 0x0443, 0x0434, 0x0438, 0x043E, 0x003A]"

definition transcription_suffix :: "jsstring \<Rightarrow> jsstring" where
  "transcription_suffix t = [0x000A, 0x000A] @ TRANSCRIPTION_LABEL @ [0x000A] @ t"

text \<open>The adapters' result object \<open>{message, transcript}\<close>.\<close>

record audio_result =
  ar_message :: jsstring
  ar_transcript :: jsstring

record openai_audio_result = audio_result +
  transcribeModel :: jsstring
  textModel :: jsstring

subsection \<open>OpenAI (providers/openai.js)\<close>

definition generateTextWithOpenAI :: "jsstring \<Rightarrow> adapter_input \<Rightarrow> jsstring io" where
  "generateTextWithOpenAI apiKey input =
     (let primaryModel = js ''gpt-5-nano-2025-08-07'';
          fallbackModel = js ''gpt-4o-mini'';
          messages =
            (case input of
               InputTurns ts \<Rightarrow>
                 map (\<lambda>msg. \<lparr>cm_role = role msg, cm_content = msg_text msg\<rparr>) ts
             | _ \<Rightarrow>
                 (let (prompt, system) = normalizeInput input
                  in if system \<noteq> []
                     then [\<lparr>cm_role = System, cm_content = Some system\<rparr>,
                           \<lparr>cm_role = User, cm_content = Some prompt\<rparr>]
                     else [\<lparr>cm_role = User, cm_content = Some prompt\<rparr>]))
      in bind_io (fetch (OpenAIChat apiKey primaryModel messages)) (\<lambda>response.
         bind_io (if \<not> ok response \<and> status response \<in> {400, 404, 422}
                  then fetch (OpenAIChat apiKey fallbackModel messages)
                  else return_io response) (\<lambda>response.
         if \<not> ok response
         then throw (Error (js ''OpenAI chat error '' @ digits (status response)
                              @ js '': '' @ safeReadText response))
         else bind_io (lift_result (body_json response)) (\<lambda>content.
              return_io (or_empty content)))))"

definition generateTextWithOpenAIAndAudio ::
  "jsstring \<Rightarrow> adapter_input \<Rightarrow> bytes \<Rightarrow> openai_audio_result io" where
  "generateTextWithOpenAIAndAudio apiKey input audio =
     (let primaryTranscribe = js ''gpt-4o-mini-transcribe'';
          fallbackTranscribe = js ''whisper-1''
      in bind_io (fetch (OpenAITranscribe apiKey primaryTranscribe audio)) (\<lambda>trResponse.
         bind_io
           (if \<not> ok trResponse \<and> status trResponse \<in> {400, 404, 422}
            then bind_io (fetch (OpenAITranscribe apiKey fallbackTranscribe audio)) (\<lambda>trResponse2.
                 if \<not> ok trResponse2
                 then throw (Error (js ''OpenAI transcription error '' @ digits (status trResponse2)
                                      @ js '': '' @ safeReadText trResponse2))
                 else bind_io (lift_result (body_json trResponse2)) (\<lambda>trData.
                      return_io (trData, fallbackTranscribe)))
            else if \<not> ok trResponse
            then throw (Error (js ''OpenAI transcription error '' @ digits (status trResponse)
                                 @ js '': '' @ safeReadText trResponse))
            else bind_io (lift_result (body_json trResponse)) (\<lambda>trData.
                 return_io (trData, primaryTranscribe))) (\<lambda>(trData, transcribeUsed).
         let transcriptText = or_empty trData;
             primaryModel = js ''gpt-5-nano-2025-08-07'';
             fallbackModel = js ''gpt-4o-mini'';
             messages =
               (case input of
                  InputTurns ts \<Rightarrow>
                    (let messages = map (\<lambda>msg. \<lparr>cm_role = role msg, cm_content = msg_text msg\<rparr>) ts
                     in if length messages > 0 \<and> cm_role (messages ! (length messages - 1)) = User
                        then messages[length messages - 1 :=
                               (messages ! (length messages - 1))
                                 \<lparr>cm_content :=
                                    Some (to_str (cm_content (messages ! (length messages - 1)))
                                          @ transcription_suffix transcriptText)\<rparr>]
                        else messages)
                | _ \<Rightarrow>
                    (let (prompt, system) = normalizeInput input;
                         messages = [];
                         messages = (if system \<noteq> []
                                     then messages @ [\<lparr>cm_role = System, cm_content = Some system\<rparr>]
                                     else messages);
                         userContent =
                           (if prompt \<noteq> [] \<and> trim prompt \<noteq> []
                            then prompt @ transcription_suffix transcriptText
                            else TRANSCRIPTION_LABEL @ [0x000A] @ transcriptText)
                     in messages @ [\<lparr>cm_role = User, cm_content = Some userContent\<rparr>]))
         in bind_io (fetch (OpenAIChat apiKey primaryModel messages)) (\<lambda>chatResponse.
            bind_io
              (if \<not> ok chatResponse \<and> status chatResponse \<in> {400, 404, 422}
               then bind_io (fetch (OpenAIChat apiKey fallbackModel messages)) (\<lambda>chatResponse2.
                    if \<not> ok chatResponse2
                    then throw (Error (js ''OpenAI chat error '' @ digits (status chatResponse2)
                                         @ js '': '' @ safeReadText chatResponse2))
                    else bind_io (lift_result (body_json chatResponse2)) (\<lambda>chatData.
                         return_io (chatData, fallbackModel)))
               else if \<not> ok chatResponse
               then throw (Error (js ''OpenAI chat error '' @ digits (status chatResponse)
                                    @ js '': '' @ safeReadText chatResponse))
               else bind_io (lift_result (body_json chatResponse)) (\<lambda>chatData.
                    return_io (chatData, primaryModel))) (\<lambda>(chatData, textModelUsed).
            return_io \<lparr>ar_message = or_empty chatData, ar_transcript = transcriptText,
                        transcribeModel = transcribeUsed, textModel = textModelUsed\<rparr>)))))"

subsection \<open>Mistral (the second module of providers/openai.js)\<close>

definition generateTextWithMistral :: "jsstring \<Rightarrow> adapter_input \<Rightarrow> jsstring io" where
  "generateTextWithMistral apiKey input =
     (let primaryModel = js ''magistral-medium-2509'';
          fallbackModel = js ''mistral-small-latest'';
          (messages, systemPrompt) =
            (case input of
               InputTurns ts \<Rightarrow>
                 (let systemMsg = find (\<lambda>m. role m = System) ts;
                      systemPrompt = (case systemMsg of None \<Rightarrow> []
                                      | Some m \<Rightarrow> or_empty (msg_text m));
                      messages =
                        filter (\<lambda>msg. length (trim (or_empty (cm_content msg))) > 0)
                          (map (\<lambda>msg. \<lparr>cm_role = (if role msg = Assistant then Assistant else User),
                                       cm_content = Some (or_empty (msg_text msg))\<rparr>)
                             (filter (\<lambda>m. role m \<noteq> System) ts))
                  in (messages, systemPrompt))
             | _ \<Rightarrow>
                 (let (prompt, system) = normalizeInput input
                  in ([\<lparr>cm_role = User, cm_content = Some prompt\<rparr>], system)))
      in if length messages = 0
         then throw (Error (js ''Mistral: no valid messages to send.''))
         else
           (let system_prompt = (if systemPrompt \<noteq> [] then Some systemPrompt else None)
            in bind_io (fetch (MistralChat apiKey primaryModel messages system_prompt)) (\<lambda>response.
               bind_io (if \<not> ok response \<and> status response \<in> {400, 404, 422, 429}
                        then fetch (MistralChat apiKey fallbackModel messages system_prompt)
                        else return_io response) (\<lambda>response.
               if \<not> ok response
               then throw (Error (js ''Mistral chat error '' @ digits (status response)
                                    @ js '': '' @ safeReadText response))
               else bind_io (lift_result (body_json response)) (\<lambda>content.
                    return_io (or_empty content))))))"


subsection \<open>Yandex (providers/yandex.js)\<close>

text \<open>
  Option overrides of one call. \<open>temperature\<close> holds the value when
  \<open>isFiniteNumber\<close> accepts it and \<open>maxTokens\<close> when \<open>isFiniteInteger\<close> does;
  any other value of the field is \<open>None\<close>.
\<close>

record yandex_options =
  modelName :: "jsstring option"
  modelUri :: "jsstring option"
  temperature :: "rat option"
  maxTokens :: "int option"

record resolved_options =
  r_modelUri :: jsstring
  r_temperature :: rat
  r_maxTokens :: int

record stt_options =
  lang :: "jsstring option"
  format :: "jsstring option"
  sampleRateHertz :: "nat option"

definition DEFAULT_MODEL_NAME :: jsstring where
  "DEFAULT_MODEL_NAME = js ''yandexgpt-lite''"

definition resolveYandexOptions :: "jsstring \<Rightarrow> yandex_options option \<Rightarrow> resolved_options" where
  "resolveYandexOptions folderId options =
     (let d_modelUri = js ''gpt://'' @ folderId @ js ''/'' @ DEFAULT_MODEL_NAME @ js ''/latest'';
          d_temperature = 6 / 10;
          d_maxTokens = 2000;
          o_modelUri = (case options of None \<Rightarrow> None | Some opt \<Rightarrow> modelUri opt);
          o_modelName = (case options of None \<Rightarrow> None | Some opt \<Rightarrow> modelName opt);
          o_temperature = (case options of None \<Rightarrow> None | Some opt \<Rightarrow> temperature opt);
          o_maxTokens = (case options of None \<Rightarrow> None | Some opt \<Rightarrow> maxTokens opt)
      in \<lparr>r_modelUri =
            (if truthy o_modelUri then or_empty o_modelUri
             else if truthy o_modelName
                  then js ''gpt://'' @ folderId @ js ''/'' @ or_empty o_modelName @ js ''/latest''
                  else d_modelUri),
          r_temperature = (case o_temperature of Some t \<Rightarrow> t | None \<Rightarrow> d_temperature),
          r_maxTokens = (case o_maxTokens of Some n \<Rightarrow> n | None \<Rightarrow> d_maxTokens)\<rparr>)"

definition generateTextWithYandex ::
  "jsstring \<Rightarrow> jsstring \<Rightarrow> adapter_input \<Rightarrow> yandex_options option \<Rightarrow> jsstring io" where
  "generateTextWithYandex apiKey folderId input options =
     (let resolved = resolveYandexOptions folderId options;
          messages =
            (case input of
               InputTurns ts \<Rightarrow>
                 map (\<lambda>msg. \<lparr>ym_role = role msg, ym_text = msg_text msg\<rparr>) ts
             | _ \<Rightarrow>
                 (let (prompt, system) = normalizeInput input;
                      messages = [];
                      messages = (if system \<noteq> [] \<and> length (trim system) > 0
                                  then messages @ [\<lparr>ym_role = System, ym_text = Some system\<rparr>]
                                  else messages)
                  in messages @ [\<lparr>ym_role = User, ym_text = Some prompt\<rparr>]))
      in bind_io (fetch (YandexCompletion apiKey (r_modelUri resolved) (r_temperature resolved)
                           (r_maxTokens resolved) messages)) (\<lambda>response.
         if \<not> ok response
         then throw (Error (js ''YandexGPT error '' @ digits (status response)
                              @ js '': '' @ safeReadText response))
         else bind_io (lift_result (body_json response)) (\<lambda>data.
              return_io (or_empty data))))"

text \<open>
  After \<open>response.json()\<close> has failed the code reads \<open>response.text()\<close>. What that
  gives is left to the world (\<open>body_text\<close>); with the \<open>fetch\<close> of Node the body is
  already consumed there and the read throws, which is the case \<open>body_text = Inl\<close>.
\<close>

definition transcribeWithYandexSTT ::
  "jsstring \<Rightarrow> jsstring \<Rightarrow> bytes \<Rightarrow> stt_options \<Rightarrow> jsstring io" where
  "transcribeWithYandexSTT apiKey folderId audioBuffer opts =
     (let lang = (if truthy (lang opts) then or_empty (lang opts) else js ''ru-RU'');
          format = (if truthy (format opts) then or_empty (format opts) else js ''oggopus'');
          sampleRateHertz = (case sampleRateHertz opts of
                               None \<Rightarrow> 48000
                             | Some n \<Rightarrow> if n = 0 then 48000 else n)
      in bind_io (fetch (YandexSTT apiKey folderId lang format sampleRateHertz audioBuffer))
           (\<lambda>response.
         if \<not> ok response
         then throw (Error (js ''Yandex STT error '' @ digits (status response)
                              @ js '': '' @ safeReadText response))
         else (case body_json response of
                 Inl e \<Rightarrow>
                   bind_io (lift_result (body_text response)) (\<lambda>t.
                     (case reparsed response of
                        Inl e' \<Rightarrow> return_io []
                      | Inr parsed \<Rightarrow> return_io (or_empty parsed)))
               | Inr data \<Rightarrow> return_io (or_empty data))))"

definition generateTextWithYandexAndAudio ::
  "jsstring \<Rightarrow> jsstring \<Rightarrow> adapter_input \<Rightarrow> bytes \<Rightarrow> stt_options \<Rightarrow> audio_result io" where
  "generateTextWithYandexAndAudio apiKey folderId input audio sttOpts =
     bind_io (transcribeWithYandexSTT apiKey folderId audio sttOpts) (\<lambda>transcript.
       let messagesWithAudio =
             (case input of
                InputTurns ts \<Rightarrow>
                  (let messagesWithAudio = ts
                   in if length messagesWithAudio > 0
                         \<and> role (messagesWithAudio ! (length messagesWithAudio - 1)) = User
                      then (let lastMessage = messagesWithAudio ! (length messagesWithAudio - 1)
                            in InputTurns (messagesWithAudio[length messagesWithAudio - 1 :=
                                 lastMessage\<lparr>msg_text :=
                                   Some (to_str (msg_text lastMessage)
                                         @ transcription_suffix transcript)\<rparr>]))
                      else InputTurns messagesWithAudio)
              | _ \<Rightarrow>
                  (let (prompt, system) = normalizeInput input;
                       mergedPrompt =
                         (if prompt \<noteq> [] \<and> trim prompt \<noteq> []
                          then (if system \<noteq> []
                                then prompt @ transcription_suffix transcript
                                else prompt @ transcription_suffix transcript)
                          else TRANSCRIPTION_LABEL @ [0x000A] @ transcript)
                   in InputObject (Some mergedPrompt) (Some system)))
       in bind_io (generateTextWithYandex apiKey folderId messagesWithAudio None) (\<lambda>text.
          return_io \<lparr>ar_message = text, ar_transcript = transcript\<rparr>))"

subsection \<open>Gemini (providers/gemini.js)\<close>

text \<open>
  The SDK is an external collaborator. One \<open>generateContent\<close> call, the wait for its
  response and \<open>response.text()\<close> are one network call: it throws when the call is
  rejected or when reading the text throws, and gives the text otherwise.
\<close>

definition generateContent :: "net_call \<Rightarrow> jsstring io" where
  "generateContent call =
     bind_io (fetch call) (\<lambda>response. lift_result (body_text response))"

definition gemini_history :: "turn list \<Rightarrow> jsstring" where
  "gemini_history input =
     join [0x000A, 0x000A]
       (map (\<lambda>msg. (if role msg = User then js ''User'' else js ''Assistant'')
                    @ js '': '' @ to_str (msg_text msg))
          (filter (\<lambda>msg. role msg \<noteq> System) input))"

definition gemini_system_instruction :: "turn list \<Rightarrow> jsstring option" where
  "gemini_system_instruction input =
     (let systemMessage = find (\<lambda>msg. role msg = System) input;
          systemInstruction = (case systemMessage of None \<Rightarrow> Some [] | Some m \<Rightarrow> msg_text m)
      in if truthy systemInstruction then systemInstruction else None)"

definition generateTextWithGemini :: "jsstring \<Rightarrow> adapter_input \<Rightarrow> jsstring io" where
  "generateTextWithGemini apiKey input =
     (case input of
        InputTurns ts \<Rightarrow>
          generateContent
            (GeminiGenerate apiKey (gemini_system_instruction ts) [gemini_history ts] None)
      | _ \<Rightarrow>
          (let (prompt, system) = normalizeInput input
           in generateContent
                (GeminiGenerate apiKey (if system \<noteq> [] then Some system else None)
                   [prompt] None)))"

definition generateTextWithGeminiAndAudio ::
  "jsstring \<Rightarrow> adapter_input \<Rightarrow> bytes \<Rightarrow> jsstring io" where
  "generateTextWithGeminiAndAudio apiKey input audio =
     (case input of
        InputTurns ts \<Rightarrow>
          generateContent
            (GeminiGenerate apiKey (gemini_system_instruction ts) [gemini_history ts]
               (Some audio))
      | _ \<Rightarrow>
          (let (prompt, system) = normalizeInput input;
               parts = [];
               parts = (if prompt \<noteq> [] \<and> trim prompt \<noteq> [] then parts @ [prompt] else parts)
           in generateContent
                (GeminiGenerate apiKey (if system \<noteq> [] then Some system else None)
                   parts (Some audio))))"


section \<open>Request orchestrator (generate.js)\<close>

text \<open>
  \<open>process.env\<close>, the event and the response. Of a multipart body the handler sees
  what \<open>parseMultipartForm\<close> resolves to (or its rejection), of a JSON body what
  \<open>JSON.parse\<close> returns (or its exception); the fields it reads are strings or
  absent. The JSON body carries the Yandex overrides among its fields.
\<close>

record env =
  AI_PROVIDER :: "jsstring option"
  GEMINI_API_KEY :: "jsstring option"
  OPENAI_API_KEY :: "jsstring option"
  YANDEX_API_KEY :: "jsstring option"
  YANDEX_FOLDER_ID :: "jsstring option"

record form =
  f_prompt :: "jsstring option"
  f_system :: "jsstring option"
  f_sessionId :: "jsstring option"
  f_endSession :: "jsstring option"
  f_resetContext :: "jsstring option"
  f_audioFormat :: "jsstring option"
  files :: "(jsstring \<times> bytes) list"

record request_body = yandex_options +
  b_prompt :: "jsstring option"
  b_system :: "jsstring option"
  b_sessionId :: "jsstring option"
  b_endSession :: bool
  b_resetContext :: bool

record event =
  httpMethod :: jsstring
  content_type :: "jsstring option"
  Content_Type :: "jsstring option"
  multipart :: "js_error + form"
  json :: "js_error + request_body"

datatype response_body =
    EmptyBody
  | ErrorBody jsstring
  | EndedBody jsstring "jsstring option" jsstring
  | SuccessBody "jsstring option" jsstring "jsstring option" "jsstring option" nat

text \<open>
  \<open>ErrorBody\<close> is \<open>{error}\<close>; \<open>EndedBody\<close> is \<open>{message, sessionId, provider}\<close>;
  \<open>SuccessBody\<close> is \<open>{generatedText, provider, transcript, sessionId, turns}\<close>, where
  an \<open>undefined\<close> field (\<open>None\<close>) is left out by \<open>JSON.stringify\<close>.
\<close>

record reply =
  statusCode :: nat
  headers :: "(string \<times> string) list"
  body :: response_body

definition ALLOWED_ORIGIN :: string where
  "ALLOWED_ORIGIN = ''*''"

definition json_headers :: "(string \<times> string) list" where
  "json_headers =
     [(''Access-Control-Allow-Origin'', ALLOWED_ORIGIN), (''Content-Type'', ''application/json'')]"

definition MSG_NO_AUDIO :: jsstring where
  "MSG_NO_AUDIO =
     [0x0410, 0x0443, 0x0434, 0x0438, 0x043E, 0x0444, 0x0430, 0x0439, 0x043B, 0x0020,
      0x043D, 0x0435, 0x0020, 0x043F, 0x0440, 0x0435, 0x0434, 0x043E, 0x0441, 0x0442,
      0x0430, 0x0432, 0x043B, 0x0435, 0x043D, 0x002E]"

definition MSG_SESSION_ENDED :: jsstring where
  "MSG_SESSION_ENDED =
     [0x0421, 0x0435, 0x0441, 0x0441, 0x0438, 0x044F, 0x0020, 0x0437, 0x0430, 0x0432,
      0x0435, 0x0440, 0x0448, 0x0435, 0x043D, 0x0430]"

definition MSG_NOT_SET :: jsstring where
  "MSG_NOT_SET = [0x0020, 0x043D, 0x0435, 0x0020, 0x0437, 0x0430, 0x0434, 0x0430, 0x043D, 0x002E]"

definition MSG_NOT_SET_PLURAL :: jsstring where
  "MSG_NOT_SET_PLURAL =
     [0x0020, 0x043D, 0x0435, 0x0020, 0x0437, 0x0430, 0x0434, 0x0430, 0x043D, 0x044B, 0x002E]"

definition MSG_NO_PROMPT :: jsstring where
  "MSG_NO_PROMPT =
     [0x041F, 0x0440, 0x043E, 0x043C, 0x043F, 0x0442, 0x0020, 0x043D, 0x0435, 0x0020,
      0x043F, 0x0440, 0x0435, 0x0434, 0x043E, 0x0441, 0x0442, 0x0430, 0x0432, 0x043B,
      0x0435, 0x043D, 0x002E]"

definition MSG_UNSUPPORTED :: jsstring where
  "MSG_UNSUPPORTED =
     [0x041D, 0x0435, 0x043F, 0x043E, 0x0434, 0x0434, 0x0435, 0x0440, 0x0436, 0x0438,
      0x0432, 0x0430, 0x0435, 0x043C, 0x044B, 0x0439, 0x0020, 0x0438, 0x043B, 0x0438,
      0x0020, 0x043E, 0x0442, 0x0441, 0x0443, 0x0442, 0x0441, 0x0442, 0x0432, 0x0443,
      0x044E, 0x0449, 0x0438, 0x0439, 0x0020] @ js ''Content-Type: ''"

definition MSG_INTERNAL :: jsstring where
  "MSG_INTERNAL =
     [0x0412, 0x043D, 0x0443, 0x0442, 0x0440, 0x0435, 0x043D, 0x043D, 0x044F, 0x044F,
      0x0020, 0x043E, 0x0448, 0x0438, 0x0431, 0x043A, 0x0430, 0x0020, 0x0441, 0x0435,
      0x0440, 0x0432, 0x0435, 0x0440, 0x0430, 0x002E]"

definition config_error :: "jsstring \<Rightarrow> reply" where
  "config_error msg = \<lparr>statusCode = 500, headers = json_headers, body = ErrorBody msg\<rparr>"

definition Date_now :: "nat io" where
  "Date_now = (\<lambda>w. (Inr (clock w), w))"

text \<open>
  The block that loads, resets or creates the session; the source has it twice, word
  for word, in the multipart branch and after the JSON branch.
\<close>

definition resolveSession :: "jsstring option \<Rightarrow> bool \<Rightarrow> jsstring option \<Rightarrow> session io" where
  "resolveSession sessionId resetContext system =
     bind_io
       (if truthy sessionId
        then bind_io (getSession sessionId) (\<lambda>session.
             (case session of
                Some s \<Rightarrow>
                  if resetContext
                  then bind_io Date_now (\<lambda>now.
                       return_io (Some (s\<lparr>messages := [], lastActivity := now\<rparr>)))
                  else return_io (Some s)
              | None \<Rightarrow> return_io None))
        else return_io None) (\<lambda>session.
     (case session of
        None \<Rightarrow> bind_io Date_now (\<lambda>now. return_io (createNewSession (or_empty system) now))
      | Some s \<Rightarrow> return_io s))"

text \<open>
  The block that appends the two turns, trims and saves; \<open>userText\<close> is
  \<open>transcript || prompt\<close> in the multipart branch and \<open>requestParts[0]\<close> in the JSON one.
\<close>

definition persistTurns ::
  "jsstring option \<Rightarrow> session \<Rightarrow> jsstring option \<Rightarrow> jsstring option \<Rightarrow> session io" where
  "persistTurns sessionId session userText text =
     (if truthy sessionId
      then bind_io Date_now (\<lambda>now.
           let msgs = messages session @ [\<lparr>role = User, msg_text = userText, timestamp = Some now\<rparr>];
               msgs = msgs @ [\<lparr>role = Assistant, msg_text = text, timestamp = Some now\<rparr>];
               session = session\<lparr>messages := trimSessionHistory msgs MAX_MESSAGES_IN_SESSION\<rparr>;
               session = session\<lparr>lastActivity := now\<rparr>
           in bind_io (saveSession sessionId session) (\<lambda>u. return_io session))
      else return_io session)"

text \<open>
  The provider chains. \<open>Inl\<close> is the response of an early \<open>return\<close> (missing
  credentials); \<open>Inr\<close> carries \<open>text\<close> and \<open>transcript\<close>, \<open>undefined\<close> when no
  branch assigned them.
\<close>

definition dispatch_audio ::
  "env \<Rightarrow> jsstring \<Rightarrow> turn list \<Rightarrow> bytes \<Rightarrow> jsstring option
     \<Rightarrow> (reply + jsstring option \<times> jsstring option) io" where
  "dispatch_audio e provider messagesForProvider audio audioFormat =
     (if provider = js ''openai''
      then if \<not> truthy (OPENAI_API_KEY e)
           then return_io (Inl (config_error (js ''OPENAI_API_KEY'' @ MSG_NOT_SET)))
           else bind_io (generateTextWithOpenAIAndAudio (or_empty (OPENAI_API_KEY e))
                           (InputTurns messagesForProvider) audio) (\<lambda>res.
                return_io (Inr (Some (ar_message res), Some (ar_transcript res))))
      else if provider = js ''gemini''
      then if \<not> truthy (GEMINI_API_KEY e)
           then return_io (Inl (config_error (js ''GEMINI_API_KEY'' @ MSG_NOT_SET)))
           else bind_io (generateTextWithGeminiAndAudio (or_empty (GEMINI_API_KEY e))
                           (InputTurns messagesForProvider) audio) (\<lambda>text.
                return_io (Inr (Some text, None)))
      else if provider = js ''yandex''
      then if \<not> truthy (YANDEX_API_KEY e) \<or> \<not> truthy (YANDEX_FOLDER_ID e)
           then return_io (Inl (config_error
                  (js ''YANDEX_API_KEY/YANDEX_FOLDER_ID'' @ MSG_NOT_SET_PLURAL)))
           else bind_io (generateTextWithYandexAndAudio (or_empty (YANDEX_API_KEY e))
                           (or_empty (YANDEX_FOLDER_ID e)) (InputTurns messagesForProvider) audio
                           \<lparr>lang = Some (js ''ru-RU''),
                            format = Some (if truthy audioFormat then or_empty audioFormat
                                           else js ''oggopus''),
                            sampleRateHertz = Some 48000\<rparr>) (\<lambda>res.
                return_io (Inr (Some (ar_message res), Some (ar_transcript res))))
      else return_io (Inr (None, None)))"

definition dispatch_text ::
  "env \<Rightarrow> jsstring \<Rightarrow> turn list \<Rightarrow> yandex_options \<Rightarrow> (reply + jsstring option) io" where
  "dispatch_text e provider messagesForProvider options =
     (if provider = js ''openai''
      then if \<not> truthy (OPENAI_API_KEY e)
           then return_io (Inl (config_error (js ''OPENAI_API_KEY'' @ MSG_NOT_SET)))
           else bind_io (generateTextWithOpenAI (or_empty (OPENAI_API_KEY e))
                           (InputTurns messagesForProvider)) (\<lambda>text.
                return_io (Inr (Some text)))
      else if provider = js ''gemini''
      then if \<not> truthy (GEMINI_API_KEY e)
           then return_io (Inl (config_error (js ''GEMINI_API_KEY'' @ MSG_NOT_SET)))
           else bind_io (generateTextWithGemini (or_empty (GEMINI_API_KEY e))
                           (InputTurns messagesForProvider)) (\<lambda>text.
                return_io (Inr (Some text)))
      else if provider = js ''yandex''
      then if \<not> truthy (YANDEX_API_KEY e) \<or> \<not> truthy (YANDEX_FOLDER_ID e)
           then return_io (Inl (config_error
                  (js ''YANDEX_API_KEY/YANDEX_FOLDER_ID'' @ MSG_NOT_SET_PLURAL)))
           else bind_io (generateTextWithYandex (or_empty (YANDEX_API_KEY e))
                           (or_empty (YANDEX_FOLDER_ID e)) (InputTurns messagesForProvider)
                           (Some options)) (\<lambda>text.
                return_io (Inr (Some text)))
      else return_io (Inr None))"

definition ended_reply :: "jsstring option \<Rightarrow> jsstring \<Rightarrow> reply" where
  "ended_reply sessionId provider =
     \<lparr>statusCode = 200, headers = json_headers,
      body = EndedBody MSG_SESSION_ENDED sessionId provider\<rparr>"

definition handler_multipart :: "env \<Rightarrow> jsstring \<Rightarrow> form \<Rightarrow> reply io" where
  "handler_multipart e provider parsed =
     (let prompt = f_prompt parsed;
          system = f_system parsed;
          sessionId = f_sessionId parsed;
          endSession = (f_endSession parsed = Some (js ''true''));
          resetContext = (f_resetContext parsed = Some (js ''true''));
          audioFormat = f_audioFormat parsed;
          audioFile = find (\<lambda>f. fst f = js ''audio'') (files parsed)
      in case audioFile of
           None \<Rightarrow> throw (Error MSG_NO_AUDIO)
         | Some audioFile \<Rightarrow>
             if endSession \<and> truthy sessionId
             then bind_io (deleteSession sessionId) (\<lambda>u.
                  return_io (ended_reply sessionId provider))
             else bind_io (resolveSession sessionId resetContext system) (\<lambda>session.
                  let messagesForProvider =
                        formatMessagesForProvider (Some (systemPrompt session))
                          (messages session) prompt
                  in bind_io (dispatch_audio e provider messagesForProvider (snd audioFile)
                                audioFormat) (\<lambda>res.
                     (case res of
                        Inl early \<Rightarrow> return_io early
                      | Inr (text, transcript) \<Rightarrow>
                          bind_io (persistTurns sessionId session (js_or transcript prompt) text)
                            (\<lambda>session.
                          return_io
                            \<lparr>statusCode = 200, headers = json_headers,
                             body = SuccessBody text provider transcript sessionId
                                      (length (messages session) div 2)\<rparr>)))))"

text \<open>The code after the content-type branches, reached from the JSON branch only.\<close>

definition handler_text :: "env \<Rightarrow> jsstring \<Rightarrow> request_body \<Rightarrow> reply io" where
  "handler_text e provider b =
     (let requestParts = [b_prompt b]
      in if b_endSession b \<and> truthy (b_sessionId b)
         then bind_io (deleteSession (b_sessionId b)) (\<lambda>u.
              return_io (ended_reply (b_sessionId b) provider))
         else bind_io (resolveSession (b_sessionId b) (b_resetContext b) (b_system b)) (\<lambda>session.
              let messagesForProvider =
                    formatMessagesForProvider (Some (systemPrompt session))
                      (messages session) (requestParts ! 0)
              in bind_io (dispatch_text e provider messagesForProvider
                            \<lparr>modelName = modelName b, modelUri = modelUri b,
                             temperature = temperature b, maxTokens = maxTokens b\<rparr>) (\<lambda>res.
                 (case res of
                    Inl early \<Rightarrow> return_io early
                  | Inr text \<Rightarrow>
                      bind_io (persistTurns (b_sessionId b) session (requestParts ! 0) text)
                        (\<lambda>session.
                      return_io
                        \<lparr>statusCode = 200, headers = json_headers,
                         body = SuccessBody text provider None (b_sessionId b)
                                  (length (messages session) div 2)\<rparr>)))))"

definition handler_try :: "env \<Rightarrow> jsstring \<Rightarrow> event \<Rightarrow> reply io" where
  "handler_try e provider ev =
     (let contentType = js_or (content_type ev) (Content_Type ev)
      in if truthy contentType \<and> startsWith (js ''multipart/form-data'') (or_empty contentType)
         then bind_io (lift_result (multipart ev)) (\<lambda>parsed.
              handler_multipart e provider parsed)
         else if truthy contentType \<and> startsWith (js ''application/json'') (or_empty contentType)
         then bind_io (lift_result (json ev)) (\<lambda>b.
              if \<not> truthy (b_prompt b) then throw (Error MSG_NO_PROMPT)
              else handler_text e provider b)
         else throw (Error (MSG_UNSUPPORTED @ to_str contentType)))"

definition handler :: "env \<Rightarrow> event \<Rightarrow> world \<Rightarrow> reply \<times> world" where
  "handler e ev w =
     (if httpMethod ev = js ''OPTIONS''
      then (\<lparr>statusCode = 204,
             headers = [(''Access-Control-Allow-Origin'', ALLOWED_ORIGIN),
                        (''Access-Control-Allow-Headers'', ''Content-Type''),
                        (''Access-Control-Allow-Methods'', ''POST, OPTIONS'')],
             body = EmptyBody\<rparr>, w)
      else if httpMethod ev \<noteq> js ''POST''
      then (\<lparr>statusCode = 405, headers = json_headers,
             body = ErrorBody (js ''Method Not Allowed'')\<rparr>, w)
      else
        (let provider = toLowerCase (or_empty (js_or (AI_PROVIDER e) (Some (js ''gemini''))))
         in case handler_try e provider ev w of
              (Inl error, w') \<Rightarrow>
                (\<lparr>statusCode = 500, headers = json_headers,
                  body = ErrorBody (or_empty (js_or (Some (error_message error))
                                                (Some MSG_INTERNAL)))\<rparr>, w')
            | (Inr r, w') \<Rightarrow> (r, w')))"

section \<open>Notions used in the statements and proofs\<close>

text \<open>
  A computation stays within a relation on worlds when the world it ends in is related
  to the one it starts from, whatever it returns or throws.
\<close>

definition preorder_rel :: "(world \<Rightarrow> world \<Rightarrow> bool) \<Rightarrow> bool" where
  "preorder_rel R \<longleftrightarrow> (\<forall>w. R w w) \<and> (\<forall>a b c. R a b \<longrightarrow> R b c \<longrightarrow> R a c)"

definition steps_in :: "(world \<Rightarrow> world \<Rightarrow> bool) \<Rightarrow> 'a io \<Rightarrow> bool" where
  "steps_in R m \<longleftrightarrow> (\<forall>w. R w (snd (m w)))"

definition same_store :: "world \<Rightarrow> world \<Rightarrow> bool" where
  "same_store w w' \<longleftrightarrow>
     blobs w' = blobs w \<and> store_script w' = store_script w \<and> clock w' = clock w"

definition same_net :: "world \<Rightarrow> world \<Rightarrow> bool" where
  "same_net w w' \<longleftrightarrow>
     net_log w' = net_log w \<and> net_script w' = net_script w \<and> clock w' = clock w"

text \<open>The spec's wording of "non-empty after trimming whitespace".\<close>

definition nonblank :: "jsstring \<Rightarrow> bool" where
  "nonblank s = (\<exists>c \<in> set s. \<not> isWhiteSpace c)"

text \<open>The 1:1 mappings of a turn to the message shapes of OpenAI and Yandex.\<close>

definition to_chat :: "turn \<Rightarrow> chat_message" where
  "to_chat msg = \<lparr>cm_role = role msg, cm_content = msg_text msg\<rparr>"

definition to_yandex :: "turn \<Rightarrow> yandex_message" where
  "to_yandex msg = \<lparr>ym_role = role msg, ym_text = msg_text msg\<rparr>"

text \<open>The provider a network call goes to.\<close>

fun call_provider :: "net_call \<Rightarrow> jsstring" where
  "call_provider (OpenAIChat k m ms) = js ''openai''"
| "call_provider (OpenAITranscribe k m a) = js ''openai''"
| "call_provider (MistralChat k m ms sp) = js ''mistral''"
| "call_provider (YandexCompletion k u t n ms) = js ''yandex''"
| "call_provider (YandexSTT k f l fm r a) = js ''yandex''"
| "call_provider (GeminiGenerate k s ps a) = js ''gemini''"

definition calls_only :: "(net_call \<Rightarrow> bool) \<Rightarrow> world \<Rightarrow> world \<Rightarrow> bool" where
  "calls_only P w w' \<longleftrightarrow> (\<exists>more. net_log w' = net_log w @ more \<and> (\<forall>c \<in> set more. P c))"

definition makes_call :: "(net_call \<Rightarrow> bool) \<Rightarrow> 'a io \<Rightarrow> bool" where
  "makes_call P m \<longleftrightarrow>
     (\<forall>w. \<exists>c more. net_log (snd (m w)) = net_log w @ c # more \<and> P c \<and> (\<forall>c \<in> set more. P c))"

text \<open>The provider selector of the deployment and the credentials its adapter needs.\<close>

definition selected_provider :: "env \<Rightarrow> jsstring" where
  "selected_provider e = toLowerCase (or_empty (js_or (AI_PROVIDER e) (Some (js ''gemini''))))"

definition credentials_present :: "env \<Rightarrow> jsstring \<Rightarrow> bool" where
  "credentials_present e p \<longleftrightarrow>
     (p = js ''openai'' \<and> truthy (OPENAI_API_KEY e))
     \<or> (p = js ''gemini'' \<and> truthy (GEMINI_API_KEY e))
     \<or> (p = js ''yandex'' \<and> truthy (YANDEX_API_KEY e) \<and> truthy (YANDEX_FOLDER_ID e))"

text \<open>The last turn of a list with the transcript suffix appended to its text.\<close>

definition append_transcript :: "turn list \<Rightarrow> jsstring \<Rightarrow> turn list" where
  "append_transcript ts t =
     butlast ts @ [(last ts)\<lparr>msg_text := Some (to_str (msg_text (last ts)) @ transcription_suffix t)\<rparr>]"

text \<open>The invariant of the persisted sessions.\<close>

definition store_inv :: "(jsstring \<rightharpoonup> session) \<Rightarrow> bool" where
  "store_inv b \<longleftrightarrow>
     (\<forall>k s. b k = Some s \<longrightarrow> even (length (messages s)) \<and> length (messages s) \<le> 20)"

text \<open>The session after the two turns of an exchange at time \<open>now\<close> are appended and the list is trimmed.\<close>

definition appended :: "session \<Rightarrow> jsstring option \<Rightarrow> jsstring option \<Rightarrow> nat \<Rightarrow> session" where
  "appended s ut t now =
     s\<lparr>messages := trimSessionHistory
          (messages s @ [\<lparr>role = User, msg_text = ut, timestamp = Some now\<rparr>,
                         \<lparr>role = Assistant, msg_text = t, timestamp = Some now\<rparr>])
          MAX_MESSAGES_IN_SESSION,
       lastActivity := now\<rparr>"

text \<open>What one invocation may do to the blob store: nothing, delete a key, or save an appended session.\<close>

definition session_effect :: "(jsstring \<rightharpoonup> session) \<Rightarrow> (jsstring \<rightharpoonup> session) \<Rightarrow> bool" where
  "session_effect b b' \<longleftrightarrow>
     b' = b \<or> (\<exists>k. b' = b(k := None))
     \<or> (\<exists>k s ut t now. b' = b(k \<mapsto> appended s ut t now)
           \<and> (messages s = [] \<or> (\<exists>s0. b k = Some s0 \<and> messages s = messages s0)))"

section \<open>Example values\<close>

definition example_response :: "nat \<Rightarrow> jsstring \<Rightarrow> http_response" where
  "example_response st t =
     \<lparr>status = st, body_text = Inr t, body_json = Inr (Some t), reparsed = Inr (Some t)\<rparr>"

definition example_env :: "jsstring \<Rightarrow> jsstring option \<Rightarrow> env" where
  "example_env p k =
     \<lparr>AI_PROVIDER = Some p, GEMINI_API_KEY = k, OPENAI_API_KEY = k,
      YANDEX_API_KEY = k, YANDEX_FOLDER_ID = k\<rparr>"

definition example_turn :: "role \<Rightarrow> turn" where
  "example_turn r = \<lparr>role = r, msg_text = Some (js ''earlier''), timestamp = Some 1\<rparr>"

definition example_session :: "turn list \<Rightarrow> session" where
  "example_session ms =
     \<lparr>systemPrompt = js ''Sys'', messages = ms, createdAt = 1, lastActivity = 1\<rparr>"

definition example_world :: "(jsstring \<rightharpoonup> session) \<Rightarrow> fetch_outcome list \<Rightarrow> world" where
  "example_world b script =
     \<lparr>blobs = b, store_script = [], net_script = script, net_log = [], clock = 7\<rparr>"

definition example_body :: "jsstring option \<Rightarrow> jsstring option \<Rightarrow> bool \<Rightarrow> request_body" where
  "example_body p sid ends =
     \<lparr>modelName = None, modelUri = None, temperature = None, maxTokens = None,
      b_prompt = p, b_system = None, b_sessionId = sid, b_endSession = ends,
      b_resetContext = False\<rparr>"

definition example_json_event :: "request_body \<Rightarrow> event" where
  "example_json_event b =
     \<lparr>httpMethod = js ''POST'', content_type = Some (js ''application/json''),
      Content_Type = None, multipart = Inl (Error []), json = Inr b\<rparr>"

definition example_form :: "jsstring option \<Rightarrow> jsstring option \<Rightarrow> (jsstring \<times> bytes) list \<Rightarrow> form" where
  "example_form sid ends fs =
     \<lparr>f_prompt = Some (js ''Hi''), f_system = None, f_sessionId = sid, f_endSession = ends,
      f_resetContext = None, f_audioFormat = None, files = fs\<rparr>"

definition example_multipart_event :: "form \<Rightarrow> event" where
  "example_multipart_event f =
     \<lparr>httpMethod = js ''POST'',
      content_type = Some (js ''multipart/form-data; boundary=x''),
      Content_Type = None, multipart = Inr f, json = Inl (Error [])\<rparr>"

section \<open>Theorems\<close>

lemma dropWhile_all_iff:
  "(\<forall>x \<in> set (dropWhile P xs). P x) \<longleftrightarrow> dropWhile P xs = []"
proof
  assume all: "\<forall>x \<in> set (dropWhile P xs). P x"
  show "dropWhile P xs = []"
  proof (cases "dropWhile P xs")
    case Nil
    then show ?thesis .
  next
    case (Cons y ys)
    then have "\<not> P y" using hd_dropWhile [of P xs] by simp
    moreover have "y \<in> set (dropWhile P xs)" using Cons by simp
    ultimately show ?thesis using all by blast
  qed
qed (auto dest: set_dropWhileD)

lemma trim_nonempty_iff: "trim s \<noteq> [] \<longleftrightarrow> nonblank s"
proof -
  have "trim s = [] \<longleftrightarrow> (\<forall>x \<in> set (dropWhile isWhiteSpace s). isWhiteSpace x)"
    by (simp add: trim_def dropWhile_eq_Nil_conv)
  also have "\<dots> \<longleftrightarrow> dropWhile isWhiteSpace s = []"
    by (rule dropWhile_all_iff)
  also have "\<dots> \<longleftrightarrow> (\<forall>x \<in> set s. isWhiteSpace x)"
    by (simp add: dropWhile_eq_Nil_conv)
  finally show ?thesis by (auto simp: nonblank_def)
qed

subsection \<open>Message model\<close>

lemma truthy_trim_iff:
  "truthy (Some s) \<and> trim (or_empty (Some s)) \<noteq> [] \<longleftrightarrow> nonblank s"
  using trim_nonempty_iff [of s] by (auto simp: truthy_def or_empty_def nonblank_def)

text \<open>
  Claim C3. For strings \<open>sp\<close> and \<open>newUserText\<close> and any history,
  \<open>formatMessagesForProvider\<close> (the spec's \<open>buildProviderTurns\<close>) yields a system turn
  exactly when \<open>sp\<close> has a non-whitespace code unit, then the history unchanged and in
  order, then a user turn exactly when \<open>newUserText\<close> has a non-whitespace code unit.
  On \<open>("", [], "")\<close> the result is empty, on \<open>("Sys", [], "Hi")\<close> it is the system
  turn "Sys" followed by the user turn "Hi".
\<close>

theorem formatMessagesForProvider_contract:
  "formatMessagesForProvider (Some sp) history (Some newUserText) =
     (if nonblank sp
      then [\<lparr>role = System, msg_text = Some sp, timestamp = None\<rparr>] else [])
     @ history
     @ (if nonblank newUserText
        then [\<lparr>role = User, msg_text = Some newUserText, timestamp = None\<rparr>] else [])
   \<and> formatMessagesForProvider (Some (js [])) [] (Some (js [])) = []
   \<and> formatMessagesForProvider (Some (js ''Sys'')) [] (Some (js ''Hi'')) =
       [\<lparr>role = System, msg_text = Some (js ''Sys''), timestamp = None\<rparr>,
        \<lparr>role = User, msg_text = Some (js ''Hi''), timestamp = None\<rparr>]"
proof -
  have gen: "formatMessagesForProvider (Some s) h (Some nu) =
     (if nonblank s then [\<lparr>role = System, msg_text = Some s, timestamp = None\<rparr>] else [])
     @ h @ (if nonblank nu then [\<lparr>role = User, msg_text = Some nu, timestamp = None\<rparr>] else [])"
    for s h nu
    unfolding formatMessagesForProvider_def Let_def
    using truthy_trim_iff [of s] truthy_trim_iff [of nu] by simp
  have e: "\<not> nonblank (js [])" by (simp add: nonblank_def js_def)
  have s: "nonblank (js ''Sys'')" by (simp add: nonblank_def js_def isWhiteSpace_def)
  have h: "nonblank (js ''Hi'')" by (simp add: nonblank_def js_def isWhiteSpace_def)
  show ?thesis using gen e s h by simp
qed

theorem formatMessagesForProvider_contract_witness:
  "formatMessagesForProvider (Some (js '' ''))
     [\<lparr>role = Assistant, msg_text = Some (js ''ok''), timestamp = Some 1\<rparr>]
     (Some (js ''a b'')) =
     [\<lparr>role = Assistant, msg_text = Some (js ''ok''), timestamp = Some 1\<rparr>,
      \<lparr>role = User, msg_text = Some (js ''a b''), timestamp = None\<rparr>]"
proof -
  have e: "\<not> nonblank (js '' '')" by (simp add: nonblank_def js_def isWhiteSpace_def)
  have h: "nonblank (js ''a b'')" by (simp add: nonblank_def js_def isWhiteSpace_def)
  show ?thesis
    using formatMessagesForProvider_contract [of "js '' ''"
        "[\<lparr>role = Assistant, msg_text = Some (js ''ok''), timestamp = Some 1\<rparr>]" "js ''a b''"] e h
    by simp
qed

lemma slice_from_neg: "0 < n \<Longrightarrow> slice_from (- n) xs = drop (length xs - nat n) xs"
  by (auto simp: slice_from_def Let_def max_def nat_diff_distrib'
           intro: arg_cong [where f = "\<lambda>k. drop k xs"])

lemma trimSessionHistory_pos:
  "0 < maxLen \<Longrightarrow> trimSessionHistory h maxLen =
     (if int (length h) \<le> maxLen then h else drop (length h - nat maxLen) h)"
  by (simp add: trimSessionHistory_def slice_from_neg)




subsection \<open>Computations and the relations they stay in\<close>

lemma preorder_same_store: "preorder_rel same_store"
  by (simp add: preorder_rel_def same_store_def)

lemma preorder_same_net: "preorder_rel same_net"
  by (simp add: preorder_rel_def same_net_def)

lemma preorder_calls_only: "preorder_rel (calls_only P)"
  unfolding preorder_rel_def calls_only_def
proof (intro conjI allI impI)
  fix w show "\<exists>more. net_log w = net_log w @ more \<and> (\<forall>c\<in>set more. P c)"
    by (rule exI [of _ "[]"]) simp
next
  fix a b c
  assume "\<exists>more. net_log b = net_log a @ more \<and> (\<forall>c\<in>set more. P c)"
    and "\<exists>more. net_log c = net_log b @ more \<and> (\<forall>c\<in>set more. P c)"
  then obtain m1 m2 where "net_log b = net_log a @ m1" "\<forall>c\<in>set m1. P c"
    "net_log c = net_log b @ m2" "\<forall>c\<in>set m2. P c" by blast
  then show "\<exists>more. net_log c = net_log a @ more \<and> (\<forall>c\<in>set more. P c)"
    by (intro exI [of _ "m1 @ m2"]) auto
qed

lemma steps_in_return: "preorder_rel R \<Longrightarrow> steps_in R (return_io x)"
  by (simp add: steps_in_def return_io_def preorder_rel_def)

lemma steps_in_throw: "preorder_rel R \<Longrightarrow> steps_in R (throw e)"
  by (simp add: steps_in_def throw_def preorder_rel_def)

lemma steps_in_lift_result: "preorder_rel R \<Longrightarrow> steps_in R (lift_result r)"
  by (simp add: steps_in_def lift_result_def preorder_rel_def)

lemma steps_in_bind:
  assumes "preorder_rel R" "steps_in R m" "\<And>x. steps_in R (f x)"
  shows "steps_in R (bind_io m f)"
  unfolding steps_in_def
proof
  fix w
  have a: "R w (snd (m w))" using assms(2) by (simp add: steps_in_def)
  show "R w (snd (bind_io m f w))"
  proof (cases "m w")
    case (Pair r w1)
    show ?thesis
    proof (cases r)
      case (Inl e)
      then show ?thesis using a Pair by (simp add: bind_io_def)
    next
      case (Inr x)
      have "R w1 (snd (f x w1))" using assms(3) by (simp add: steps_in_def)
      then show ?thesis using a Pair Inr assms(1) by (auto simp: bind_io_def preorder_rel_def)
    qed
  qed
qed

lemma steps_in_try_catch:
  assumes "preorder_rel R" "steps_in R m" "\<And>x. steps_in R (h x)"
  shows "steps_in R (try_catch m h)"
  unfolding steps_in_def
proof
  fix w
  have a: "R w (snd (m w))" using assms(2) by (simp add: steps_in_def)
  show "R w (snd (try_catch m h w))"
  proof (cases "m w")
    case (Pair r w1)
    show ?thesis
    proof (cases r)
      case (Inr x)
      then show ?thesis using a Pair by (simp add: try_catch_def)
    next
      case (Inl e)
      have "R w1 (snd (h e w1))" using assms(3) by (simp add: steps_in_def)
      then show ?thesis using a Pair Inl assms(1) by (auto simp: try_catch_def preorder_rel_def)
    qed
  qed
qed

lemma steps_in_if:
  "steps_in R a \<Longrightarrow> steps_in R b \<Longrightarrow> steps_in R (if c then a else b)"
  by simp

lemma steps_in_case_prod:
  "(\<And>a b. steps_in R (f a b)) \<Longrightarrow> steps_in R (case p of (a, b) \<Rightarrow> f a b)"
  by (cases p) simp

lemma steps_in_case_sum:
  "(\<And>a. steps_in R (f a)) \<Longrightarrow> (\<And>b. steps_in R (g b)) \<Longrightarrow>
   steps_in R (case s of Inl a \<Rightarrow> f a | Inr b \<Rightarrow> g b)"
  by (cases s) simp_all

lemma steps_in_case_option:
  "steps_in R f \<Longrightarrow> (\<And>b. steps_in R (g b)) \<Longrightarrow>
   steps_in R (case s of None \<Rightarrow> f | Some b \<Rightarrow> g b)"
  by (cases s) simp_all

lemma steps_in_case_input:
  "(\<And>s. steps_in R (f s)) \<Longrightarrow> (\<And>p s. steps_in R (g p s)) \<Longrightarrow> (\<And>ts. steps_in R (h ts)) \<Longrightarrow>
   steps_in R (case i of InputString s \<Rightarrow> f s | InputObject p s \<Rightarrow> g p s | InputTurns ts \<Rightarrow> h ts)"
  by (cases i) simp_all

lemma steps_in_Let: "steps_in R (f x) \<Longrightarrow> steps_in R (Let x f)"
  by simp

lemmas steps_in_rules =
  steps_in_return steps_in_throw steps_in_lift_result steps_in_bind steps_in_try_catch
  steps_in_if steps_in_case_prod steps_in_case_sum steps_in_case_option steps_in_case_input
  steps_in_Let

lemma steps_inD: "steps_in R m \<Longrightarrow> m w = (r, w') \<Longrightarrow> R w w'"
  by (auto simp: steps_in_def dest: spec [of _ w])

subsection \<open>The network and the store, step by step\<close>

lemma fetch_responded:
  "net_script w = Responded r # rest \<Longrightarrow>
   fetch call w = (Inr r, w\<lparr>net_log := net_log w @ [call], net_script := rest\<rparr>)"
  by (simp add: fetch_def Let_def)

lemma fetch_same_store: "steps_in same_store (fetch call)"
  by (simp add: steps_in_def same_store_def fetch_def Let_def
           split: list.splits fetch_outcome.splits)

lemma fetch_calls_only: "P call \<Longrightarrow> steps_in (calls_only P) (fetch call)"
  by (simp add: steps_in_def calls_only_def fetch_def Let_def
           split: list.splits fetch_outcome.splits)

lemma Date_now_same_store: "steps_in same_store Date_now"
  by (simp add: steps_in_def same_store_def Date_now_def)

lemma Date_now_same_net: "steps_in same_net Date_now"
  by (simp add: steps_in_def same_net_def Date_now_def)

lemma store_ops_same_net:
  "steps_in same_net (store_get k)" "steps_in same_net (store_set k v)"
  "steps_in same_net (store_delete k)"
  by (simp_all add: steps_in_def same_net_def store_get_def store_set_def store_delete_def
        next_fault_def split: list.splits option.splits)

lemma gateway_same_net:
  "steps_in same_net (getSession sid)" "steps_in same_net (saveSession sid s)"
  "steps_in same_net (deleteSession sid)"
  unfolding getSession_def saveSession_def deleteSession_def
  by (intro steps_in_rules preorder_same_net store_ops_same_net)+

lemma resolveSession_same_net: "steps_in same_net (resolveSession sid rc sys)"
  unfolding resolveSession_def
  by (intro steps_in_rules preorder_same_net gateway_same_net Date_now_same_net)

lemma persistTurns_same_net: "steps_in same_net (persistTurns sid s ut t)"
  unfolding persistTurns_def
  by (intro steps_in_rules preorder_same_net gateway_same_net Date_now_same_net)

lemma same_net_calls_only: "steps_in same_net m \<Longrightarrow> steps_in (calls_only P) m"
  by (auto simp: steps_in_def same_net_def calls_only_def)

subsection \<open>Adapters\<close>

lemma adapters_same_store:
  "steps_in same_store (generateTextWithOpenAI key input)"
  "steps_in same_store (generateTextWithOpenAIAndAudio key input audio)"
  "steps_in same_store (generateTextWithMistral key input)"
  "steps_in same_store (generateTextWithYandex key folder input options)"
  "steps_in same_store (transcribeWithYandexSTT key folder audio opts)"
  "steps_in same_store (generateTextWithGemini key input)"
  "steps_in same_store (generateTextWithGeminiAndAudio key input audio)"
  unfolding generateTextWithOpenAI_def generateTextWithOpenAIAndAudio_def
    generateTextWithMistral_def generateTextWithYandex_def transcribeWithYandexSTT_def
    generateTextWithGemini_def generateTextWithGeminiAndAudio_def generateContent_def
  by (intro steps_in_rules preorder_same_store fetch_same_store)+

lemma yandex_audio_same_store:
  "steps_in same_store (generateTextWithYandexAndAudio key folder input audio opts)"
  unfolding generateTextWithYandexAndAudio_def
  by (intro steps_in_rules preorder_same_store adapters_same_store)

lemma dispatch_same_store:
  "steps_in same_store (dispatch_text e p msgs options)"
  "steps_in same_store (dispatch_audio e p msgs audio fmt)"
  unfolding dispatch_text_def dispatch_audio_def
  by (intro steps_in_rules preorder_same_store adapters_same_store yandex_audio_same_store)+

lemma makes_call_fetch_bind:
  assumes "P c" "\<And>x. steps_in (calls_only P) (f x)"
  shows "makes_call P (bind_io (fetch c) f)"
  unfolding makes_call_def
proof
  fix w
  obtain r w1 where f: "fetch c w = (r, w1)" by (cases "fetch c w")
  have l: "net_log w1 = net_log w @ [c]"
    using f by (auto simp: fetch_def Let_def split: list.splits fetch_outcome.splits)
  show "\<exists>c' more. net_log (snd (bind_io (fetch c) f w)) = net_log w @ c' # more \<and> P c'
          \<and> (\<forall>c\<in>set more. P c)"
  proof (cases r)
    case (Inl e)
    then show ?thesis using f l assms(1) by (simp add: bind_io_def)
  next
    case (Inr x)
    have "calls_only P w1 (snd (f x w1))" using assms(2) by (simp add: steps_in_def)
    then obtain more where "net_log (snd (f x w1)) = net_log w1 @ more" "\<forall>c\<in>set more. P c"
      by (auto simp: calls_only_def)
    then show ?thesis using f l Inr assms(1) by (simp add: bind_io_def)
  qed
qed

lemma makes_call_bind:
  assumes "makes_call P m" "\<And>x. steps_in (calls_only P) (f x)"
  shows "makes_call P (bind_io m f)"
  unfolding makes_call_def
proof
  fix w
  obtain r w1 where f: "m w = (r, w1)" by (cases "m w")
  obtain c more where l: "net_log w1 = net_log w @ c # more" "P c" "\<forall>c\<in>set more. P c"
    using assms(1) f unfolding makes_call_def by (metis snd_conv)
  show "\<exists>c' more. net_log (snd (bind_io m f w)) = net_log w @ c' # more \<and> P c'
          \<and> (\<forall>c\<in>set more. P c)"
  proof (cases r)
    case (Inl e)
    then show ?thesis using f l by (simp add: bind_io_def)
  next
    case (Inr x)
    have "calls_only P w1 (snd (f x w1))" using assms(2) by (simp add: steps_in_def)
    then obtain more' where "net_log (snd (f x w1)) = net_log w1 @ more'" "\<forall>c\<in>set more'. P c"
      by (auto simp: calls_only_def)
    then show ?thesis using f l Inr
      by (intro exI [of _ c] exI [of _ "more @ more'"]) (auto simp: bind_io_def)
  qed
qed

lemma makes_call_case_input:
  "(\<And>s. makes_call R (f s)) \<Longrightarrow> (\<And>p s. makes_call R (g p s)) \<Longrightarrow> (\<And>ts. makes_call R (h ts)) \<Longrightarrow>
   makes_call R (case i of InputString s \<Rightarrow> f s | InputObject p s \<Rightarrow> g p s | InputTurns ts \<Rightarrow> h ts)"
  by (cases i) simp_all

lemma makes_call_case_prod:
  "(\<And>a b. makes_call R (f a b)) \<Longrightarrow> makes_call R (case p of (a, b) \<Rightarrow> f a b)"
  by (cases p) simp

lemma makes_call_Let: "makes_call R (f x) \<Longrightarrow> makes_call R (Let x f)"
  by simp

lemmas makes_call_rules =
  makes_call_fetch_bind makes_call_bind makes_call_case_input makes_call_case_prod makes_call_Let

lemma openai_calls:
  "makes_call (\<lambda>c. call_provider c = js ''openai'') (generateTextWithOpenAI key input)"
  "makes_call (\<lambda>c. call_provider c = js ''openai'') (generateTextWithOpenAIAndAudio key input audio)"
  unfolding generateTextWithOpenAI_def generateTextWithOpenAIAndAudio_def
  by (intro makes_call_rules steps_in_rules preorder_calls_only fetch_calls_only; simp)+

lemma gemini_calls:
  "makes_call (\<lambda>c. call_provider c = js ''gemini'') (generateTextWithGemini key input)"
  "makes_call (\<lambda>c. call_provider c = js ''gemini'') (generateTextWithGeminiAndAudio key input audio)"
  unfolding generateTextWithGemini_def generateTextWithGeminiAndAudio_def generateContent_def
  by (intro makes_call_rules steps_in_rules preorder_calls_only fetch_calls_only; simp)+

lemma yandex_text_calls_only:
  "steps_in (calls_only (\<lambda>c. call_provider c = js ''yandex'')) (generateTextWithYandex key folder input options)"
  unfolding generateTextWithYandex_def
  by (intro steps_in_rules preorder_calls_only fetch_calls_only; simp)

lemma yandex_calls:
  "makes_call (\<lambda>c. call_provider c = js ''yandex'') (generateTextWithYandex key folder input options)"
  "makes_call (\<lambda>c. call_provider c = js ''yandex'') (generateTextWithYandexAndAudio key folder input audio opts)"
  unfolding generateTextWithYandex_def generateTextWithYandexAndAudio_def transcribeWithYandexSTT_def
  by (intro makes_call_rules steps_in_rules preorder_calls_only fetch_calls_only yandex_text_calls_only; simp)+

subsection \<open>Session handling\<close>

lemma getSession_result:
  "\<exists>v w'. getSession sid w = (Inr v, w') \<and> blobs w' = blobs w \<and> clock w' = clock w
     \<and> (v = None \<or> v = blobs w (or_empty sid))
     \<and> (store_script w = [] \<longrightarrow> w' = w \<and> v = (if truthy sid then blobs w (or_empty sid) else None))"
  by (auto simp: getSession_def return_io_def try_catch_def store_get_def next_fault_def
           split: list.splits option.splits)

lemma resolveSession_result:
  "\<exists>s w'. resolveSession sid rc sys w = (Inr s, w') \<and> blobs w' = blobs w
     \<and> (messages s = [] \<or> (\<exists>s0. blobs w (or_empty sid) = Some s0 \<and> messages s = messages s0))"
proof -
  obtain v w1 where g: "getSession sid w = (Inr v, w1)" "blobs w1 = blobs w"
    "v = None \<or> v = blobs w (or_empty sid)"
    using getSession_result [of sid w] by blast
  show ?thesis
    using g
    by (cases v; cases rc)
       (auto simp: resolveSession_def bind_io_def return_io_def Date_now_def createNewSession_def
             split: option.splits)
qed

lemma resolveSession_healthy:
  assumes "store_script w = []"
  shows "resolveSession sid rc sys w =
     (Inr (case (if truthy sid then blobs w (or_empty sid) else None) of
             None \<Rightarrow> createNewSession (or_empty sys) (clock w)
           | Some s \<Rightarrow> if rc then s\<lparr>messages := [], lastActivity := clock w\<rparr> else s), w)"
proof -
  have g: "getSession sid w = (Inr (if truthy sid then blobs w (or_empty sid) else None), w)"
    using getSession_result [of sid w] assms by auto
  show ?thesis
    using g
    by (auto simp: resolveSession_def bind_io_def return_io_def Date_now_def split: option.splits)
qed

lemma saveSession_result:
  "\<exists>w'. saveSession sid s w = (Inr (), w') \<and> net_log w' = net_log w
     \<and> (blobs w' = blobs w \<or> (truthy sid \<and> blobs w' = (blobs w)(or_empty sid \<mapsto> s)))
     \<and> (store_script w = [] \<longrightarrow> truthy sid \<longrightarrow> w' = w\<lparr>blobs := (blobs w)(or_empty sid \<mapsto> s)\<rparr>)"
  by (auto simp: saveSession_def return_io_def try_catch_def store_set_def next_fault_def
           split: list.splits option.splits)

lemma deleteSession_result:
  "\<exists>w'. deleteSession sid w = (Inr (), w') \<and> net_log w' = net_log w
     \<and> (blobs w' = blobs w \<or> blobs w' = (blobs w)(or_empty sid := None))"
  by (auto simp: deleteSession_def return_io_def try_catch_def store_delete_def next_fault_def
           split: list.splits option.splits)

lemma persistTurns_result:
  "\<exists>s' w'. persistTurns sid s ut t w = (Inr s', w')
     \<and> (if truthy sid then s' = appended s ut t (clock w) else s' = s)
     \<and> (blobs w' = blobs w \<or> (truthy sid \<and> blobs w' = (blobs w)(or_empty sid \<mapsto> s')))
     \<and> (store_script w = [] \<longrightarrow> truthy sid \<longrightarrow> w' = w\<lparr>blobs := (blobs w)(or_empty sid \<mapsto> s')\<rparr>)"
proof (cases "truthy sid")
  case False
  then show ?thesis by (simp add: persistTurns_def return_io_def)
next
  case True
  obtain w' where sv: "saveSession sid (appended s ut t (clock w)) w = (Inr (), w')"
    "blobs w' = blobs w \<or> (truthy sid \<and> blobs w' = (blobs w)(or_empty sid \<mapsto> appended s ut t (clock w)))"
    "store_script w = [] \<longrightarrow> truthy sid \<longrightarrow> w' = w\<lparr>blobs := (blobs w)(or_empty sid \<mapsto> appended s ut t (clock w))\<rparr>"
    using saveSession_result [of sid "appended s ut t (clock w)" w] by blast
  have "persistTurns sid s ut t w = (Inr (appended s ut t (clock w)), w')"
    using True sv(1)
    by (simp add: persistTurns_def bind_io_def Date_now_def Let_def return_io_def appended_def)
  then show ?thesis using True sv(2,3) by auto
qed

lemma appended_messages:
  "messages (appended s ut t now) =
     drop (length (messages s) + 2 - 20)
       (messages s @ [\<lparr>role = User, msg_text = ut, timestamp = Some now\<rparr>,
                      \<lparr>role = Assistant, msg_text = t, timestamp = Some now\<rparr>])"
  by (simp add: appended_def MAX_MESSAGES_IN_SESSION_def trimSessionHistory_pos)

lemma appended_length:
  "length (messages (appended s ut t now)) = min (length (messages s) + 2) 20"
  by (simp add: appended_messages)

lemma appended_inv:
  "even (length (messages s)) \<Longrightarrow> even (length (messages (appended s ut t now)))"
  by (auto simp: appended_length min_def)

subsection \<open>The handler, stage by stage\<close>

lemma startsWith_json_not_multipart:
  "startsWith (js ''application/json'') ct \<Longrightarrow> \<not> startsWith (js ''multipart/form-data'') ct"
  by (cases ct) (auto simp: startsWith_def js_def)

lemma startsWith_nonempty:
  "startsWith (js ''application/json'') ct \<or> startsWith (js ''multipart/form-data'') ct \<Longrightarrow> ct \<noteq> []"
  by (auto simp: startsWith_def js_def)

lemma handler_post:
  "httpMethod ev = js ''POST'' \<Longrightarrow>
   handler e ev w =
     (case handler_try e (selected_provider e) ev w of
        (Inl error, w') \<Rightarrow>
          (\<lparr>statusCode = 500, headers = json_headers,
            body = ErrorBody (or_empty (js_or (Some (error_message error)) (Some MSG_INTERNAL)))\<rparr>, w')
      | (Inr r, w') \<Rightarrow> (r, w'))"
proof -
  have np: "js ''POST'' \<noteq> js ''OPTIONS''" by (simp add: js_def)
  assume "httpMethod ev = js ''POST''"
  then show ?thesis using np by (simp add: handler_def selected_provider_def Let_def)
qed

lemma handler_try_json:
  assumes "js_or (content_type ev) (Content_Type ev) = Some ct"
      and "startsWith (js ''application/json'') ct"
      and "json ev = Inr b" and "truthy (b_prompt b)"
  shows "handler_try e p ev w = handler_text e p b w"
  using assms startsWith_json_not_multipart [OF assms(2)] startsWith_nonempty [of ct]
  by (simp add: handler_try_def Let_def truthy_def or_empty_def bind_io_def lift_result_def)

lemma handler_try_multipart:
  assumes "js_or (content_type ev) (Content_Type ev) = Some ct"
      and "startsWith (js ''multipart/form-data'') ct"
      and "multipart ev = Inr parsed"
  shows "handler_try e p ev w = handler_multipart e p parsed w"
  using assms startsWith_nonempty [of ct]
  by (simp add: handler_try_def Let_def truthy_def or_empty_def bind_io_def lift_result_def)

lemma handler_text_end:
  assumes "b_endSession b" "truthy (b_sessionId b)"
  shows "handler_text e p b w =
     (Inr (ended_reply (b_sessionId b) p), snd (deleteSession (b_sessionId b) w))"
  using assms deleteSession_result [of "b_sessionId b" w]
  by (auto simp: handler_text_def Let_def bind_io_def return_io_def)

lemma handler_text_steps:
  assumes "\<not> (b_endSession b \<and> truthy (b_sessionId b))"
      and "resolveSession (b_sessionId b) (b_resetContext b) (b_system b) w = (Inr s, w1)"
  shows "handler_text e p b w =
     (case dispatch_text e p
             (formatMessagesForProvider (Some (systemPrompt s)) (messages s) (b_prompt b))
             \<lparr>modelName = modelName b, modelUri = modelUri b,
              temperature = temperature b, maxTokens = maxTokens b\<rparr> w1 of
        (Inl err, w2) \<Rightarrow> (Inl err, w2)
      | (Inr (Inl early), w2) \<Rightarrow> (Inr early, w2)
      | (Inr (Inr text), w2) \<Rightarrow>
          (case persistTurns (b_sessionId b) s (b_prompt b) text w2 of
             (Inl err, w3) \<Rightarrow> (Inl err, w3)
           | (Inr s', w3) \<Rightarrow>
               (Inr \<lparr>statusCode = 200, headers = json_headers,
                     body = SuccessBody text p None (b_sessionId b)
                              (length (messages s') div 2)\<rparr>, w3)))"
  using assms
  by (auto simp: handler_text_def Let_def bind_io_def return_io_def split: prod.splits sum.splits)

lemma handler_multipart_end:
  assumes "find (\<lambda>f. fst f = js ''audio'') (files parsed) = Some af"
      and "f_endSession parsed = Some (js ''true'')" "truthy (f_sessionId parsed)"
  shows "handler_multipart e p parsed w =
     (Inr (ended_reply (f_sessionId parsed) p), snd (deleteSession (f_sessionId parsed) w))"
  using assms deleteSession_result [of "f_sessionId parsed" w]
  by (auto simp: handler_multipart_def Let_def bind_io_def return_io_def)

lemma handler_multipart_steps:
  assumes "find (\<lambda>f. fst f = js ''audio'') (files parsed) = Some af"
      and "\<not> (f_endSession parsed = Some (js ''true'') \<and> truthy (f_sessionId parsed))"
      and "resolveSession (f_sessionId parsed) (f_resetContext parsed = Some (js ''true''))
             (f_system parsed) w = (Inr s, w1)"
  shows "handler_multipart e p parsed w =
     (case dispatch_audio e p
             (formatMessagesForProvider (Some (systemPrompt s)) (messages s) (f_prompt parsed))
             (snd af) (f_audioFormat parsed) w1 of
        (Inl err, w2) \<Rightarrow> (Inl err, w2)
      | (Inr (Inl early), w2) \<Rightarrow> (Inr early, w2)
      | (Inr (Inr (text, transcript)), w2) \<Rightarrow>
          (case persistTurns (f_sessionId parsed) s (js_or transcript (f_prompt parsed)) text w2 of
             (Inl err, w3) \<Rightarrow> (Inl err, w3)
           | (Inr s', w3) \<Rightarrow>
               (Inr \<lparr>statusCode = 200, headers = json_headers,
                     body = SuccessBody text p transcript (f_sessionId parsed)
                              (length (messages s') div 2)\<rparr>, w3)))"
  using assms
  by (auto simp: handler_multipart_def Let_def bind_io_def return_io_def
           split: prod.splits sum.splits)

subsection \<open>Effects of one invocation on the store\<close>

lemma session_effect_inv:
  assumes "session_effect b b'" "store_inv b"
  shows "store_inv b'"
proof -
  consider "b' = b" | k where "b' = b(k := None)"
    | k s ut t now where "b' = b(k \<mapsto> appended s ut t now)"
        "messages s = [] \<or> (\<exists>s0. b k = Some s0 \<and> messages s = messages s0)"
    using assms(1) unfolding session_effect_def by blast
  then show ?thesis
  proof cases
    case 1
    then show ?thesis using assms(2) by simp
  next
    case 2
    then show ?thesis using assms(2) by (auto simp: store_inv_def split: if_splits)
  next
    case 3
    have "even (length (messages s))" using 3(2) assms(2) by (auto simp: store_inv_def)
    then have "even (length (messages (appended s ut t now)))"
      by (rule appended_inv)
    moreover have "length (messages (appended s ut t now)) \<le> 20"
      by (simp add: appended_length)
    ultimately show ?thesis using 3(1) assms(2) by (auto simp: store_inv_def)
  qed
qed

lemma persist_effect:
  assumes "messages s = [] \<or> (\<exists>s0. blobs w (or_empty sid) = Some s0 \<and> messages s = messages s0)"
      and "blobs w2 = blobs w"
  shows "session_effect (blobs w) (blobs (snd (persistTurns sid s ut t w2)))"
proof -
  obtain s' w' where p: "persistTurns sid s ut t w2 = (Inr s', w')"
    "if truthy sid then s' = appended s ut t (clock w2) else s' = s"
    "blobs w' = blobs w2 \<or> (truthy sid \<and> blobs w' = (blobs w2)(or_empty sid \<mapsto> s'))"
    using persistTurns_result [of sid s ut t w2] by blast
  show ?thesis
  proof (cases "blobs w' = blobs w2")
    case True
    then show ?thesis using p(1) assms(2) by (simp add: session_effect_def)
  next
    case False
    then have "truthy sid" "blobs w' = (blobs w)(or_empty sid \<mapsto> appended s ut t (clock w2))"
      using p(2,3) assms(2) by auto
    then have "\<exists>k s0 ut0 t0 now. blobs w' = (blobs w)(k \<mapsto> appended s0 ut0 t0 now)
           \<and> (messages s0 = [] \<or> (\<exists>s1. blobs w k = Some s1 \<and> messages s0 = messages s1))"
      using assms(1) by blast
    then show ?thesis using p(1) unfolding session_effect_def by simp
  qed
qed

lemma delete_effect: "session_effect (blobs w) (blobs (snd (deleteSession sid w)))"
  using deleteSession_result [of sid w] by (auto simp: session_effect_def)

lemma handler_text_effect: "session_effect (blobs w) (blobs (snd (handler_text e p b w)))"
proof (cases "b_endSession b \<and> truthy (b_sessionId b)")
  case True
  then show ?thesis using delete_effect [of w "b_sessionId b"] by (simp add: handler_text_end)
next
  case False
  obtain s w1 where r: "resolveSession (b_sessionId b) (b_resetContext b) (b_system b) w = (Inr s, w1)"
    "blobs w1 = blobs w"
    "messages s = [] \<or> (\<exists>s0. blobs w (or_empty (b_sessionId b)) = Some s0 \<and> messages s = messages s0)"
    using resolveSession_result by blast
  define D where "D = dispatch_text e p
             (formatMessagesForProvider (Some (systemPrompt s)) (messages s) (b_prompt b))
             \<lparr>modelName = modelName b, modelUri = modelUri b,
              temperature = temperature b, maxTokens = maxTokens b\<rparr> w1"
  obtain res w2 where d: "D = (res, w2)" by (cases D)
  have "same_store w1 w2"
    using d dispatch_same_store(1) unfolding D_def by (rule steps_inD [rotated])
  then have b2: "blobs w2 = blobs w" using r(2) by (simp add: same_store_def)
  have same: "session_effect (blobs w) (blobs w2)" using b2 by (simp add: session_effect_def)
  show ?thesis
  proof (cases res)
    case (Inl err)
    then show ?thesis using handler_text_steps [OF False r(1), of e p] d same
      by (simp add: D_def [symmetric])
  next
    case (Inr x)
    show ?thesis
    proof (cases x)
      case (Inl early)
      then show ?thesis using handler_text_steps [OF False r(1), of e p] d same Inr
        by (simp add: D_def [symmetric])
    next
      case (Inr tx)
      obtain s' w3 where p: "persistTurns (b_sessionId b) s (b_prompt b) tx w2 = (Inr s', w3)"
        using persistTurns_result by blast
      have "session_effect (blobs w) (blobs w3)"
        using persist_effect [OF r(3) b2, of "b_prompt b" tx] p by simp
      then show ?thesis using handler_text_steps [OF False r(1), of e p] d \<open>res = Inr x\<close> Inr p
        by (simp add: D_def [symmetric])
    qed
  qed
qed

lemma handler_multipart_effect:
  "session_effect (blobs w) (blobs (snd (handler_multipart e p parsed w)))"
proof (cases "find (\<lambda>f. fst f = js ''audio'') (files parsed)")
  case None
  then show ?thesis by (simp add: handler_multipart_def Let_def throw_def session_effect_def)
next
  case (Some af)
  show ?thesis
  proof (cases "f_endSession parsed = Some (js ''true'') \<and> truthy (f_sessionId parsed)")
    case True
    then show ?thesis using delete_effect [of w "f_sessionId parsed"]
      by (simp add: handler_multipart_end [OF Some])
  next
    case False
    obtain s w1 where r: "resolveSession (f_sessionId parsed)
        (f_resetContext parsed = Some (js ''true'')) (f_system parsed) w = (Inr s, w1)"
      "blobs w1 = blobs w"
      "messages s = [] \<or> (\<exists>s0. blobs w (or_empty (f_sessionId parsed)) = Some s0
          \<and> messages s = messages s0)"
      using resolveSession_result by blast
    define D where "D = dispatch_audio e p
             (formatMessagesForProvider (Some (systemPrompt s)) (messages s) (f_prompt parsed))
             (snd af) (f_audioFormat parsed) w1"
    obtain res w2 where d: "D = (res, w2)" by (cases D)
    have "same_store w1 w2"
      using d dispatch_same_store(2) unfolding D_def by (rule steps_inD [rotated])
    then have b2: "blobs w2 = blobs w" using r(2) by (simp add: same_store_def)
    have same: "session_effect (blobs w) (blobs w2)" using b2 by (simp add: session_effect_def)
    note steps = handler_multipart_steps [OF Some False r(1), of e p]
    show ?thesis
    proof (cases res)
      case (Inl err)
      then show ?thesis using steps d same by (simp add: D_def [symmetric])
    next
      case (Inr x)
      show ?thesis
      proof (cases x)
        case (Inl early)
        then show ?thesis using steps d same Inr by (simp add: D_def [symmetric])
      next
        case (Inr tt)
        obtain tx tr where tt: "tt = (tx, tr)" by (cases tt)
        obtain s' w3 where p: "persistTurns (f_sessionId parsed) s
            (js_or tr (f_prompt parsed)) tx w2 = (Inr s', w3)"
          using persistTurns_result by blast
        have "session_effect (blobs w) (blobs w3)"
          using persist_effect [OF r(3) b2, of "js_or tr (f_prompt parsed)" tx] p by simp
        then show ?thesis using steps d \<open>res = Inr x\<close> Inr tt p
          by (simp add: D_def [symmetric])
      qed
    qed
  qed
qed

lemma handler_try_effect: "session_effect (blobs w) (blobs (snd (handler_try e p ev w)))"
  unfolding handler_try_def Let_def
  using handler_text_effect handler_multipart_effect
  by (auto simp: bind_io_def lift_result_def throw_def session_effect_def split: sum.splits)

lemma handler_effect: "session_effect (blobs w) (blobs (snd (handler e ev w)))"
proof -
  have "snd (handler e ev w) = w \<or> snd (handler e ev w) = snd (handler_try e (selected_provider e) ev w)"
    by (auto simp: handler_def Let_def selected_provider_def split: prod.splits sum.splits)
  then show ?thesis
  proof
    assume "snd (handler e ev w) = w"
    then show ?thesis by (simp add: session_effect_def)
  next
    assume "snd (handler e ev w) = snd (handler_try e (selected_provider e) ev w)"
    then show ?thesis using handler_try_effect [of w e "selected_provider e" ev] by simp
  qed
qed

subsection \<open>Claims about sessions and errors\<close>

text \<open>
  Claim C4. Every invocation of the handler keeps the invariant of the store: each
  persisted session has an even number of messages, at most 20. What \<open>persistTurns\<close>
  saves for a session id is the list it was given with the user turn and the assistant
  turn appended together, without its oldest elements beyond 20, the rest in order.
\<close>

theorem session_invariant:
  "(store_inv (blobs w) \<longrightarrow> store_inv (blobs (snd (handler e ev w))))
   \<and> (truthy sid \<longrightarrow>
       (\<exists>s' w'. persistTurns sid s ut t w = (Inr s', w')
          \<and> messages s' =
              drop (length (messages s) + 2 - 20)
                (messages s @ [\<lparr>role = User, msg_text = ut, timestamp = Some (clock w)\<rparr>,
                               \<lparr>role = Assistant, msg_text = t, timestamp = Some (clock w)\<rparr>])
          \<and> (blobs w' = blobs w \<or> blobs w' = (blobs w)(or_empty sid \<mapsto> s'))))"
proof (intro conjI impI)
  assume "store_inv (blobs w)"
  then show "store_inv (blobs (snd (handler e ev w)))"
    using handler_effect [of w e ev] by (rule session_effect_inv [rotated])
next
  assume "truthy sid"
  then show "\<exists>s' w'. persistTurns sid s ut t w = (Inr s', w')
          \<and> messages s' =
              drop (length (messages s) + 2 - 20)
                (messages s @ [\<lparr>role = User, msg_text = ut, timestamp = Some (clock w)\<rparr>,
                               \<lparr>role = Assistant, msg_text = t, timestamp = Some (clock w)\<rparr>])
          \<and> (blobs w' = blobs w \<or> blobs w' = (blobs w)(or_empty sid \<mapsto> s'))"
    using persistTurns_result [of sid s ut t w] by (auto simp: appended_messages)
qed

theorem session_invariant_witness:
  "store_inv (blobs (example_world [js ''s1'' \<mapsto> example_session [example_turn User, example_turn Assistant]]
       [Responded (example_response 200 (js ''Hello''))]))
   \<and> store_inv (blobs (snd (handler (example_env (js ''gemini'') (Some (js ''k'')))
         (example_json_event (example_body (Some (js ''Hi'')) (Some (js ''s1'')) False))
         (example_world [js ''s1'' \<mapsto> example_session [example_turn User, example_turn Assistant]]
       [Responded (example_response 200 (js ''Hello''))]))))
   \<and> truthy (Some (js ''s1''))
   \<and> (\<exists>s' w'. persistTurns (Some (js ''s1'')) (example_session []) (Some (js ''Hi'')) (Some (js ''Hello''))
                 (example_world [js ''s1'' \<mapsto> example_session [example_turn User, example_turn Assistant]]
       [Responded (example_response 200 (js ''Hello''))])
                 = (Inr s', w')
          \<and> messages s' =
               [\<lparr>role = User, msg_text = Some (js ''Hi''), timestamp = Some 7\<rparr>,
                \<lparr>role = Assistant, msg_text = Some (js ''Hello''), timestamp = Some 7\<rparr>])"
proof -
  let ?w = "example_world [js ''s1'' \<mapsto> example_session [example_turn User, example_turn Assistant]]
       [Responded (example_response 200 (js ''Hello''))]"
  have i: "store_inv (blobs ?w)"
    by (simp add: store_inv_def example_world_def example_session_def)
  have t: "truthy (Some (js ''s1''))" by (simp add: truthy_def js_def)
  have c: "clock ?w = 7" "messages (example_session []) = []"
    by (simp_all add: example_world_def example_session_def)
  note inst = session_invariant [of ?w "example_env (js ''gemini'') (Some (js ''k''))"
        "example_json_event (example_body (Some (js ''Hi'')) (Some (js ''s1'')) False)"
        "Some (js ''s1'')" "example_session []" "Some (js ''Hi'')" "Some (js ''Hello'')"]
  have 1: "store_inv (blobs (snd (handler (example_env (js ''gemini'') (Some (js ''k'')))
         (example_json_event (example_body (Some (js ''Hi'')) (Some (js ''s1'')) False)) ?w)))"
    using inst i by blast
  have 2: "\<exists>s' w'. persistTurns (Some (js ''s1'')) (example_session []) (Some (js ''Hi''))
                 (Some (js ''Hello'')) ?w = (Inr s', w')
          \<and> messages s' =
               [\<lparr>role = User, msg_text = Some (js ''Hi''), timestamp = Some 7\<rparr>,
                \<lparr>role = Assistant, msg_text = Some (js ''Hello''), timestamp = Some 7\<rparr>]"
    using inst t unfolding c by auto
  show ?thesis using i t 1 2 by blast
qed

subsection \<open>Claims about errors\<close>

lemma text_failure:
  assumes "httpMethod ev = js ''POST''"
      and "js_or (content_type ev) (Content_Type ev) = Some ct"
      and "startsWith (js ''application/json'') ct"
      and "json ev = Inr b" and "truthy (b_prompt b)"
      and "\<not> (b_endSession b \<and> truthy (b_sessionId b))"
      and "resolveSession (b_sessionId b) (b_resetContext b) (b_system b) w = (Inr s, w1)"
      and "dispatch_text e (selected_provider e)
             (formatMessagesForProvider (Some (systemPrompt s)) (messages s) (b_prompt b))
             \<lparr>modelName = modelName b, modelUri = modelUri b,
              temperature = temperature b, maxTokens = maxTokens b\<rparr> w1 = (Inl err, w2)"
  shows "handler e ev w =
           (\<lparr>statusCode = 500, headers = json_headers,
             body = ErrorBody (or_empty (js_or (Some (error_message err)) (Some MSG_INTERNAL)))\<rparr>, w2)
         \<and> blobs w2 = blobs w"
proof -
  have "same_store w1 w2" using assms(8) dispatch_same_store(1) by (rule steps_inD [rotated])
  moreover have "blobs w1 = blobs w"
    using resolveSession_result [of "b_sessionId b" "b_resetContext b" "b_system b" w] assms(7)
    by auto
  ultimately have "blobs w2 = blobs w" by (simp add: same_store_def)
  moreover have "handler_try e (selected_provider e) ev w = (Inl err, w2)"
    using handler_try_json [OF assms(2-5)] handler_text_steps [OF assms(6,7)] assms(8) by simp
  ultimately show ?thesis using handler_post [OF assms(1)] by simp
qed

lemma audio_failure:
  assumes "httpMethod ev = js ''POST''"
      and "js_or (content_type ev) (Content_Type ev) = Some ct"
      and "startsWith (js ''multipart/form-data'') ct"
      and "multipart ev = Inr parsed"
      and "find (\<lambda>f. fst f = js ''audio'') (files parsed) = Some af"
      and "\<not> (f_endSession parsed = Some (js ''true'') \<and> truthy (f_sessionId parsed))"
      and "resolveSession (f_sessionId parsed) (f_resetContext parsed = Some (js ''true''))
             (f_system parsed) w = (Inr s, w1)"
      and "dispatch_audio e (selected_provider e)
             (formatMessagesForProvider (Some (systemPrompt s)) (messages s) (f_prompt parsed))
             (snd af) (f_audioFormat parsed) w1 = (Inl err, w2)"
  shows "handler e ev w =
           (\<lparr>statusCode = 500, headers = json_headers,
             body = ErrorBody (or_empty (js_or (Some (error_message err)) (Some MSG_INTERNAL)))\<rparr>, w2)
         \<and> blobs w2 = blobs w"
proof -
  have "same_store w1 w2" using assms(8) dispatch_same_store(2) by (rule steps_inD [rotated])
  moreover have "blobs w1 = blobs w"
    using resolveSession_result [of "f_sessionId parsed" "f_resetContext parsed = Some (js ''true'')"
        "f_system parsed" w] assms(7)
    by auto
  ultimately have "blobs w2 = blobs w" by (simp add: same_store_def)
  moreover have "handler_try e (selected_provider e) ev w = (Inl err, w2)"
    using handler_try_multipart [OF assms(2-4)] handler_multipart_steps [OF assms(5-7)] assms(8)
    by simp
  ultimately show ?thesis using handler_post [OF assms(1)] by simp
qed

text \<open>
  Provider failure. A request with a session id whose provider chain throws (the
  adapter fails) is answered with status 500 and the error's message, and the blob
  store is the one the request found: nothing is persisted. This holds on the JSON path
  and on the multipart path.
\<close>

theorem provider_failure_keeps_session:
  "(httpMethod ev = js ''POST'' \<longrightarrow>
    js_or (content_type ev) (Content_Type ev) = Some ct \<longrightarrow>
    startsWith (js ''application/json'') ct \<longrightarrow>
    json ev = Inr b \<longrightarrow> truthy (b_prompt b) \<longrightarrow>
    truthy (b_sessionId b) \<longrightarrow> \<not> b_endSession b \<longrightarrow>
    resolveSession (b_sessionId b) (b_resetContext b) (b_system b) w = (Inr s, w1) \<longrightarrow>
    dispatch_text e (selected_provider e)
      (formatMessagesForProvider (Some (systemPrompt s)) (messages s) (b_prompt b))
      \<lparr>modelName = modelName b, modelUri = modelUri b,
       temperature = temperature b, maxTokens = maxTokens b\<rparr> w1 = (Inl err, w2) \<longrightarrow>
    handler e ev w =
      (\<lparr>statusCode = 500, headers = json_headers,
        body = ErrorBody (or_empty (js_or (Some (error_message err)) (Some MSG_INTERNAL)))\<rparr>, w2)
    \<and> blobs w2 = blobs w)
   \<and> (httpMethod ev = js ''POST'' \<longrightarrow>
    js_or (content_type ev) (Content_Type ev) = Some ct \<longrightarrow>
    startsWith (js ''multipart/form-data'') ct \<longrightarrow>
    multipart ev = Inr parsed \<longrightarrow>
    find (\<lambda>f. fst f = js ''audio'') (files parsed) = Some af \<longrightarrow>
    truthy (f_sessionId parsed) \<longrightarrow> f_endSession parsed \<noteq> Some (js ''true'') \<longrightarrow>
    resolveSession (f_sessionId parsed) (f_resetContext parsed = Some (js ''true''))
      (f_system parsed) w = (Inr s, w1) \<longrightarrow>
    dispatch_audio e (selected_provider e)
      (formatMessagesForProvider (Some (systemPrompt s)) (messages s) (f_prompt parsed))
      (snd af) (f_audioFormat parsed) w1 = (Inl err, w2) \<longrightarrow>
    handler e ev w =
      (\<lparr>statusCode = 500, headers = json_headers,
        body = ErrorBody (or_empty (js_or (Some (error_message err)) (Some MSG_INTERNAL)))\<rparr>, w2)
    \<and> blobs w2 = blobs w)"
  using text_failure [of ev ct b w s w1 e err w2] audio_failure [of ev ct parsed af w s w1 e err w2]
  by blast

lemma example_selected [simp]:
  "selected_provider (example_env (js ''openai'') k) = js ''openai''"
  "selected_provider (example_env (js ''gemini'') k) = js ''gemini''"
  "selected_provider (example_env (js ''yandex'') k) = js ''yandex''"
  "selected_provider (example_env (js ''mistral'') k) = js ''mistral''"
  by (simp_all add: selected_provider_def example_env_def js_or_def truthy_def or_empty_def
        toLowerCase_def js_def)

lemma example_json_hyps:
  "httpMethod (example_json_event b) = js ''POST''"
  "js_or (content_type (example_json_event b)) (Content_Type (example_json_event b))
     = Some (js ''application/json'')"
  "startsWith (js ''application/json'') (js ''application/json'')"
  "json (example_json_event b) = Inr b"
  by (simp_all add: example_json_event_def js_or_def truthy_def startsWith_def js_def)

lemma example_multipart_hyps:
  "httpMethod (example_multipart_event f) = js ''POST''"
  "js_or (content_type (example_multipart_event f)) (Content_Type (example_multipart_event f))
     = Some (js ''multipart/form-data; boundary=x'')"
  "startsWith (js ''multipart/form-data'') (js ''multipart/form-data; boundary=x'')"
  "multipart (example_multipart_event f) = Inr f"
  by (simp_all add: example_multipart_event_def js_or_def truthy_def startsWith_def js_def)

theorem provider_failure_keeps_session_witness:
  "handler (example_env (js ''openai'') (Some (js ''k'')))
     (example_json_event (example_body (Some (js ''Hi'')) (Some (js ''s1'')) False))
     (example_world [js ''s1'' \<mapsto> example_session [example_turn User, example_turn Assistant]]
        [Responded (example_response 500 (js ''down''))])
   = (\<lparr>statusCode = 500, headers = json_headers,
       body = ErrorBody (js ''OpenAI chat error 500: down'')\<rparr>,
      \<lparr>blobs = [js ''s1'' \<mapsto> example_session [example_turn User, example_turn Assistant]],
       store_script = [], net_script = [],
       net_log = [OpenAIChat (js ''k'') (js ''gpt-5-nano-2025-08-07'')
                    [\<lparr>cm_role = System, cm_content = Some (js ''Sys'')\<rparr>,
                     \<lparr>cm_role = User, cm_content = Some (js ''earlier'')\<rparr>,
                     \<lparr>cm_role = Assistant, cm_content = Some (js ''earlier'')\<rparr>,
                     \<lparr>cm_role = User, cm_content = Some (js ''Hi'')\<rparr>]],
       clock = 7\<rparr>)
   \<and> handler (example_env (js ''openai'') (Some (js ''k'')))
     (example_multipart_event (example_form (Some (js ''s1'')) None [(js ''audio'', [1, 2])]))
     (example_world [js ''s1'' \<mapsto> example_session [example_turn User, example_turn Assistant]]
        [Responded (example_response 500 (js ''down''))])
   = (\<lparr>statusCode = 500, headers = json_headers,
       body = ErrorBody (js ''OpenAI transcription error 500: down'')\<rparr>,
      \<lparr>blobs = [js ''s1'' \<mapsto> example_session [example_turn User, example_turn Assistant]],
       store_script = [], net_script = [],
       net_log = [OpenAITranscribe (js ''k'') (js ''gpt-4o-mini-transcribe'') [1, 2]],
       clock = 7\<rparr>)"
proof -
  let ?s = "example_session [example_turn User, example_turn Assistant]"
  let ?w = "example_world [js ''s1'' \<mapsto> ?s] [Responded (example_response 500 (js ''down''))]"
  let ?b = "example_body (Some (js ''Hi'')) (Some (js ''s1'')) False"
  let ?f = "example_form (Some (js ''s1'')) None [(js ''audio'', [1, 2])]"
  let ?e = "example_env (js ''openai'') (Some (js ''k''))"
  let ?w2 = "\<lparr>blobs = [js ''s1'' \<mapsto> ?s], store_script = [], net_script = [],
       net_log = [OpenAIChat (js ''k'') (js ''gpt-5-nano-2025-08-07'')
                    [\<lparr>cm_role = System, cm_content = Some (js ''Sys'')\<rparr>,
                     \<lparr>cm_role = User, cm_content = Some (js ''earlier'')\<rparr>,
                     \<lparr>cm_role = Assistant, cm_content = Some (js ''earlier'')\<rparr>,
                     \<lparr>cm_role = User, cm_content = Some (js ''Hi'')\<rparr>]],
       clock = 7\<rparr>"
  let ?w3 = "\<lparr>blobs = [js ''s1'' \<mapsto> ?s], store_script = [], net_script = [],
       net_log = [OpenAITranscribe (js ''k'') (js ''gpt-4o-mini-transcribe'') [1, 2]],
       clock = 7\<rparr>"
  have b: "truthy (b_prompt ?b)" "truthy (b_sessionId ?b)" "\<not> b_endSession ?b"
    by (simp_all add: example_body_def truthy_def js_def)
  have f: "find (\<lambda>f. fst f = js ''audio'') (files ?f) = Some (js ''audio'', [1, 2])"
    "truthy (f_sessionId ?f)" "f_endSession ?f \<noteq> Some (js ''true'')"
    by (simp_all add: example_form_def truthy_def js_def)
  have r: "resolveSession (b_sessionId ?b) (b_resetContext ?b) (b_system ?b) ?w = (Inr ?s, ?w)"
    by (simp add: resolveSession_healthy example_world_def example_body_def truthy_def
          or_empty_def js_def)
  have r': "resolveSession (f_sessionId ?f) (f_resetContext ?f = Some (js ''true''))
              (f_system ?f) ?w = (Inr ?s, ?w)"
    by (simp add: resolveSession_healthy example_world_def example_form_def truthy_def
          or_empty_def js_def)
  have d: "dispatch_text ?e (selected_provider ?e)
      (formatMessagesForProvider (Some (systemPrompt ?s)) (messages ?s) (b_prompt ?b))
      \<lparr>modelName = modelName ?b, modelUri = modelUri ?b,
       temperature = temperature ?b, maxTokens = maxTokens ?b\<rparr> ?w
      = (Inl (Error (js ''OpenAI chat error 500: down'')), ?w2)"
    by (simp add: dispatch_text_def example_env_def truthy_def or_empty_def
          selected_provider_def toLowerCase_def js_or_def
          generateTextWithOpenAI_def Let_def bind_io_def fetch_def example_world_def
          example_response_def ok_def throw_def safeReadText_def digits.simps return_io_def
          formatMessagesForProvider_def example_session_def example_body_def example_turn_def
          trim_def isWhiteSpace_def js_def)
  have d': "dispatch_audio ?e (selected_provider ?e)
      (formatMessagesForProvider (Some (systemPrompt ?s)) (messages ?s) (f_prompt ?f))
      (snd (js ''audio'', [1, 2])) (f_audioFormat ?f) ?w
      = (Inl (Error (js ''OpenAI transcription error 500: down'')), ?w3)"
    by (simp add: dispatch_audio_def example_env_def truthy_def or_empty_def
          selected_provider_def toLowerCase_def js_or_def
          generateTextWithOpenAIAndAudio_def Let_def bind_io_def fetch_def example_world_def
          example_response_def ok_def throw_def safeReadText_def digits.simps return_io_def
          js_def)
  have m: "or_empty (js_or (Some (error_message (Error (js ''OpenAI chat error 500: down''))))
             (Some MSG_INTERNAL)) = js ''OpenAI chat error 500: down''"
    "or_empty (js_or (Some (error_message (Error (js ''OpenAI transcription error 500: down''))))
             (Some MSG_INTERNAL)) = js ''OpenAI transcription error 500: down''"
    by (simp_all add: js_or_def truthy_def or_empty_def js_def)
  have 1: "handler ?e (example_json_event ?b) ?w
     = (\<lparr>statusCode = 500, headers = json_headers,
         body = ErrorBody (js ''OpenAI chat error 500: down'')\<rparr>, ?w2)"
    using provider_failure_keeps_session [of "example_json_event ?b" "js ''application/json''"
        ?b ?w ?s ?w ?e "Error (js ''OpenAI chat error 500: down'')" ?w2]
      example_json_hyps b r d
    unfolding m by simp
  have 2: "handler ?e (example_multipart_event ?f) ?w
     = (\<lparr>statusCode = 500, headers = json_headers,
         body = ErrorBody (js ''OpenAI transcription error 500: down'')\<rparr>, ?w3)"
    using provider_failure_keeps_session [of "example_multipart_event ?f"
        "js ''multipart/form-data; boundary=x''" _ ?w ?s ?w ?e
        "Error (js ''OpenAI transcription error 500: down'')" ?w3 ?f "(js ''audio'', [1, 2])"]
      example_multipart_hyps f r' d'
    unfolding m by simp
  show ?thesis using 1 2 by simp
qed

lemma getSession_loads:
  "store_script w = [] \<Longrightarrow> truthy sid \<Longrightarrow> getSession sid w = (Inr (blobs w (or_empty sid)), w)"
  using getSession_result [of sid w] by auto

text \<open>
  Claim C8. \<open>getSession\<close>, \<open>saveSession\<close> and \<open>deleteSession\<close> never throw. When the
  store operation fails, \<open>getSession\<close> returns \<open>null\<close> (absent) and the other two return
  normally; the store is as it was.
\<close>

theorem store_failures_do_not_propagate:
  "(\<exists>v w'. getSession sid w = (Inr v, w')
      \<and> (truthy sid \<longrightarrow> store_script w = Some err # fs \<longrightarrow> v = None \<and> blobs w' = blobs w))
   \<and> (\<exists>w'. saveSession sid s w = (Inr (), w')
      \<and> (truthy sid \<longrightarrow> store_script w = Some err # fs \<longrightarrow> blobs w' = blobs w))
   \<and> (\<exists>w'. deleteSession sid w = (Inr (), w')
      \<and> (truthy sid \<longrightarrow> store_script w = Some err # fs \<longrightarrow> blobs w' = blobs w))"
  by (auto simp: getSession_def saveSession_def deleteSession_def return_io_def try_catch_def
                 store_get_def store_set_def store_delete_def next_fault_def
           split: list.splits option.splits)

theorem store_failures_do_not_propagate_witness:
  "truthy (Some (js ''s1''))
   \<and> store_script ((example_world [js ''s1'' \<mapsto> example_session []] [])
         \<lparr>store_script := [Some (Error (js ''unreachable''))]\<rparr>)
       = Some (Error (js ''unreachable'')) # []
   \<and> (\<exists>w'. getSession (Some (js ''s1''))
          ((example_world [js ''s1'' \<mapsto> example_session []] [])
             \<lparr>store_script := [Some (Error (js ''unreachable''))]\<rparr>) = (Inr None, w')
        \<and> blobs w' = [js ''s1'' \<mapsto> example_session []])
   \<and> (\<exists>w'. saveSession (Some (js ''s1'')) (example_session [example_turn User])
          ((example_world [js ''s1'' \<mapsto> example_session []] [])
             \<lparr>store_script := [Some (Error (js ''unreachable''))]\<rparr>) = (Inr (), w')
        \<and> blobs w' = [js ''s1'' \<mapsto> example_session []])
   \<and> (\<exists>w'. deleteSession (Some (js ''s1''))
          ((example_world [js ''s1'' \<mapsto> example_session []] [])
             \<lparr>store_script := [Some (Error (js ''unreachable''))]\<rparr>) = (Inr (), w')
        \<and> blobs w' = [js ''s1'' \<mapsto> example_session []])"
proof -
  let ?w = "(example_world [js ''s1'' \<mapsto> example_session []] [])
             \<lparr>store_script := [Some (Error (js ''unreachable''))]\<rparr>"
  have t: "truthy (Some (js ''s1''))" by (simp add: truthy_def js_def)
  have s: "store_script ?w = Some (Error (js ''unreachable'')) # []"
    "blobs ?w = [js ''s1'' \<mapsto> example_session []]"
    by (simp_all add: example_world_def)
  show ?thesis
    using store_failures_do_not_propagate [of "Some (js ''s1'')" ?w "Error (js ''unreachable'')" "[]"
        "example_session [example_turn User]"] t s
    by auto
qed

text \<open>
  Claim C10. Validation comes before the end-session branch. A multipart request with
  \<open>endSession\<close> set and a session id but no \<open>audio\<close> file part, and a JSON request with
  \<open>endSession\<close> set and a session id but no prompt, are answered with status 500 and
  the validation message, and the world, the blob store included, is unchanged: the
  session is not deleted.
\<close>

theorem end_session_after_validation:
  "(httpMethod ev = js ''POST'' \<longrightarrow>
    js_or (content_type ev) (Content_Type ev) = Some ct \<longrightarrow>
    startsWith (js ''multipart/form-data'') ct \<longrightarrow>
    multipart ev = Inr parsed \<longrightarrow>
    f_endSession parsed = Some (js ''true'') \<longrightarrow> truthy (f_sessionId parsed) \<longrightarrow>
    find (\<lambda>f. fst f = js ''audio'') (files parsed) = None \<longrightarrow>
    handler e ev w =
      (\<lparr>statusCode = 500, headers = json_headers, body = ErrorBody MSG_NO_AUDIO\<rparr>, w))
   \<and> (httpMethod ev = js ''POST'' \<longrightarrow>
    js_or (content_type ev) (Content_Type ev) = Some ct \<longrightarrow>
    startsWith (js ''application/json'') ct \<longrightarrow>
    json ev = Inr b \<longrightarrow>
    b_endSession b \<longrightarrow> truthy (b_sessionId b) \<longrightarrow>
    \<not> truthy (b_prompt b) \<longrightarrow>
    handler e ev w =
      (\<lparr>statusCode = 500, headers = json_headers, body = ErrorBody MSG_NO_PROMPT\<rparr>, w))"
proof (intro conjI impI)
  assume a: "httpMethod ev = js ''POST''" "js_or (content_type ev) (Content_Type ev) = Some ct"
    "startsWith (js ''multipart/form-data'') ct" "multipart ev = Inr parsed"
    "find (\<lambda>f. fst f = js ''audio'') (files parsed) = None"
  have t: "handler_try e p ev w = (Inl (Error MSG_NO_AUDIO), w)" for p
    using a(5) by (simp add: handler_try_multipart [OF a(2-4)] handler_multipart_def Let_def throw_def)
  have m: "or_empty (js_or (Some MSG_NO_AUDIO) (Some MSG_INTERNAL)) = MSG_NO_AUDIO"
    by (simp add: js_or_def truthy_def or_empty_def MSG_NO_AUDIO_def)
  show "handler e ev w =
      (\<lparr>statusCode = 500, headers = json_headers, body = ErrorBody MSG_NO_AUDIO\<rparr>, w)"
    using t m by (simp add: handler_post [OF a(1)])
next
  assume a: "httpMethod ev = js ''POST''" "js_or (content_type ev) (Content_Type ev) = Some ct"
    "startsWith (js ''application/json'') ct" "json ev = Inr b" "\<not> truthy (b_prompt b)"
  have ne: "ct \<noteq> []" using a(3) startsWith_nonempty by blast
  have nm: "\<not> startsWith (js ''multipart/form-data'') ct"
    using a(3) by (rule startsWith_json_not_multipart)
  have t: "handler_try e p ev w = (Inl (Error MSG_NO_PROMPT), w)" for p
    using a ne nm
    by (simp add: handler_try_def Let_def truthy_def or_empty_def
                  bind_io_def lift_result_def throw_def)
  have m: "or_empty (js_or (Some MSG_NO_PROMPT) (Some MSG_INTERNAL)) = MSG_NO_PROMPT"
    by (simp add: js_or_def truthy_def or_empty_def MSG_NO_PROMPT_def)
  show "handler e ev w =
      (\<lparr>statusCode = 500, headers = json_headers, body = ErrorBody MSG_NO_PROMPT\<rparr>, w)"
    using t m by (simp add: handler_post [OF a(1)])
qed

theorem end_session_after_validation_witness:
  "handler (example_env (js ''gemini'') (Some (js ''k'')))
     (example_multipart_event (example_form (Some (js ''s1'')) (Some (js ''true'')) []))
     (example_world [js ''s1'' \<mapsto> example_session []] [])
   = (\<lparr>statusCode = 500, headers = json_headers, body = ErrorBody MSG_NO_AUDIO\<rparr>,
      example_world [js ''s1'' \<mapsto> example_session []] [])
   \<and> handler (example_env (js ''gemini'') (Some (js ''k'')))
     (example_json_event (example_body None (Some (js ''s1'')) True))
     (example_world [js ''s1'' \<mapsto> example_session []] [])
   = (\<lparr>statusCode = 500, headers = json_headers, body = ErrorBody MSG_NO_PROMPT\<rparr>,
      example_world [js ''s1'' \<mapsto> example_session []] [])
   \<and> blobs (example_world [js ''s1'' \<mapsto> example_session []] []) (js ''s1'')
       = Some (example_session [])"
proof -
  let ?f = "example_form (Some (js ''s1'')) (Some (js ''true'')) []"
  let ?b = "example_body None (Some (js ''s1'')) True"
  have f: "f_endSession ?f = Some (js ''true'')" "truthy (f_sessionId ?f)"
    "find (\<lambda>f. fst f = js ''audio'') (files ?f) = None"
    by (simp_all add: example_form_def truthy_def js_def)
  have b: "b_endSession ?b" "truthy (b_sessionId ?b)" "\<not> truthy (b_prompt ?b)"
    by (simp_all add: example_body_def truthy_def js_def)
  show ?thesis
    using end_session_after_validation [of "example_multipart_event ?f"
        "js ''multipart/form-data; boundary=x''" ?f]
      end_session_after_validation [of "example_json_event ?b" "js ''application/json''" _ _ _ ?b]
      example_multipart_hyps example_json_hyps f b
    by (simp add: example_world_def)
qed

subsection \<open>Model fallback\<close>

lemma openai_text_fallback:
  assumes "net_script w = Responded r1 # Responded r2 # rest"
      and "status r1 \<in> {400, 404, 422}"
  shows "\<exists>msgs.
     net_log (snd (generateTextWithOpenAI key input w)) =
       net_log w @ [OpenAIChat key (js ''gpt-5-nano-2025-08-07'') msgs,
                    OpenAIChat key (js ''gpt-4o-mini'') msgs]
     \<and> (\<not> ok r2 \<longrightarrow> fst (generateTextWithOpenAI key input w) =
            Inl (Error (js ''OpenAI chat error '' @ digits (status r2) @ js '': ''
                        @ safeReadText r2)))"
proof -
  have nok: "\<not> ok r1" using assms(2) by (auto simp: ok_def)
  show ?thesis
    using assms nok
    by (cases "ok r2"; cases "body_json r2")
       (simp_all add: generateTextWithOpenAI_def Let_def bind_io_def fetch_responded throw_def
                 return_io_def lift_result_def)
qed

lemma mistral_fallback:
  assumes "net_script w = Responded r1 # Responded r2 # rest"
      and "status r1 \<in> {400, 404, 422, 429}"
      and "m \<in> set ts" "role m \<noteq> System" "nonblank (or_empty (msg_text m))"
  shows "\<exists>msgs sp.
     net_log (snd (generateTextWithMistral key (InputTurns ts) w)) =
       net_log w @ [MistralChat key (js ''magistral-medium-2509'') msgs sp,
                    MistralChat key (js ''mistral-small-latest'') msgs sp]
     \<and> (\<not> ok r2 \<longrightarrow> fst (generateTextWithMistral key (InputTurns ts) w) =
            Inl (Error (js ''Mistral chat error '' @ digits (status r2) @ js '': ''
                        @ safeReadText r2)))"
proof -
  have nok: "\<not> ok r1" using assms(2) by (auto simp: ok_def)
  define msgs where "msgs = filter (\<lambda>msg. length (trim (or_empty (cm_content msg))) > 0)
                          (map (\<lambda>msg. \<lparr>cm_role = (if role msg = Assistant then Assistant else User),
                                       cm_content = Some (or_empty (msg_text msg))\<rparr>)
                             (filter (\<lambda>m. role m \<noteq> System) ts))"
  have "trim (or_empty (msg_text m)) \<noteq> []"
    using assms(5) by (simp add: trim_nonempty_iff)
  then have "\<lparr>cm_role = (if role m = Assistant then Assistant else User),
              cm_content = Some (or_empty (msg_text m))\<rparr> \<in> set msgs"
    using assms(3,4) unfolding msgs_def by (auto simp: or_empty_def)
  then have ne: "msgs \<noteq> []" by auto
  show ?thesis
    using assms(1,2) nok ne unfolding msgs_def
    by (cases "ok r2"; cases "body_json r2")
       (simp_all add: generateTextWithMistral_def Let_def bind_io_def fetch_responded throw_def
                 return_io_def lift_result_def)
qed

lemma openai_transcription_fallback:
  assumes "net_script w = Responded r1 # Responded r2 # rest"
      and "status r1 \<in> {400, 404, 422}"
  shows "\<exists>more. net_log (snd (generateTextWithOpenAIAndAudio key input audio w)) =
       net_log w @ [OpenAITranscribe key (js ''gpt-4o-mini-transcribe'') audio,
                    OpenAITranscribe key (js ''whisper-1'') audio] @ more
     \<and> (\<forall>c \<in> set more. \<exists>m ms. c = OpenAIChat key m ms)
     \<and> (\<not> ok r2 \<longrightarrow> more = [] \<and> fst (generateTextWithOpenAIAndAudio key input audio w) =
            Inl (Error (js ''OpenAI transcription error '' @ digits (status r2) @ js '': ''
                        @ safeReadText r2)))"
proof -
  have nok: "\<not> ok r1" using assms(2) by (auto simp: ok_def)
  show ?thesis
  proof (cases "ok r2")
    case False
    then show ?thesis
      using assms nok
      by (simp add: generateTextWithOpenAIAndAudio_def Let_def bind_io_def fetch_responded
            throw_def return_io_def lift_result_def)
  next
    case True
    then show ?thesis
      using assms nok
      by (auto simp add: generateTextWithOpenAIAndAudio_def Let_def bind_io_def fetch_responded
                 throw_def return_io_def lift_result_def fetch_def
               split: sum.splits list.splits fetch_outcome.splits prod.splits)
  qed
qed

lemma openai_audio_chat_fallback:
  assumes "net_script w = Responded t1 # Responded r1 # Responded r2 # rest"
      and "ok t1" and "body_json t1 = Inr v"
      and "status r1 \<in> {400, 404, 422}"
  shows "\<exists>msgs. net_log (snd (generateTextWithOpenAIAndAudio key input audio w)) =
       net_log w @ [OpenAITranscribe key (js ''gpt-4o-mini-transcribe'') audio,
                    OpenAIChat key (js ''gpt-5-nano-2025-08-07'') msgs,
                    OpenAIChat key (js ''gpt-4o-mini'') msgs]
     \<and> (\<not> ok r2 \<longrightarrow> fst (generateTextWithOpenAIAndAudio key input audio w) =
            Inl (Error (js ''OpenAI chat error '' @ digits (status r2) @ js '': ''
                        @ safeReadText r2)))"
proof -
  have nok: "\<not> ok r1" using assms(4) by (auto simp: ok_def)
  show ?thesis
    using assms nok
    by (cases "ok r2"; cases "body_json r2")
       (simp_all add: generateTextWithOpenAIAndAudio_def Let_def bind_io_def fetch_responded
             throw_def return_io_def lift_result_def)
qed

text \<open>
  Claim C6. When the primary model answers 400, 404 or 422 (or 429 for Mistral) and
  the network answers the next call, the OpenAI chat adapter and the Mistral chat adapter
  make exactly two calls, the first to the primary and the second to the secondary model
  with the same messages; when the second answer is not a success either, the adapter
  throws the error whose message carries the second status. The transcription step of
  the OpenAI audio adapter does the same with its two transcription models (after a
  successful retry only chat calls follow), and so does its chat step.
\<close>

theorem fallback_once_then_fail:
  "(net_script w = Responded r1 # Responded r2 # rest \<longrightarrow> status r1 \<in> {400, 404, 422} \<longrightarrow>
      (\<exists>msgs.
         net_log (snd (generateTextWithOpenAI key input w)) =
           net_log w @ [OpenAIChat key (js ''gpt-5-nano-2025-08-07'') msgs,
                        OpenAIChat key (js ''gpt-4o-mini'') msgs]
         \<and> (\<not> ok r2 \<longrightarrow> fst (generateTextWithOpenAI key input w) =
                Inl (Error (js ''OpenAI chat error '' @ digits (status r2) @ js '': ''
                            @ safeReadText r2)))))
   \<and> (net_script w = Responded r1 # Responded r2 # rest \<longrightarrow>
      status r1 \<in> {400, 404, 422, 429} \<longrightarrow>
      m \<in> set ts \<longrightarrow> role m \<noteq> System \<longrightarrow> nonblank (or_empty (msg_text m)) \<longrightarrow>
      (\<exists>msgs sp.
         net_log (snd (generateTextWithMistral key (InputTurns ts) w)) =
           net_log w @ [MistralChat key (js ''magistral-medium-2509'') msgs sp,
                        MistralChat key (js ''mistral-small-latest'') msgs sp]
         \<and> (\<not> ok r2 \<longrightarrow> fst (generateTextWithMistral key (InputTurns ts) w) =
                Inl (Error (js ''Mistral chat error '' @ digits (status r2) @ js '': ''
                            @ safeReadText r2)))))
   \<and> (net_script w = Responded r1 # Responded r2 # rest \<longrightarrow> status r1 \<in> {400, 404, 422} \<longrightarrow>
      (\<exists>more. net_log (snd (generateTextWithOpenAIAndAudio key input audio w)) =
           net_log w @ [OpenAITranscribe key (js ''gpt-4o-mini-transcribe'') audio,
                        OpenAITranscribe key (js ''whisper-1'') audio] @ more
         \<and> (\<forall>c \<in> set more. \<exists>m ms. c = OpenAIChat key m ms)
         \<and> (\<not> ok r2 \<longrightarrow> more = [] \<and> fst (generateTextWithOpenAIAndAudio key input audio w) =
                Inl (Error (js ''OpenAI transcription error '' @ digits (status r2) @ js '': ''
                            @ safeReadText r2)))))
   \<and> (net_script w = Responded t1 # Responded r1 # Responded r2 # rest \<longrightarrow>
      ok t1 \<longrightarrow> body_json t1 = Inr v \<longrightarrow> status r1 \<in> {400, 404, 422} \<longrightarrow>
      (\<exists>msgs. net_log (snd (generateTextWithOpenAIAndAudio key input audio w)) =
           net_log w @ [OpenAITranscribe key (js ''gpt-4o-mini-transcribe'') audio,
                        OpenAIChat key (js ''gpt-5-nano-2025-08-07'') msgs,
                        OpenAIChat key (js ''gpt-4o-mini'') msgs]
         \<and> (\<not> ok r2 \<longrightarrow> fst (generateTextWithOpenAIAndAudio key input audio w) =
                Inl (Error (js ''OpenAI chat error '' @ digits (status r2) @ js '': ''
                            @ safeReadText r2)))))"
  using openai_text_fallback [of w r1 r2 rest key input]
    mistral_fallback [of w r1 r2 rest m ts key]
    openai_transcription_fallback [of w r1 r2 rest key input audio]
    openai_audio_chat_fallback [of w t1 r1 r2 rest v key input audio]
  by (intro conjI impI) blast+

lemma example_digits: "digits 503 = js ''503''" "digits 500 = js ''500''"
  by (simp_all add: digits.simps js_def)

theorem fallback_once_then_fail_witness:
  "fst (generateTextWithOpenAI (js ''k'') (InputTurns [example_turn User])
          (example_world Map.empty [Responded (example_response 422 (js ''no model'')),
                                    Responded (example_response 503 (js ''busy''))]))
     = Inl (Error (js ''OpenAI chat error 503: busy''))
   \<and> fst (generateTextWithMistral (js ''k'') (InputTurns [example_turn User])
          (example_world Map.empty [Responded (example_response 422 (js ''no model'')),
                                    Responded (example_response 503 (js ''busy''))]))
     = Inl (Error (js ''Mistral chat error 503: busy''))
   \<and> fst (generateTextWithOpenAIAndAudio (js ''k'') (InputTurns [example_turn User]) [1, 2]
          (example_world Map.empty [Responded (example_response 422 (js ''no model'')),
                                    Responded (example_response 503 (js ''busy''))]))
     = Inl (Error (js ''OpenAI transcription error 503: busy''))
   \<and> fst (generateTextWithOpenAIAndAudio (js ''k'') (InputTurns [example_turn User]) [1, 2]
          (example_world Map.empty [Responded (example_response 200 (js ''words'')),
                                    Responded (example_response 422 (js ''no model'')),
                                    Responded (example_response 503 (js ''busy''))]))
     = Inl (Error (js ''OpenAI chat error 503: busy''))"
proof -
  let ?r1 = "example_response 422 (js ''no model'')"
  let ?r2 = "example_response 503 (js ''busy'')"
  let ?t1 = "example_response 200 (js ''words'')"
  let ?w = "example_world Map.empty [Responded ?r1, Responded ?r2]"
  let ?w' = "example_world Map.empty [Responded ?t1, Responded ?r1, Responded ?r2]"
  have s: "net_script ?w = Responded ?r1 # Responded ?r2 # []"
    "net_script ?w' = Responded ?t1 # Responded ?r1 # Responded ?r2 # []"
    by (simp_all add: example_world_def)
  have r: "status ?r1 \<in> {400, 404, 422}" "status ?r1 \<in> {400, 404, 422, 429}" "\<not> ok ?r2"
    "ok ?t1" "body_json ?t1 = Inr (Some (js ''words''))"
    "safeReadText ?r2 = js ''busy''" "status ?r2 = 503"
    by (simp_all add: example_response_def ok_def safeReadText_def)
  have m: "example_turn User \<in> set [example_turn User]" "role (example_turn User) \<noteq> System"
    "nonblank (or_empty (msg_text (example_turn User)))"
    by (simp_all add: example_turn_def nonblank_def or_empty_def js_def isWhiteSpace_def)
  have j: "js ''OpenAI chat error '' @ js ''503'' @ js '': '' @ js ''busy''
             = js ''OpenAI chat error 503: busy''"
    "js ''Mistral chat error '' @ js ''503'' @ js '': '' @ js ''busy''
             = js ''Mistral chat error 503: busy''"
    "js ''OpenAI transcription error '' @ js ''503'' @ js '': '' @ js ''busy''
             = js ''OpenAI transcription error 503: busy''"
    by (simp_all add: js_def)
  note a = fallback_once_then_fail [of ?w ?r1 ?r2 "[]" "js ''k''" "InputTurns [example_turn User]"
      "example_turn User" "[example_turn User]" "[1, 2]"]
  note b = fallback_once_then_fail [of ?w' ?r1 ?r2 "[]" "js ''k''" "InputTurns [example_turn User]"
      _ _ "[1, 2]" ?t1 "Some (js ''words'')"]
  have 1: "fst (generateTextWithOpenAI (js ''k'') (InputTurns [example_turn User]) ?w)
     = Inl (Error (js ''OpenAI chat error 503: busy''))"
    using a s(1) r(1,3) by (auto simp: r(6,7) example_digits j)
  have 2: "fst (generateTextWithMistral (js ''k'') (InputTurns [example_turn User]) ?w)
     = Inl (Error (js ''Mistral chat error 503: busy''))"
    using a s(1) r(2,3) m by (auto simp: r(6,7) example_digits j)
  have 3: "fst (generateTextWithOpenAIAndAudio (js ''k'') (InputTurns [example_turn User]) [1, 2] ?w)
     = Inl (Error (js ''OpenAI transcription error 503: busy''))"
    using a s(1) r(1,3) by (auto simp: r(6,7) example_digits j)
  have 4: "fst (generateTextWithOpenAIAndAudio (js ''k'') (InputTurns [example_turn User]) [1, 2] ?w')
     = Inl (Error (js ''OpenAI chat error 503: busy''))"
    using b s(2) r(1,3,4,5) by (auto simp: r(6,7) example_digits j)
  show ?thesis using 1 2 3 4 by simp
qed

subsection \<open>A successful text exchange\<close>

lemma text_exchange_healthy:
  assumes "httpMethod ev = js ''POST''"
      and "js_or (content_type ev) (Content_Type ev) = Some ct"
      and "startsWith (js ''application/json'') ct"
      and "json ev = Inr b" and "truthy (b_prompt b)"
      and "b_sessionId b = Some k" and "k \<noteq> []" and "\<not> b_endSession b"
      and "store_script w = []"
      and "s = (case blobs w k of
                  None \<Rightarrow> createNewSession (or_empty (b_system b)) (clock w)
                | Some s0 \<Rightarrow> if b_resetContext b
                             then s0\<lparr>messages := [], lastActivity := clock w\<rparr> else s0)"
      and "dispatch_text e (selected_provider e)
             (formatMessagesForProvider (Some (systemPrompt s)) (messages s) (b_prompt b))
             \<lparr>modelName = modelName b, modelUri = modelUri b,
              temperature = temperature b, maxTokens = maxTokens b\<rparr> w = (Inr (Inr tx), w2)"
  shows "\<exists>s'. handler e ev w =
           (\<lparr>statusCode = 200, headers = json_headers,
             body = SuccessBody tx (selected_provider e) None (Some k)
                      (length (messages s') div 2)\<rparr>,
            w2\<lparr>blobs := (blobs w2)(k \<mapsto> s')\<rparr>)
         \<and> messages s' =
             drop (length (messages s) + 2 - 20)
               (messages s @ [\<lparr>role = User, msg_text = b_prompt b, timestamp = Some (clock w)\<rparr>,
                              \<lparr>role = Assistant, msg_text = tx, timestamp = Some (clock w)\<rparr>])
         \<and> length (messages s') = min (length (messages s) + 2) 20"
proof -
  have t: "truthy (b_sessionId b)" "or_empty (b_sessionId b) = k"
    using assms(6,7) by (simp_all add: truthy_def or_empty_def)
  have r: "resolveSession (b_sessionId b) (b_resetContext b) (b_system b) w = (Inr s, w)"
    using t assms(10) by (simp add: resolveSession_healthy [OF assms(9)])
  have "same_store w w2" using assms(11) dispatch_same_store(1) by (rule steps_inD [rotated])
  then have w2: "store_script w2 = []" "clock w2 = clock w"
    using assms(9) by (simp_all add: same_store_def)
  obtain s' w3 where p: "persistTurns (b_sessionId b) s (b_prompt b) tx w2 = (Inr s', w3)"
    "s' = appended s (b_prompt b) tx (clock w2)"
    "w3 = w2\<lparr>blobs := (blobs w2)(k \<mapsto> s')\<rparr>"
    using persistTurns_result [of "b_sessionId b" s "b_prompt b" tx w2] t w2(1) by auto
  have ne: "\<not> (b_endSession b \<and> truthy (b_sessionId b))" using assms(8) by simp
  have "handler_try e (selected_provider e) ev w =
      (Inr \<lparr>statusCode = 200, headers = json_headers,
            body = SuccessBody tx (selected_provider e) None (Some k)
                     (length (messages s') div 2)\<rparr>, w3)"
    using handler_try_json [OF assms(2-5)] handler_text_steps [OF ne r] assms(11) p(1) assms(6)
    by simp
  then have h: "handler e ev w =
      (\<lparr>statusCode = 200, headers = json_headers,
        body = SuccessBody tx (selected_provider e) None (Some k)
                 (length (messages s') div 2)\<rparr>, w2\<lparr>blobs := (blobs w2)(k \<mapsto> s')\<rparr>)"
    using handler_post [OF assms(1)] p(3) by simp
  have m: "messages s' =
             drop (length (messages s) + 2 - 20)
               (messages s @ [\<lparr>role = User, msg_text = b_prompt b, timestamp = Some (clock w)\<rparr>,
                              \<lparr>role = Assistant, msg_text = tx, timestamp = Some (clock w)\<rparr>])"
    unfolding p(2) w2(2) by (rule appended_messages)
  have l: "length (messages s') = min (length (messages s) + 2) 20"
    unfolding p(2) by (rule appended_length)
  show ?thesis using h m l by blast
qed

lemma twenty_turns:
  "length (concat (replicate 10 [example_turn User, example_turn Assistant])) = 20"
  by (simp add: length_concat sum_list_replicate)

text \<open>
  Claim C9, as stated, fails at the cap: a stored session of 20 messages still has 20
  after a successful exchange, not 22.
\<close>

theorem exchange_at_cap_counterexample:
  "map_option (length \<circ> messages)
     (blobs (example_world
           [js ''s1'' \<mapsto> example_session (concat (replicate 10 [example_turn User, example_turn Assistant]))]
           [Responded (example_response 200 (js ''Hello''))]) (js ''s1'')) = Some 20
   \<and> map_option (length \<circ> messages)
     (blobs (snd (handler (example_env (js ''gemini'') (Some (js ''k'')))
        (example_json_event (example_body (Some (js ''Hi'')) (Some (js ''s1'')) False))
        (example_world
           [js ''s1'' \<mapsto> example_session (concat (replicate 10 [example_turn User, example_turn Assistant]))]
           [Responded (example_response 200 (js ''Hello''))]))) (js ''s1'')) = Some 20
   \<and> statusCode (fst (handler (example_env (js ''gemini'') (Some (js ''k'')))
        (example_json_event (example_body (Some (js ''Hi'')) (Some (js ''s1'')) False))
        (example_world
           [js ''s1'' \<mapsto> example_session (concat (replicate 10 [example_turn User, example_turn Assistant]))]
           [Responded (example_response 200 (js ''Hello''))]))) = 200"
proof -
  let ?s = "example_session (concat (replicate 10 [example_turn User, example_turn Assistant]))"
  let ?w = "example_world [js ''s1'' \<mapsto> ?s] [Responded (example_response 200 (js ''Hello''))]"
  let ?b = "example_body (Some (js ''Hi'')) (Some (js ''s1'')) False"
  let ?e = "example_env (js ''gemini'') (Some (js ''k''))"
  let ?D = "dispatch_text ?e (selected_provider ?e)
      (formatMessagesForProvider (Some (systemPrompt ?s)) (messages ?s) (b_prompt ?b))
      \<lparr>modelName = modelName ?b, modelUri = modelUri ?b,
       temperature = temperature ?b, maxTokens = maxTokens ?b\<rparr> ?w"
  have b: "truthy (b_prompt ?b)" "b_sessionId ?b = Some (js ''s1'')" "js ''s1'' \<noteq> []"
    "\<not> b_endSession ?b" "\<not> b_resetContext ?b"
    by (simp_all add: example_body_def truthy_def js_def)
  have w: "store_script ?w = []" "blobs ?w (js ''s1'') = Some ?s"
    by (simp_all add: example_world_def)
  have s: "?s = (case blobs ?w (js ''s1'') of
                  None \<Rightarrow> createNewSession (or_empty (b_system ?b)) (clock ?w)
                | Some s0 \<Rightarrow> if b_resetContext ?b
                             then s0\<lparr>messages := [], lastActivity := clock ?w\<rparr> else s0)"
    using w(2) b(5) by simp
  have d: "?D = (Inr (Inr (Some (js ''Hello''))), snd ?D)"
    by (simp add: dispatch_text_def example_env_def truthy_def or_empty_def
          selected_provider_def toLowerCase_def js_or_def generateTextWithGemini_def
          generateContent_def bind_io_def fetch_def Let_def example_world_def
          example_response_def lift_result_def return_io_def js_def)
  obtain s' where h: "handler ?e (example_json_event ?b) ?w =
           (\<lparr>statusCode = 200, headers = json_headers,
             body = SuccessBody (Some (js ''Hello'')) (selected_provider ?e) None (Some (js ''s1''))
                      (length (messages s') div 2)\<rparr>,
            (snd ?D)\<lparr>blobs := (blobs (snd ?D))(js ''s1'' \<mapsto> s')\<rparr>)"
    "length (messages s') = min (length (messages ?s) + 2) 20"
    using text_exchange_healthy [OF example_json_hyps b(1-4) w(1) s d] by blast
  have "length (messages ?s) = 20" by (simp add: example_session_def twenty_turns)
  then show ?thesis using h w(2) by simp
qed


lemma next_fault_keeps:
  "blobs (snd (next_fault w)) = blobs w" "clock (snd (next_fault w)) = clock w"
  "net_log (snd (next_fault w)) = net_log w" "net_script (snd (next_fault w)) = net_script w"
  by (simp_all add: next_fault_def split: list.splits)

lemma getSession_exact:
  "truthy sid \<Longrightarrow>
   getSession sid w =
     (Inr (case fst (next_fault w) of Some err \<Rightarrow> None | None \<Rightarrow> blobs w (or_empty sid)),
      snd (next_fault w))"
  by (cases "next_fault w")
     (auto simp: getSession_def try_catch_def store_get_def return_io_def next_fault_def
           split: option.splits list.splits)

lemma resolveSession_exact:
  assumes "truthy sid"
  shows "resolveSession sid rc sys w =
     (Inr (case (case fst (next_fault w) of Some err \<Rightarrow> None | None \<Rightarrow> blobs w (or_empty sid)) of
             None \<Rightarrow> createNewSession (or_empty sys) (clock w)
           | Some s0 \<Rightarrow> if rc then s0\<lparr>messages := [], lastActivity := clock w\<rparr> else s0),
      snd (next_fault w))"
  using assms next_fault_keeps(2) [of w]
  by (auto simp: resolveSession_def bind_io_def return_io_def Date_now_def getSession_exact
           split: option.splits)

lemma persistTurns_accepted:
  assumes "truthy sid" "fst (next_fault w) = None"
  shows "persistTurns sid s ut t w =
     (Inr (appended s ut t (clock w)),
      (snd (next_fault w))\<lparr>blobs := (blobs w)(or_empty sid \<mapsto> appended s ut t (clock w))\<rparr>)"
  using assms next_fault_keeps(1) [of w]
  by (cases "next_fault w")
     (auto simp: persistTurns_def bind_io_def Date_now_def Let_def return_io_def appended_def
        saveSession_def try_catch_def store_set_def)

lemma text_exchange_general:
  assumes "httpMethod ev = js ''POST''"
      and "js_or (content_type ev) (Content_Type ev) = Some ct"
      and "startsWith (js ''application/json'') ct"
      and "json ev = Inr b" and "truthy (b_prompt b)"
      and "b_sessionId b = Some k" and "k \<noteq> []" and "\<not> b_endSession b"
      and "s = (case (case fst (next_fault w) of Some err \<Rightarrow> None | None \<Rightarrow> blobs w k) of
                  None \<Rightarrow> createNewSession (or_empty (b_system b)) (clock w)
                | Some s0 \<Rightarrow> if b_resetContext b
                             then s0\<lparr>messages := [], lastActivity := clock w\<rparr> else s0)"
      and "dispatch_text e (selected_provider e)
             (formatMessagesForProvider (Some (systemPrompt s)) (messages s) (b_prompt b))
             \<lparr>modelName = modelName b, modelUri = modelUri b,
              temperature = temperature b, maxTokens = maxTokens b\<rparr> (snd (next_fault w))
             = (Inr (Inr tx), w2)"
      and "fst (next_fault w2) = None"
  shows "\<exists>s'. handler e ev w =
           (\<lparr>statusCode = 200, headers = json_headers,
             body = SuccessBody tx (selected_provider e) None (Some k)
                      (length (messages s') div 2)\<rparr>,
            (snd (next_fault w2))\<lparr>blobs := (blobs w)(k \<mapsto> s')\<rparr>)
         \<and> messages s' =
             drop (length (messages s) + 2 - 20)
               (messages s @ [\<lparr>role = User, msg_text = b_prompt b, timestamp = Some (clock w)\<rparr>,
                              \<lparr>role = Assistant, msg_text = tx, timestamp = Some (clock w)\<rparr>])
         \<and> length (messages s') = min (length (messages s) + 2) 20"
proof -
  have t: "truthy (b_sessionId b)" "or_empty (b_sessionId b) = k"
    using assms(6,7) by (simp_all add: truthy_def or_empty_def)
  have r: "resolveSession (b_sessionId b) (b_resetContext b) (b_system b) w
             = (Inr s, snd (next_fault w))"
    unfolding assms(9)
    using resolveSession_exact [OF t(1), of "b_resetContext b" "b_system b" w]
    unfolding t(2) .
  have "same_store (snd (next_fault w)) w2"
    using assms(10) dispatch_same_store(1) by (rule steps_inD [rotated])
  then have w2: "blobs w2 = blobs w" "clock w2 = clock w"
    by (simp_all add: same_store_def next_fault_keeps)
  define s' where "s' = appended s (b_prompt b) tx (clock w2)"
  have p: "persistTurns (b_sessionId b) s (b_prompt b) tx w2 =
      (Inr s', (snd (next_fault w2))\<lparr>blobs := (blobs w)(k \<mapsto> s')\<rparr>)"
    using persistTurns_accepted [OF t(1) assms(11), of s "b_prompt b" tx] t(2) w2(1)
    by (simp add: s'_def)
  have ne: "\<not> (b_endSession b \<and> truthy (b_sessionId b))" using assms(8) by simp
  have "handler_try e (selected_provider e) ev w =
      (Inr \<lparr>statusCode = 200, headers = json_headers,
            body = SuccessBody tx (selected_provider e) None (Some k)
                     (length (messages s') div 2)\<rparr>,
       (snd (next_fault w2))\<lparr>blobs := (blobs w)(k \<mapsto> s')\<rparr>)"
    using handler_try_json [OF assms(2-5)] handler_text_steps [OF ne r] assms(10) p assms(6)
    by simp
  then have h: "handler e ev w =
      (\<lparr>statusCode = 200, headers = json_headers,
        body = SuccessBody tx (selected_provider e) None (Some k)
                 (length (messages s') div 2)\<rparr>,
       (snd (next_fault w2))\<lparr>blobs := (blobs w)(k \<mapsto> s')\<rparr>)"
    using handler_post [OF assms(1)] by simp
  have m: "messages s' =
             drop (length (messages s) + 2 - 20)
               (messages s @ [\<lparr>role = User, msg_text = b_prompt b, timestamp = Some (clock w)\<rparr>,
                              \<lparr>role = Assistant, msg_text = tx, timestamp = Some (clock w)\<rparr>])"
    unfolding s'_def w2(2) by (rule appended_messages)
  have l: "length (messages s') = min (length (messages s) + 2) 20"
    unfolding s'_def by (rule appended_length)
  show ?thesis using h m l by blast
qed

text \<open>
  Claim C9, amended. After a successful text exchange with a session id whose save the
  store accepts, the persisted message list is the list the exchange started from (the
  loaded session's messages, or the empty list when no session was stored, the load
  failed, or \<open>resetContext\<close> was set) with the user turn and the assistant turn
  appended, cut to its last 20 elements: its length is \<open>min (start + 2) 20\<close>, and
  \<open>turns\<close> in the response is half the new length, rounded down.
\<close>

theorem text_exchange_appends_and_caps:
  assumes "httpMethod ev = js ''POST''"
      and "js_or (content_type ev) (Content_Type ev) = Some ct"
      and "startsWith (js ''application/json'') ct"
      and "json ev = Inr b" and "truthy (b_prompt b)"
      and "b_sessionId b = Some k" and "k \<noteq> []" and "\<not> b_endSession b"
      and "s = (case (case fst (next_fault w) of Some err \<Rightarrow> None | None \<Rightarrow> blobs w k) of
                  None \<Rightarrow> createNewSession (or_empty (b_system b)) (clock w)
                | Some s0 \<Rightarrow> if b_resetContext b
                             then s0\<lparr>messages := [], lastActivity := clock w\<rparr> else s0)"
      and "dispatch_text e (selected_provider e)
             (formatMessagesForProvider (Some (systemPrompt s)) (messages s) (b_prompt b))
             \<lparr>modelName = modelName b, modelUri = modelUri b,
              temperature = temperature b, maxTokens = maxTokens b\<rparr> (snd (next_fault w))
             = (Inr (Inr tx), w2)"
      and "fst (next_fault w2) = None"
  shows "\<exists>s'. handler e ev w =
           (\<lparr>statusCode = 200, headers = json_headers,
             body = SuccessBody tx (selected_provider e) None (Some k)
                      (length (messages s') div 2)\<rparr>,
            (snd (next_fault w2))\<lparr>blobs := (blobs w)(k \<mapsto> s')\<rparr>)
         \<and> messages s' =
             drop (length (messages s) + 2 - 20)
               (messages s @ [\<lparr>role = User, msg_text = b_prompt b, timestamp = Some (clock w)\<rparr>,
                              \<lparr>role = Assistant, msg_text = tx, timestamp = Some (clock w)\<rparr>])
         \<and> length (messages s') = min (length (messages s) + 2) 20"
  using assms by (rule text_exchange_general)

theorem text_exchange_appends_and_caps_witness:
  "fst (handler (example_env (js ''gemini'') (Some (js ''k'')))
        (example_json_event (example_body (Some (js ''Hi'')) (Some (js ''s1'')) False))
        (example_world
           [js ''s1'' \<mapsto> example_session [example_turn User, example_turn Assistant]]
           [Responded (example_response 200 (js ''Hello''))]))
     = \<lparr>statusCode = 200, headers = json_headers,
        body = SuccessBody (Some (js ''Hello'')) (js ''gemini'') None (Some (js ''s1'')) 2\<rparr>
   \<and> map_option messages
     (blobs (snd (handler (example_env (js ''gemini'') (Some (js ''k'')))
        (example_json_event (example_body (Some (js ''Hi'')) (Some (js ''s1'')) False))
        (example_world
           [js ''s1'' \<mapsto> example_session [example_turn User, example_turn Assistant]]
           [Responded (example_response 200 (js ''Hello''))]))) (js ''s1''))
     = Some [example_turn User, example_turn Assistant,
             \<lparr>role = User, msg_text = Some (js ''Hi''), timestamp = Some 7\<rparr>,
             \<lparr>role = Assistant, msg_text = Some (js ''Hello''), timestamp = Some 7\<rparr>]
   \<and> fst (handler (example_env (js ''gemini'') (Some (js ''k'')))
        (example_json_event (example_body (Some (js ''Hi'')) (Some (js ''s1'')) False))
        ((example_world
           [js ''s1'' \<mapsto> example_session [example_turn User, example_turn Assistant]]
           [Responded (example_response 200 (js ''Hello''))])
          \<lparr>store_script := [Some (Error (js ''unreachable''))]\<rparr>))
     = \<lparr>statusCode = 200, headers = json_headers,
        body = SuccessBody (Some (js ''Hello'')) (js ''gemini'') None (Some (js ''s1'')) 1\<rparr>
   \<and> map_option messages
     (blobs (snd (handler (example_env (js ''gemini'') (Some (js ''k'')))
        (example_json_event (example_body (Some (js ''Hi'')) (Some (js ''s1'')) False))
        ((example_world
           [js ''s1'' \<mapsto> example_session [example_turn User, example_turn Assistant]]
           [Responded (example_response 200 (js ''Hello''))])
          \<lparr>store_script := [Some (Error (js ''unreachable''))]\<rparr>))) (js ''s1''))
     = Some [\<lparr>role = User, msg_text = Some (js ''Hi''), timestamp = Some 7\<rparr>,
             \<lparr>role = Assistant, msg_text = Some (js ''Hello''), timestamp = Some 7\<rparr>]"
proof -
  let ?s = "example_session [example_turn User, example_turn Assistant]"
  let ?n = "createNewSession [] 7"
  let ?w = "example_world [js ''s1'' \<mapsto> ?s] [Responded (example_response 200 (js ''Hello''))]"
  let ?wf = "?w\<lparr>store_script := [Some (Error (js ''unreachable''))]\<rparr>"
  let ?b = "example_body (Some (js ''Hi'')) (Some (js ''s1'')) False"
  let ?e = "example_env (js ''gemini'') (Some (js ''k''))"
  let ?opts = "\<lparr>modelName = modelName ?b, modelUri = modelUri ?b,
       temperature = temperature ?b, maxTokens = maxTokens ?b\<rparr>"
  let ?D = "dispatch_text ?e (selected_provider ?e)
      (formatMessagesForProvider (Some (systemPrompt ?s)) (messages ?s) (b_prompt ?b))
      ?opts (snd (next_fault ?w))"
  let ?Df = "dispatch_text ?e (selected_provider ?e)
      (formatMessagesForProvider (Some (systemPrompt ?n)) (messages ?n) (b_prompt ?b))
      ?opts (snd (next_fault ?wf))"
  have b: "truthy (b_prompt ?b)" "b_sessionId ?b = Some (js ''s1'')" "js ''s1'' \<noteq> []"
    "\<not> b_endSession ?b" "\<not> b_resetContext ?b" "b_prompt ?b = Some (js ''Hi'')"
    "or_empty (b_system ?b) = []"
    by (simp_all add: example_body_def truthy_def or_empty_def js_def)
  have n: "next_fault ?w = (None, ?w)"
    "next_fault ?wf = (Some (Error (js ''unreachable'')), ?w)"
    by (simp_all add: next_fault_def example_world_def)
  have w: "blobs ?w (js ''s1'') = Some ?s" "clock ?w = 7" "clock ?wf = 7"
    "blobs ?wf = blobs ?w" "store_script ?w = []"
    by (simp_all add: example_world_def)
  have s: "?s = (case (case fst (next_fault ?w) of Some err \<Rightarrow> None
                        | None \<Rightarrow> blobs ?w (js ''s1'')) of
                  None \<Rightarrow> createNewSession (or_empty (b_system ?b)) (clock ?w)
                | Some s0 \<Rightarrow> if b_resetContext ?b
                             then s0\<lparr>messages := [], lastActivity := clock ?w\<rparr> else s0)"
    unfolding n using w(1) b(5) by simp
  have sf: "?n = (case (case fst (next_fault ?wf) of Some err \<Rightarrow> None
                        | None \<Rightarrow> blobs ?wf (js ''s1'')) of
                  None \<Rightarrow> createNewSession (or_empty (b_system ?b)) (clock ?wf)
                | Some s0 \<Rightarrow> if b_resetContext ?b
                             then s0\<lparr>messages := [], lastActivity := clock ?wf\<rparr> else s0)"
    unfolding n b(7) w(3) by simp
  have d: "?D = (Inr (Inr (Some (js ''Hello''))), snd ?D)"
    unfolding n
    by (simp add: dispatch_text_def example_env_def truthy_def or_empty_def
          selected_provider_def toLowerCase_def js_or_def generateTextWithGemini_def
          generateContent_def bind_io_def fetch_def Let_def example_world_def
          example_response_def lift_result_def return_io_def js_def)
  have df: "?Df = (Inr (Inr (Some (js ''Hello''))), snd ?Df)"
    unfolding n
    by (simp add: dispatch_text_def example_env_def truthy_def or_empty_def
          selected_provider_def toLowerCase_def js_or_def generateTextWithGemini_def
          generateContent_def bind_io_def fetch_def Let_def example_world_def
          example_response_def lift_result_def return_io_def js_def)
  have "same_store (snd (next_fault ?w)) (snd ?D)" "same_store (snd (next_fault ?wf)) (snd ?Df)"
    using dispatch_same_store(1) by (simp_all add: steps_in_def)
  then have a: "fst (next_fault (snd ?D)) = None" "fst (next_fault (snd ?Df)) = None"
    unfolding n by (simp_all add: same_store_def w(5) next_fault_def)
  obtain s' where h: "handler ?e (example_json_event ?b) ?w =
           (\<lparr>statusCode = 200, headers = json_headers,
             body = SuccessBody (Some (js ''Hello'')) (selected_provider ?e) None (Some (js ''s1''))
                      (length (messages s') div 2)\<rparr>,
            (snd (next_fault (snd ?D)))\<lparr>blobs := (blobs ?w)(js ''s1'' \<mapsto> s')\<rparr>)"
    "messages s' =
       drop (length (messages ?s) + 2 - 20)
         (messages ?s @ [\<lparr>role = User, msg_text = b_prompt ?b, timestamp = Some (clock ?w)\<rparr>,
                         \<lparr>role = Assistant, msg_text = Some (js ''Hello''),
                          timestamp = Some (clock ?w)\<rparr>])"
    using text_exchange_appends_and_caps [OF example_json_hyps b(1-4) s d a(1)] by blast
  obtain sf' where hf: "handler ?e (example_json_event ?b) ?wf =
           (\<lparr>statusCode = 200, headers = json_headers,
             body = SuccessBody (Some (js ''Hello'')) (selected_provider ?e) None (Some (js ''s1''))
                      (length (messages sf') div 2)\<rparr>,
            (snd (next_fault (snd ?Df)))\<lparr>blobs := (blobs ?wf)(js ''s1'' \<mapsto> sf')\<rparr>)"
    "messages sf' =
       drop (length (messages ?n) + 2 - 20)
         (messages ?n @ [\<lparr>role = User, msg_text = b_prompt ?b, timestamp = Some (clock ?wf)\<rparr>,
                         \<lparr>role = Assistant, msg_text = Some (js ''Hello''),
                          timestamp = Some (clock ?wf)\<rparr>])"
    using text_exchange_appends_and_caps [OF example_json_hyps b(1-4) sf df a(2)] by blast
  have m: "messages ?s = [example_turn User, example_turn Assistant]" "messages ?n = []"
    by (simp_all add: example_session_def createNewSession_def)
  show ?thesis using h hf unfolding m b(6) w(2,3) by simp
qed

subsection \<open>Dispatch\<close>

lemma provider_names_distinct:
  "js ''openai'' \<noteq> js ''gemini''" "js ''openai'' \<noteq> js ''yandex''"
  "js ''gemini'' \<noteq> js ''yandex''" "js ''gemini'' \<noteq> js ''openai''"
  "js ''yandex'' \<noteq> js ''openai''" "js ''yandex'' \<noteq> js ''gemini''"
  by (simp_all add: js_def)

lemma dispatch_text_nocreds:
  assumes "p \<in> {js ''openai'', js ''gemini'', js ''yandex''}" "\<not> credentials_present e p"
  shows "\<exists>msg. dispatch_text e p msgs options w = (Inr (Inl (config_error msg)), w)"
  using assms provider_names_distinct
  by (auto simp: dispatch_text_def credentials_present_def return_io_def)

lemma dispatch_audio_nocreds:
  assumes "p \<in> {js ''openai'', js ''gemini'', js ''yandex''}" "\<not> credentials_present e p"
  shows "\<exists>msg. dispatch_audio e p msgs audio fmt w = (Inr (Inl (config_error msg)), w)"
  using assms provider_names_distinct
  by (auto simp: dispatch_audio_def credentials_present_def return_io_def)

lemma dispatch_text_makes_call:
  assumes "p \<in> {js ''openai'', js ''gemini'', js ''yandex''}" "credentials_present e p"
  shows "makes_call (\<lambda>c. call_provider c = p) (dispatch_text e p msgs options)"
proof -
  consider "p = js ''openai''" | "p = js ''gemini''" | "p = js ''yandex''" using assms(1) by auto
  then show ?thesis
  proof cases
    case 1
    then show ?thesis using assms(2) provider_names_distinct
      by (auto simp: dispatch_text_def credentials_present_def
            intro!: makes_call_bind openai_calls steps_in_return preorder_calls_only)
  next
    case 2
    then show ?thesis using assms(2) provider_names_distinct
      by (auto simp: dispatch_text_def credentials_present_def
            intro!: makes_call_bind gemini_calls steps_in_return preorder_calls_only)
  next
    case 3
    then show ?thesis using assms(2) provider_names_distinct
      by (auto simp: dispatch_text_def credentials_present_def
            intro!: makes_call_bind yandex_calls steps_in_return preorder_calls_only)
  qed
qed

lemma dispatch_audio_makes_call:
  assumes "p \<in> {js ''openai'', js ''gemini'', js ''yandex''}" "credentials_present e p"
  shows "makes_call (\<lambda>c. call_provider c = p) (dispatch_audio e p msgs audio fmt)"
proof -
  consider "p = js ''openai''" | "p = js ''gemini''" | "p = js ''yandex''" using assms(1) by auto
  then show ?thesis
  proof cases
    case 1
    then show ?thesis using assms(2) provider_names_distinct
      by (auto simp: dispatch_audio_def credentials_present_def
            intro!: makes_call_bind openai_calls steps_in_return preorder_calls_only)
  next
    case 2
    then show ?thesis using assms(2) provider_names_distinct
      by (auto simp: dispatch_audio_def credentials_present_def
            intro!: makes_call_bind gemini_calls steps_in_return preorder_calls_only)
  next
    case 3
    then show ?thesis using assms(2) provider_names_distinct
      by (auto simp: dispatch_audio_def credentials_present_def
            intro!: makes_call_bind yandex_calls steps_in_return preorder_calls_only)
  qed
qed

lemma resolveSession_quiet:
  "\<exists>s w1. resolveSession sid rc sys w = (Inr s, w1) \<and> net_log w1 = net_log w"
proof -
  obtain s w1 where r: "resolveSession sid rc sys w = (Inr s, w1)"
    using resolveSession_result by blast
  then have "same_net w w1" using resolveSession_same_net by (rule steps_inD [rotated])
  then show ?thesis using r by (auto simp: same_net_def)
qed

lemma persistTurns_quiet: "net_log (snd (persistTurns sid s ut t w)) = net_log w"
proof -
  have "same_net w (snd (persistTurns sid s ut t w))"
    using persistTurns_same_net [of sid s ut t] by (simp add: steps_in_def)
  then show ?thesis by (simp add: same_net_def)
qed

lemma handler_post_world:
  "httpMethod ev = js ''POST'' \<Longrightarrow>
   snd (handler e ev w) = snd (handler_try e (selected_provider e) ev w)"
  by (simp add: handler_post split: prod.splits sum.splits)

lemma handler_text_log:
  assumes "\<not> (b_endSession b \<and> truthy (b_sessionId b))"
      and "resolveSession (b_sessionId b) (b_resetContext b) (b_system b) w = (Inr s, w1)"
  shows "net_log (snd (handler_text e p b w)) =
     net_log (snd (dispatch_text e p
             (formatMessagesForProvider (Some (systemPrompt s)) (messages s) (b_prompt b))
             \<lparr>modelName = modelName b, modelUri = modelUri b,
              temperature = temperature b, maxTokens = maxTokens b\<rparr> w1))"
  using persistTurns_quiet
  by (auto simp: handler_text_steps [OF assms] split: prod.splits sum.splits)
     (metis snd_conv)+


lemma handler_multipart_log:
  assumes "find (\<lambda>f. fst f = js ''audio'') (files parsed) = Some af"
      and "\<not> (f_endSession parsed = Some (js ''true'') \<and> truthy (f_sessionId parsed))"
      and "resolveSession (f_sessionId parsed) (f_resetContext parsed = Some (js ''true''))
             (f_system parsed) w = (Inr s, w1)"
  shows "net_log (snd (handler_multipart e p parsed w)) =
     net_log (snd (dispatch_audio e p
             (formatMessagesForProvider (Some (systemPrompt s)) (messages s) (f_prompt parsed))
             (snd af) (f_audioFormat parsed) w1))"
  using persistTurns_quiet
  by (auto simp: handler_multipart_steps [OF assms] split: prod.splits sum.splits)
     (metis snd_conv)+

lemma routed_text:
  assumes "httpMethod ev = js ''POST''"
      and "js_or (content_type ev) (Content_Type ev) = Some ct"
      and "startsWith (js ''application/json'') ct"
      and "json ev = Inr b" and "truthy (b_prompt b)"
      and "\<not> (b_endSession b \<and> truthy (b_sessionId b))"
      and "selected_provider e \<in> {js ''openai'', js ''gemini'', js ''yandex''}"
  shows "\<exists>more. net_log (snd (handler e ev w)) = net_log w @ more
        \<and> (\<forall>c \<in> set more. call_provider c = selected_provider e)
        \<and> (credentials_present e (selected_provider e) \<longrightarrow> more \<noteq> [])
        \<and> (\<not> credentials_present e (selected_provider e) \<longrightarrow>
             more = [] \<and> (\<exists>msg. fst (handler e ev w) = config_error msg))"
proof -
  let ?p = "selected_provider e"
  obtain s w1 where r: "resolveSession (b_sessionId b) (b_resetContext b) (b_system b) w = (Inr s, w1)"
    "net_log w1 = net_log w"
    using resolveSession_quiet by blast
  let ?D = "dispatch_text e ?p
             (formatMessagesForProvider (Some (systemPrompt s)) (messages s) (b_prompt b))
             \<lparr>modelName = modelName b, modelUri = modelUri b,
              temperature = temperature b, maxTokens = maxTokens b\<rparr>"
  have t: "handler_try e ?p ev w = handler_text e ?p b w"
    by (rule handler_try_json [OF assms(2-5)])
  have l: "net_log (snd (handler e ev w)) = net_log (snd (?D w1))"
    using handler_post_world [OF assms(1)] t handler_text_log [OF assms(6) r(1)] by simp
  show ?thesis
  proof (cases "credentials_present e ?p")
    case True
    have "makes_call (\<lambda>c. call_provider c = ?p) ?D"
      using assms(7) True by (rule dispatch_text_makes_call)
    then obtain c more where "net_log (snd (?D w1)) = net_log w1 @ c # more"
      "call_provider c = ?p" "\<forall>c \<in> set more. call_provider c = ?p"
      unfolding makes_call_def by blast
    then show ?thesis using l r(2) True by (intro exI [of _ "c # more"]) simp
  next
    case False
    obtain msg where d: "?D w1 = (Inr (Inl (config_error msg)), w1)"
      using dispatch_text_nocreds [OF assms(7) False] by blast
    have "handler e ev w = (config_error msg, w1)"
      using handler_post [OF assms(1)] t handler_text_steps [OF assms(6) r(1)] d by simp
    then show ?thesis using r(2) False by (intro exI [of _ "[]"]) auto
  qed
qed

lemma routed_audio:
  assumes "httpMethod ev = js ''POST''"
      and "js_or (content_type ev) (Content_Type ev) = Some ct"
      and "startsWith (js ''multipart/form-data'') ct"
      and "multipart ev = Inr parsed"
      and "find (\<lambda>f. fst f = js ''audio'') (files parsed) = Some af"
      and "\<not> (f_endSession parsed = Some (js ''true'') \<and> truthy (f_sessionId parsed))"
      and "selected_provider e \<in> {js ''openai'', js ''gemini'', js ''yandex''}"
  shows "\<exists>more. net_log (snd (handler e ev w)) = net_log w @ more
        \<and> (\<forall>c \<in> set more. call_provider c = selected_provider e)
        \<and> (credentials_present e (selected_provider e) \<longrightarrow> more \<noteq> [])
        \<and> (\<not> credentials_present e (selected_provider e) \<longrightarrow>
             more = [] \<and> (\<exists>msg. fst (handler e ev w) = config_error msg))"
proof -
  let ?p = "selected_provider e"
  obtain s w1 where r: "resolveSession (f_sessionId parsed)
      (f_resetContext parsed = Some (js ''true'')) (f_system parsed) w = (Inr s, w1)"
    "net_log w1 = net_log w"
    using resolveSession_quiet by blast
  let ?D = "dispatch_audio e ?p
             (formatMessagesForProvider (Some (systemPrompt s)) (messages s) (f_prompt parsed))
             (snd af) (f_audioFormat parsed)"
  have t: "handler_try e ?p ev w = handler_multipart e ?p parsed w"
    by (rule handler_try_multipart [OF assms(2-4)])
  have l: "net_log (snd (handler e ev w)) = net_log (snd (?D w1))"
    using handler_post_world [OF assms(1)] t handler_multipart_log [OF assms(5,6) r(1)] by simp
  show ?thesis
  proof (cases "credentials_present e ?p")
    case True
    have "makes_call (\<lambda>c. call_provider c = ?p) ?D"
      using assms(7) True by (rule dispatch_audio_makes_call)
    then obtain c more where "net_log (snd (?D w1)) = net_log w1 @ c # more"
      "call_provider c = ?p" "\<forall>c \<in> set more. call_provider c = ?p"
      unfolding makes_call_def by blast
    then show ?thesis using l r(2) True by (intro exI [of _ "c # more"]) simp
  next
    case False
    obtain msg where d: "?D w1 = (Inr (Inl (config_error msg)), w1)"
      using dispatch_audio_nocreds [OF assms(7) False] by blast
    have "handler e ev w = (config_error msg, w1)"
      using handler_post [OF assms(1)] t handler_multipart_steps [OF assms(5,6) r(1)] d by simp
    then show ?thesis using r(2) False by (intro exI [of _ "[]"]) auto
  qed
qed

text \<open>
  Claim C2. The handler has no branch for the selector \<open>mistral\<close>. With
  \<open>AI_PROVIDER = mistral\<close> a valid JSON request is answered 200 without generated
  text, and no network call is made: the world, with its script and its log, is
  unchanged. \<open>generateTextWithMistral\<close> is never reached, and no credential is checked.
\<close>

theorem mistral_selector_not_dispatched:
  "handler (example_env (js ''mistral'') (Some (js ''k'')))
     (example_json_event (example_body (Some (js ''Hi'')) None False))
     (example_world Map.empty [Responded (example_response 200 (js ''Hello''))])
   = (\<lparr>statusCode = 200, headers = json_headers,
       body = SuccessBody None (js ''mistral'') None None 0\<rparr>,
      example_world Map.empty [Responded (example_response 200 (js ''Hello''))])"
proof -
  let ?w = "example_world Map.empty [Responded (example_response 200 (js ''Hello''))]"
  let ?b = "example_body (Some (js ''Hi'')) None False"
  let ?e = "example_env (js ''mistral'') (Some (js ''k''))"
  let ?s = "createNewSession [] 7"
  have b: "truthy (b_prompt ?b)" "\<not> (b_endSession ?b \<and> truthy (b_sessionId ?b))"
    by (simp_all add: example_body_def truthy_def js_def)
  have r: "resolveSession (b_sessionId ?b) (b_resetContext ?b) (b_system ?b) ?w = (Inr ?s, ?w)"
    by (simp add: resolveSession_healthy example_world_def example_body_def truthy_def
          or_empty_def)
  have d: "dispatch_text ?e (js ''mistral'') msgs opts ?w = (Inr (Inr None), ?w)" for msgs opts
    by (simp add: dispatch_text_def return_io_def js_def)
  have p: "persistTurns (b_sessionId ?b) ?s ut None ?w = (Inr ?s, ?w)" for ut
    by (simp add: persistTurns_def example_body_def truthy_def return_io_def)
  have "handler_try ?e (selected_provider ?e) (example_json_event ?b) ?w =
      (Inr \<lparr>statusCode = 200, headers = json_headers,
            body = SuccessBody None (js ''mistral'') None (b_sessionId ?b)
                     (length (messages ?s) div 2)\<rparr>, ?w)"
    using handler_try_json [OF example_json_hyps(2-4) b(1)] handler_text_steps [OF b(2) r]
    by (simp add: d p)
  then show ?thesis
    using handler_post [OF example_json_hyps(1)]
    by (simp add: example_body_def createNewSession_def)
qed

text \<open>
  The three selectors the handler has a branch for. For \<open>gemini\<close>, \<open>openai\<close> and
  \<open>yandex\<close> and every request that reaches Dispatch (a valid JSON request, or a
  multipart request with an \<open>audio\<close> part, that is not an end-session request),
  every network call of the invocation goes to the provider named by the selector.
  With the credentials of that provider present at least one call is made; with them
  absent none is made and the response is the status-500 error response.
\<close>

theorem dispatch_routes_to_selected:
  "(httpMethod ev = js ''POST'' \<longrightarrow>
    js_or (content_type ev) (Content_Type ev) = Some ct \<longrightarrow>
    startsWith (js ''application/json'') ct \<longrightarrow>
    json ev = Inr b \<longrightarrow> truthy (b_prompt b) \<longrightarrow>
    \<not> (b_endSession b \<and> truthy (b_sessionId b)) \<longrightarrow>
    selected_provider e \<in> {js ''openai'', js ''gemini'', js ''yandex''} \<longrightarrow>
    (\<exists>more. net_log (snd (handler e ev w)) = net_log w @ more
        \<and> (\<forall>c \<in> set more. call_provider c = selected_provider e)
        \<and> (credentials_present e (selected_provider e) \<longrightarrow> more \<noteq> [])
        \<and> (\<not> credentials_present e (selected_provider e) \<longrightarrow>
             more = [] \<and> (\<exists>msg. fst (handler e ev w) = config_error msg))))
   \<and> (httpMethod ev = js ''POST'' \<longrightarrow>
    js_or (content_type ev) (Content_Type ev) = Some ct \<longrightarrow>
    startsWith (js ''multipart/form-data'') ct \<longrightarrow>
    multipart ev = Inr parsed \<longrightarrow>
    find (\<lambda>f. fst f = js ''audio'') (files parsed) = Some af \<longrightarrow>
    \<not> (f_endSession parsed = Some (js ''true'') \<and> truthy (f_sessionId parsed)) \<longrightarrow>
    selected_provider e \<in> {js ''openai'', js ''gemini'', js ''yandex''} \<longrightarrow>
    (\<exists>more. net_log (snd (handler e ev w)) = net_log w @ more
        \<and> (\<forall>c \<in> set more. call_provider c = selected_provider e)
        \<and> (credentials_present e (selected_provider e) \<longrightarrow> more \<noteq> [])
        \<and> (\<not> credentials_present e (selected_provider e) \<longrightarrow>
             more = [] \<and> (\<exists>msg. fst (handler e ev w) = config_error msg))))"
  using routed_text [of ev ct b e w] routed_audio [of ev ct parsed af e w]
  by (intro conjI impI) blast+

theorem dispatch_routes_to_selected_witness:
  "(net_log (snd (handler (example_env (js ''openai'') None)
       (example_json_event (example_body (Some (js ''Hi'')) (Some (js ''s1'')) False))
       (example_world Map.empty [Responded (example_response 200 (js ''Hello''))]))) = []
    \<and> (\<exists>msg. fst (handler (example_env (js ''openai'') None)
       (example_json_event (example_body (Some (js ''Hi'')) (Some (js ''s1'')) False))
       (example_world Map.empty [Responded (example_response 200 (js ''Hello''))]))
       = config_error msg))
   \<and> (\<exists>more. net_log (snd (handler (example_env (js ''yandex'') (Some (js ''k'')))
       (example_multipart_event (example_form (Some (js ''s1'')) None [(js ''audio'', [1, 2])]))
       (example_world Map.empty [Responded (example_response 200 (js ''Hello''))]))) = more
     \<and> more \<noteq> [] \<and> (\<forall>c \<in> set more. call_provider c = js ''yandex''))"
proof -
  let ?w = "example_world Map.empty [Responded (example_response 200 (js ''Hello''))]"
  let ?b = "example_body (Some (js ''Hi'')) (Some (js ''s1'')) False"
  let ?f = "example_form (Some (js ''s1'')) None [(js ''audio'', [1, 2])]"
  let ?e = "example_env (js ''openai'') None"
  let ?e' = "example_env (js ''yandex'') (Some (js ''k''))"
  have b: "truthy (b_prompt ?b)" "\<not> (b_endSession ?b \<and> truthy (b_sessionId ?b))"
    by (simp_all add: example_body_def truthy_def js_def)
  have f: "find (\<lambda>f. fst f = js ''audio'') (files ?f) = Some (js ''audio'', [1, 2])"
    "\<not> (f_endSession ?f = Some (js ''true'') \<and> truthy (f_sessionId ?f))"
    by (simp_all add: example_form_def truthy_def js_def)
  have e: "selected_provider ?e \<in> {js ''openai'', js ''gemini'', js ''yandex''}"
    "\<not> credentials_present ?e (selected_provider ?e)"
    by (simp_all add: example_selected)
       (simp add: credentials_present_def example_env_def truthy_def)
  have e': "selected_provider ?e' \<in> {js ''openai'', js ''gemini'', js ''yandex''}"
    "credentials_present ?e' (selected_provider ?e')" "selected_provider ?e' = js ''yandex''"
    by (simp_all add: example_selected)
       (simp add: credentials_present_def example_env_def truthy_def js_def)
  have l: "net_log ?w = []" by (simp add: example_world_def)
  have 1: "net_log (snd (handler ?e (example_json_event ?b) ?w)) = []
    \<and> (\<exists>msg. fst (handler ?e (example_json_event ?b) ?w) = config_error msg)"
    using dispatch_routes_to_selected [of "example_json_event ?b" "js ''application/json''" ?b ?e ?w]
      example_json_hyps b e l by auto
  have 2: "\<exists>more. net_log (snd (handler ?e' (example_multipart_event ?f) ?w)) = more
     \<and> more \<noteq> [] \<and> (\<forall>c \<in> set more. call_provider c = js ''yandex'')"
    using dispatch_routes_to_selected [of "example_multipart_event ?f"
        "js ''multipart/form-data; boundary=x''" _ ?e' ?w ?f "(js ''audio'', [1, 2])"]
      example_multipart_hyps f e' l by auto
  show ?thesis using 1 2 by blast
qed

subsection \<open>Persistence and the provider call\<close>

lemma dispatch_text_success_shape:
  assumes "p \<in> {js ''openai'', js ''gemini'', js ''yandex''}"
      and "dispatch_text e p msgs options w = (Inr (Inr t), w2)"
  shows "credentials_present e p \<and> (\<exists>tx. t = Some tx)"
  using assms provider_names_distinct
  by (auto simp: dispatch_text_def credentials_present_def return_io_def bind_io_def
           split: if_splits prod.splits sum.splits)

lemma dispatch_audio_success_shape:
  assumes "p \<in> {js ''openai'', js ''gemini'', js ''yandex''}"
      and "dispatch_audio e p msgs audio fmt w = (Inr (Inr (t, tr)), w2)"
  shows "credentials_present e p \<and> (\<exists>tx. t = Some tx)"
  using assms provider_names_distinct
  by (auto simp: dispatch_audio_def credentials_present_def return_io_def bind_io_def
           split: if_splits prod.splits sum.splits)

lemma persisted_text_needs_success:
  assumes "httpMethod ev = js ''POST''"
      and "js_or (content_type ev) (Content_Type ev) = Some ct"
      and "startsWith (js ''application/json'') ct"
      and "json ev = Inr b" and "truthy (b_prompt b)"
      and "\<not> (b_endSession b \<and> truthy (b_sessionId b))"
      and "selected_provider e \<in> {js ''openai'', js ''gemini'', js ''yandex''}"
      and "blobs (snd (handler e ev w)) \<noteq> blobs w"
  shows "\<exists>tx n more. fst (handler e ev w) =
            \<lparr>statusCode = 200, headers = json_headers,
             body = SuccessBody (Some tx) (selected_provider e) None (b_sessionId b) n\<rparr>
        \<and> net_log (snd (handler e ev w)) = net_log w @ more \<and> more \<noteq> []
        \<and> (\<forall>c \<in> set more. call_provider c = selected_provider e)"
proof -
  let ?p = "selected_provider e"
  obtain s w1 where r: "resolveSession (b_sessionId b) (b_resetContext b) (b_system b) w = (Inr s, w1)"
    "blobs w1 = blobs w"
    using resolveSession_result by blast
  let ?D = "dispatch_text e ?p
             (formatMessagesForProvider (Some (systemPrompt s)) (messages s) (b_prompt b))
             \<lparr>modelName = modelName b, modelUri = modelUri b,
              temperature = temperature b, maxTokens = maxTokens b\<rparr> w1"
  obtain res w2 where d: "?D = (res, w2)" by (cases ?D)
  have "same_store w1 w2" using d dispatch_same_store(1) by (rule steps_inD [rotated])
  then have b2: "blobs w2 = blobs w" using r(2) by (simp add: same_store_def)
  note t = handler_try_json [OF assms(2-5), of e ?p w]
  note st = handler_text_steps [OF assms(6) r(1), of e ?p]
  note hp = handler_post [OF assms(1), of e w]
  obtain tx where res: "res = Inr (Inr (Some tx))" and creds: "credentials_present e ?p"
  proof (cases res)
    case (Inl err)
    then have "blobs (snd (handler e ev w)) = blobs w" using hp t st d b2 by simp
    then show ?thesis using assms(8) by simp
  next
    case (Inr x)
    show ?thesis
    proof (cases x)
      case (Inl early)
      then have "blobs (snd (handler e ev w)) = blobs w" using hp t st d b2 Inr by simp
      then show ?thesis using assms(8) by simp
    next
      case (Inr tt)
      then have "?D = (Inr (Inr tt), w2)" using d \<open>res = Inr x\<close> by simp
      then show ?thesis
        using dispatch_text_success_shape [OF assms(7)] that \<open>res = Inr x\<close> Inr by blast
    qed
  qed
  obtain s' w3 where p: "persistTurns (b_sessionId b) s (b_prompt b) (Some tx) w2 = (Inr s', w3)"
    using persistTurns_result by blast
  have h: "fst (handler e ev w) =
      \<lparr>statusCode = 200, headers = json_headers,
       body = SuccessBody (Some tx) ?p None (b_sessionId b) (length (messages s') div 2)\<rparr>"
    using hp t st d res p by simp
  obtain more where "net_log (snd (handler e ev w)) = net_log w @ more"
    "\<forall>c \<in> set more. call_provider c = ?p" "more \<noteq> []"
    using routed_text [OF assms(1-7), of w] creds by blast
  then show ?thesis using h by blast
qed

lemma persisted_audio_needs_success:
  assumes "httpMethod ev = js ''POST''"
      and "js_or (content_type ev) (Content_Type ev) = Some ct"
      and "startsWith (js ''multipart/form-data'') ct"
      and "multipart ev = Inr parsed"
      and "find (\<lambda>f. fst f = js ''audio'') (files parsed) = Some af"
      and "\<not> (f_endSession parsed = Some (js ''true'') \<and> truthy (f_sessionId parsed))"
      and "selected_provider e \<in> {js ''openai'', js ''gemini'', js ''yandex''}"
      and "blobs (snd (handler e ev w)) \<noteq> blobs w"
  shows "\<exists>tx tr n more. fst (handler e ev w) =
            \<lparr>statusCode = 200, headers = json_headers,
             body = SuccessBody (Some tx) (selected_provider e) tr (f_sessionId parsed) n\<rparr>
        \<and> net_log (snd (handler e ev w)) = net_log w @ more \<and> more \<noteq> []
        \<and> (\<forall>c \<in> set more. call_provider c = selected_provider e)"
proof -
  let ?p = "selected_provider e"
  obtain s w1 where r: "resolveSession (f_sessionId parsed)
      (f_resetContext parsed = Some (js ''true'')) (f_system parsed) w = (Inr s, w1)"
    "blobs w1 = blobs w"
    using resolveSession_result by blast
  let ?D = "dispatch_audio e ?p
             (formatMessagesForProvider (Some (systemPrompt s)) (messages s) (f_prompt parsed))
             (snd af) (f_audioFormat parsed) w1"
  obtain res w2 where d: "?D = (res, w2)" by (cases ?D)
  have "same_store w1 w2" using d dispatch_same_store(2) by (rule steps_inD [rotated])
  then have b2: "blobs w2 = blobs w" using r(2) by (simp add: same_store_def)
  note t = handler_try_multipart [OF assms(2-4), of e ?p w]
  note st = handler_multipart_steps [OF assms(5,6) r(1), of e ?p]
  note hp = handler_post [OF assms(1), of e w]
  obtain tx tr where res: "res = Inr (Inr (Some tx, tr))" and creds: "credentials_present e ?p"
  proof (cases res)
    case (Inl err)
    then have "blobs (snd (handler e ev w)) = blobs w" using hp t st d b2 by simp
    then show ?thesis using assms(8) by simp
  next
    case (Inr x)
    show ?thesis
    proof (cases x)
      case (Inl early)
      then have "blobs (snd (handler e ev w)) = blobs w" using hp t st d b2 Inr by simp
      then show ?thesis using assms(8) by simp
    next
      case (Inr tt)
      obtain t0 tr0 where tt: "tt = (t0, tr0)" by (cases tt)
      then have "?D = (Inr (Inr (t0, tr0)), w2)" using d \<open>res = Inr x\<close> Inr by simp
      then show ?thesis
        using dispatch_audio_success_shape [OF assms(7)] that \<open>res = Inr x\<close> Inr tt by blast
    qed
  qed
  obtain s' w3 where p: "persistTurns (f_sessionId parsed) s (js_or tr (f_prompt parsed))
      (Some tx) w2 = (Inr s', w3)"
    using persistTurns_result by blast
  have h: "fst (handler e ev w) =
      \<lparr>statusCode = 200, headers = json_headers,
       body = SuccessBody (Some tx) ?p tr (f_sessionId parsed) (length (messages s') div 2)\<rparr>"
    using hp t st d res p by simp
  obtain more where "net_log (snd (handler e ev w)) = net_log w @ more"
    "\<forall>c \<in> set more. call_provider c = ?p" "more \<noteq> []"
    using routed_audio [OF assms(1-7), of w] creds by blast
  then show ?thesis using h by blast
qed

text \<open>
  The three selectors the handler has a branch for. When an invocation for \<open>gemini\<close>,
  \<open>openai\<close> or \<open>yandex\<close> that reaches Dispatch changes the blob store, the adapter of
  that provider was called and returned a text: the reply is the 200 success reply with
  that text, and at least one network call, all of them to that provider, was made.
\<close>

theorem persistence_only_after_provider_success:
  "(httpMethod ev = js ''POST'' \<longrightarrow>
    js_or (content_type ev) (Content_Type ev) = Some ct \<longrightarrow>
    startsWith (js ''application/json'') ct \<longrightarrow>
    json ev = Inr b \<longrightarrow> truthy (b_prompt b) \<longrightarrow>
    \<not> (b_endSession b \<and> truthy (b_sessionId b)) \<longrightarrow>
    selected_provider e \<in> {js ''openai'', js ''gemini'', js ''yandex''} \<longrightarrow>
    blobs (snd (handler e ev w)) \<noteq> blobs w \<longrightarrow>
    (\<exists>tx n more. fst (handler e ev w) =
            \<lparr>statusCode = 200, headers = json_headers,
             body = SuccessBody (Some tx) (selected_provider e) None (b_sessionId b) n\<rparr>
        \<and> net_log (snd (handler e ev w)) = net_log w @ more \<and> more \<noteq> []
        \<and> (\<forall>c \<in> set more. call_provider c = selected_provider e)))
   \<and> (httpMethod ev = js ''POST'' \<longrightarrow>
    js_or (content_type ev) (Content_Type ev) = Some ct \<longrightarrow>
    startsWith (js ''multipart/form-data'') ct \<longrightarrow>
    multipart ev = Inr parsed \<longrightarrow>
    find (\<lambda>f. fst f = js ''audio'') (files parsed) = Some af \<longrightarrow>
    \<not> (f_endSession parsed = Some (js ''true'') \<and> truthy (f_sessionId parsed)) \<longrightarrow>
    selected_provider e \<in> {js ''openai'', js ''gemini'', js ''yandex''} \<longrightarrow>
    blobs (snd (handler e ev w)) \<noteq> blobs w \<longrightarrow>
    (\<exists>tx tr n more. fst (handler e ev w) =
            \<lparr>statusCode = 200, headers = json_headers,
             body = SuccessBody (Some tx) (selected_provider e) tr (f_sessionId parsed) n\<rparr>
        \<and> net_log (snd (handler e ev w)) = net_log w @ more \<and> more \<noteq> []
        \<and> (\<forall>c \<in> set more. call_provider c = selected_provider e)))"
  using persisted_text_needs_success [of ev ct b e w]
    persisted_audio_needs_success [of ev ct parsed af e w]
  by (intro conjI impI) blast+

theorem persistence_only_after_provider_success_witness:
  "blobs (snd (handler (example_env (js ''gemini'') (Some (js ''k'')))
        (example_json_event (example_body (Some (js ''Hi'')) (Some (js ''s1'')) False))
        (example_world Map.empty [Responded (example_response 200 (js ''Hello''))])))
     \<noteq> blobs (example_world Map.empty [Responded (example_response 200 (js ''Hello''))])
   \<and> (\<exists>tx n more. fst (handler (example_env (js ''gemini'') (Some (js ''k'')))
        (example_json_event (example_body (Some (js ''Hi'')) (Some (js ''s1'')) False))
        (example_world Map.empty [Responded (example_response 200 (js ''Hello''))]))
       = \<lparr>statusCode = 200, headers = json_headers,
          body = SuccessBody (Some tx) (js ''gemini'') None (Some (js ''s1'')) n\<rparr>
      \<and> net_log (snd (handler (example_env (js ''gemini'') (Some (js ''k'')))
        (example_json_event (example_body (Some (js ''Hi'')) (Some (js ''s1'')) False))
        (example_world Map.empty [Responded (example_response 200 (js ''Hello''))]))) = more
      \<and> more \<noteq> [] \<and> (\<forall>c \<in> set more. call_provider c = js ''gemini''))"
proof -
  let ?n = "createNewSession [] 7"
  let ?w = "example_world Map.empty [Responded (example_response 200 (js ''Hello''))]"
  let ?b = "example_body (Some (js ''Hi'')) (Some (js ''s1'')) False"
  let ?e = "example_env (js ''gemini'') (Some (js ''k''))"
  let ?opts = "\<lparr>modelName = modelName ?b, modelUri = modelUri ?b,
       temperature = temperature ?b, maxTokens = maxTokens ?b\<rparr>"
  let ?D = "dispatch_text ?e (selected_provider ?e)
      (formatMessagesForProvider (Some (systemPrompt ?n)) (messages ?n) (b_prompt ?b))
      ?opts (snd (next_fault ?w))"
  have b: "truthy (b_prompt ?b)" "b_sessionId ?b = Some (js ''s1'')" "js ''s1'' \<noteq> []"
    "\<not> b_endSession ?b" "or_empty (b_system ?b) = []"
    "\<not> (b_endSession ?b \<and> truthy (b_sessionId ?b))"
    by (simp_all add: example_body_def truthy_def or_empty_def js_def)
  have n: "next_fault ?w = (None, ?w)"
    by (simp add: next_fault_def example_world_def)
  have w: "blobs ?w = Map.empty" "clock ?w = 7" "store_script ?w = []" "net_log ?w = []"
    by (simp_all add: example_world_def)
  have s: "?n = (case (case fst (next_fault ?w) of Some err \<Rightarrow> None
                        | None \<Rightarrow> blobs ?w (js ''s1'')) of
                  None \<Rightarrow> createNewSession (or_empty (b_system ?b)) (clock ?w)
                | Some s0 \<Rightarrow> if b_resetContext ?b
                             then s0\<lparr>messages := [], lastActivity := clock ?w\<rparr> else s0)"
    unfolding n b(5) w(1,2) by simp
  have d: "?D = (Inr (Inr (Some (js ''Hello''))), snd ?D)"
    unfolding n
    by (simp add: dispatch_text_def example_env_def truthy_def or_empty_def
          selected_provider_def toLowerCase_def js_or_def generateTextWithGemini_def
          generateContent_def bind_io_def fetch_def Let_def example_world_def
          example_response_def lift_result_def return_io_def js_def)
  have "same_store (snd (next_fault ?w)) (snd ?D)"
    using dispatch_same_store(1) by (simp add: steps_in_def)
  then have a: "fst (next_fault (snd ?D)) = None"
    unfolding n by (simp add: same_store_def w(3) next_fault_def)
  obtain s' where h: "handler ?e (example_json_event ?b) ?w =
           (\<lparr>statusCode = 200, headers = json_headers,
             body = SuccessBody (Some (js ''Hello'')) (selected_provider ?e) None (Some (js ''s1''))
                      (length (messages s') div 2)\<rparr>,
            (snd (next_fault (snd ?D)))\<lparr>blobs := (blobs ?w)(js ''s1'' \<mapsto> s')\<rparr>)"
    using text_exchange_general [OF example_json_hyps b(1-4) s d a] by blast
  have "blobs (snd (handler ?e (example_json_event ?b) ?w)) (js ''s1'') \<noteq> blobs ?w (js ''s1'')"
    unfolding h w(1) by simp
  then have c: "blobs (snd (handler ?e (example_json_event ?b) ?w)) \<noteq> blobs ?w" by metis
  have p: "selected_provider ?e \<in> {js ''openai'', js ''gemini'', js ''yandex''}"
    "selected_provider ?e = js ''gemini''"
    by (simp_all add: example_selected)
  show ?thesis
    using persistence_only_after_provider_success [of "example_json_event ?b"
        "js ''application/json''" ?b ?e ?w]
      example_json_hyps b(1,6) p c
    unfolding w(4) b(2) by auto
qed

text \<open>
  Claim C5. With a selector the handler has no branch for, a request with a session id
  is persisted although no provider call was made. With \<open>AI_PROVIDER = mistral\<close> and
  the session id \<open>s1\<close> the handler answers 200 without generated text, the network log
  stays empty and the script untouched, and the store holds a new session with the user
  turn and an assistant turn without text.
\<close>

theorem unrouted_selector_persists_without_call:
  "handler (example_env (js ''mistral'') (Some (js ''k'')))
     (example_json_event (example_body (Some (js ''Hi'')) (Some (js ''s1'')) False))
     (example_world Map.empty [Responded (example_response 200 (js ''Hello''))])
   = (\<lparr>statusCode = 200, headers = json_headers,
       body = SuccessBody None (js ''mistral'') None (Some (js ''s1'')) 1\<rparr>,
      example_world
        [js ''s1'' \<mapsto>
           \<lparr>systemPrompt = [],
            messages = [\<lparr>role = User, msg_text = Some (js ''Hi''), timestamp = Some 7\<rparr>,
                        \<lparr>role = Assistant, msg_text = None, timestamp = Some 7\<rparr>],
            createdAt = 7, lastActivity = 7\<rparr>]
        [Responded (example_response 200 (js ''Hello''))])"
proof -
  let ?w = "example_world Map.empty [Responded (example_response 200 (js ''Hello''))]"
  let ?b = "example_body (Some (js ''Hi'')) (Some (js ''s1'')) False"
  let ?e = "example_env (js ''mistral'') (Some (js ''k''))"
  let ?s = "createNewSession [] 7"
  have b: "truthy (b_prompt ?b)" "\<not> (b_endSession ?b \<and> truthy (b_sessionId ?b))"
    "truthy (b_sessionId ?b)" "b_sessionId ?b = Some (js ''s1'')" "b_prompt ?b = Some (js ''Hi'')"
    by (simp_all add: example_body_def truthy_def js_def)
  have n: "next_fault ?w = (None, ?w)" "clock ?w = 7" "blobs ?w = Map.empty"
    by (simp_all add: next_fault_def example_world_def)
  have r: "resolveSession (b_sessionId ?b) (b_resetContext ?b) (b_system ?b) ?w = (Inr ?s, ?w)"
    by (simp add: resolveSession_healthy example_world_def example_body_def truthy_def
          or_empty_def js_def)
  have d: "dispatch_text ?e (js ''mistral'') msgs opts ?w = (Inr (Inr None), ?w)" for msgs opts
    by (simp add: dispatch_text_def return_io_def js_def)
  have a: "appended ?s (Some (js ''Hi'')) None 7 =
      \<lparr>systemPrompt = [],
       messages = [\<lparr>role = User, msg_text = Some (js ''Hi''), timestamp = Some 7\<rparr>,
                   \<lparr>role = Assistant, msg_text = None, timestamp = Some 7\<rparr>],
       createdAt = 7, lastActivity = 7\<rparr>"
    by (simp add: appended_def createNewSession_def trimSessionHistory_def
          MAX_MESSAGES_IN_SESSION_def)
  have p: "persistTurns (Some (js ''s1'')) ?s (Some (js ''Hi'')) None ?w =
      (Inr (appended ?s (Some (js ''Hi'')) None 7),
       ?w\<lparr>blobs := [js ''s1'' \<mapsto> appended ?s (Some (js ''Hi'')) None 7]\<rparr>)"
    using persistTurns_accepted [OF b(3), of ?w ?s "Some (js ''Hi'')" None]
    by (simp add: n b(4) or_empty_def)
  have "handler_try ?e (selected_provider ?e) (example_json_event ?b) ?w =
      (Inr \<lparr>statusCode = 200, headers = json_headers,
            body = SuccessBody None (js ''mistral'') None (Some (js ''s1''))
                     (length (messages (appended ?s (Some (js ''Hi'')) None 7)) div 2)\<rparr>,
       ?w\<lparr>blobs := [js ''s1'' \<mapsto> appended ?s (Some (js ''Hi'')) None 7]\<rparr>)"
    using handler_try_json [OF example_json_hyps(2-4) b(1)] handler_text_steps [OF b(2) r]
    by (simp add: d p b(4,5))
  then show ?thesis
    using handler_post [OF example_json_hyps(1)]
    unfolding a by (simp add: example_world_def)
qed

subsection \<open>Audio adapters and the transcript\<close>

lemma update_last:
  "ts \<noteq> [] \<Longrightarrow> ts[length ts - 1 := x] = butlast ts @ [x]"
  by (induction ts rule: rev_induct) (simp_all add: list_update_append)

lemma nth_last: "ts \<noteq> [] \<Longrightarrow> ts ! (length ts - 1) = last ts"
  by (simp add: last_conv_nth)

lemma map_update_last:
  "ts \<noteq> [] \<Longrightarrow> (map f ts)[length ts - Suc 0 := x] = map f (butlast ts) @ [x]"
  using update_last [of "map f ts" x] by (simp add: map_butlast)

lemma nth_last_Suc: "ts \<noteq> [] \<Longrightarrow> ts ! (length ts - Suc 0) = last ts"
  by (simp add: last_conv_nth)

lemma openai_audio_appends:
  assumes "net_script w = Responded t1 # rest" "ok t1" "body_json t1 = Inr v"
      and "ts \<noteq> []" "role (last ts) = User"
  shows "\<exists>more. net_log (snd (generateTextWithOpenAIAndAudio key (InputTurns ts) audio w)) =
       net_log w @ [OpenAITranscribe key (js ''gpt-4o-mini-transcribe'') audio,
                    OpenAIChat key (js ''gpt-5-nano-2025-08-07'')
                      (map to_chat (append_transcript ts (or_empty v)))] @ more
     \<and> (\<forall>res. fst (generateTextWithOpenAIAndAudio key (InputTurns ts) audio w) = Inr res
            \<longrightarrow> ar_transcript res = or_empty v)"
  using assms
  by (auto simp add: generateTextWithOpenAIAndAudio_def Let_def bind_io_def fetch_responded
        throw_def return_io_def lift_result_def fetch_def map_update_last nth_last_Suc
        append_transcript_def to_chat_def [abs_def]
      split: sum.splits list.splits fetch_outcome.splits prod.splits)

lemma openai_audio_appends_after_retry:
  assumes "net_script w = Responded t0 # Responded t1 # rest" "status t0 \<in> {400, 404, 422}"
      and "ok t1" "body_json t1 = Inr v"
      and "ts \<noteq> []" "role (last ts) = User"
  shows "\<exists>more. net_log (snd (generateTextWithOpenAIAndAudio key (InputTurns ts) audio w)) =
       net_log w @ [OpenAITranscribe key (js ''gpt-4o-mini-transcribe'') audio,
                    OpenAITranscribe key (js ''whisper-1'') audio,
                    OpenAIChat key (js ''gpt-5-nano-2025-08-07'')
                      (map to_chat (append_transcript ts (or_empty v)))] @ more
     \<and> (\<forall>res. fst (generateTextWithOpenAIAndAudio key (InputTurns ts) audio w) = Inr res
            \<longrightarrow> ar_transcript res = or_empty v)"
proof -
  have nok: "\<not> ok t0" using assms(2) by (auto simp: ok_def)
  show ?thesis
  using assms nok
  by (auto simp add: generateTextWithOpenAIAndAudio_def Let_def bind_io_def fetch_responded
        throw_def return_io_def lift_result_def fetch_def map_update_last nth_last_Suc
        append_transcript_def to_chat_def [abs_def]
      split: sum.splits list.splits fetch_outcome.splits prod.splits)
qed

lemma yandex_audio_appends:
  assumes "transcribeWithYandexSTT key folder audio opts w = (Inr t, w1)"
      and "ts \<noteq> []" "role (last ts) = User"
  shows "generateTextWithYandexAndAudio key folder (InputTurns ts) audio opts w =
       (case generateTextWithYandex key folder (InputTurns (append_transcript ts t)) None w1 of
          (Inl e, w2) \<Rightarrow> (Inl e, w2)
        | (Inr tx, w2) \<Rightarrow> (Inr \<lparr>ar_message = tx, ar_transcript = t\<rparr>, w2))
     \<and> (\<exists>uri temp mt.
          net_log (snd (generateTextWithYandex key folder (InputTurns (append_transcript ts t)) None w1))
            = net_log w1 @ [YandexCompletion key uri temp mt
                              (map to_yandex (append_transcript ts t))])"
proof -
  have a: "ts[length ts - Suc 0 := x] = butlast ts @ [x]" for x
    using update_last [OF assms(2), of x] by simp
  have 1: "generateTextWithYandexAndAudio key folder (InputTurns ts) audio opts w =
       (case generateTextWithYandex key folder (InputTurns (append_transcript ts t)) None w1 of
          (Inl e, w2) \<Rightarrow> (Inl e, w2)
        | (Inr tx, w2) \<Rightarrow> (Inr \<lparr>ar_message = tx, ar_transcript = t\<rparr>, w2))"
    using assms nth_last_Suc [OF assms(2)]
    by (simp add: generateTextWithYandexAndAudio_def bind_io_def Let_def a append_transcript_def
          return_io_def)
  have 2: "\<exists>uri temp mt.
          net_log (snd (generateTextWithYandex key folder (InputTurns (append_transcript ts t)) None w1))
            = net_log w1 @ [YandexCompletion key uri temp mt
                              (map to_yandex (append_transcript ts t))]"
    by (auto simp: generateTextWithYandex_def Let_def bind_io_def fetch_def throw_def
          lift_result_def return_io_def to_yandex_def [abs_def]
        split: list.splits fetch_outcome.splits sum.splits)
  show ?thesis using 1 2 by blast
qed


text \<open>
  Claim C1, as stated, fails on both counts. With the turn list \<open>[user "Hi"]\<close> and the
  transcript "words" the chat call of the OpenAI audio adapter does not carry
  \<open>"Hi\n\nTranscript:\nwords"\<close>: the label of the code is another one. With an empty turn
  list the chat call carries no message at all: no user turn is created.
\<close>

theorem transcript_suffix_counterexample:
  "net_log (snd (generateTextWithOpenAIAndAudio (js ''k'')
       (InputTurns [\<lparr>role = User, msg_text = Some (js ''Hi''), timestamp = None\<rparr>]) [1, 2]
       (example_world Map.empty [Responded (example_response 200 (js ''words'')),
                                 Responded (example_response 200 (js ''Hello''))])))
     \<noteq> [OpenAITranscribe (js ''k'') (js ''gpt-4o-mini-transcribe'') [1, 2],
         OpenAIChat (js ''k'') (js ''gpt-5-nano-2025-08-07'')
           [\<lparr>cm_role = User,
             cm_content = Some (js ''Hi'' @ [0x000A, 0x000A] @ js ''Transcript:'' @ [0x000A]
                                @ js ''words'')\<rparr>]]
   \<and> net_log (snd (generateTextWithOpenAIAndAudio (js ''k'') (InputTurns []) [1, 2]
       (example_world Map.empty [Responded (example_response 200 (js ''words'')),
                                 Responded (example_response 200 (js ''Hello''))])))
     = [OpenAITranscribe (js ''k'') (js ''gpt-4o-mini-transcribe'') [1, 2],
        OpenAIChat (js ''k'') (js ''gpt-5-nano-2025-08-07'') []]"
  by (simp add: generateTextWithOpenAIAndAudio_def Let_def bind_io_def fetch_def
        example_world_def example_response_def ok_def lift_result_def return_io_def
        or_empty_def to_str_def transcription_suffix_def TRANSCRIPTION_LABEL_def js_def)

text \<open>
  Claim C1, amended. When the turn list ends with a user turn, the OpenAI and Yandex
  audio adapters run the chat step on the list whose last turn has
  \<open>transcription_suffix transcript\<close> appended to its text, the other turns unchanged,
  and return the transcript in their result. The suffix is two line feeds, the label
  \<open>TRANSCRIPTION_LABEL\<close> of the code, a line feed and the transcript. For OpenAI the
  transcript is what the primary transcription model, or after one retry the secondary
  one, answered.
\<close>

theorem transcript_appended_to_last_user_turn:
  "(net_script w = Responded t1 # rest \<longrightarrow> ok t1 \<longrightarrow> body_json t1 = Inr v \<longrightarrow>
    ts \<noteq> [] \<longrightarrow> role (last ts) = User \<longrightarrow>
    (\<exists>more. net_log (snd (generateTextWithOpenAIAndAudio key (InputTurns ts) audio w)) =
         net_log w @ [OpenAITranscribe key (js ''gpt-4o-mini-transcribe'') audio,
                      OpenAIChat key (js ''gpt-5-nano-2025-08-07'')
                        (map to_chat (append_transcript ts (or_empty v)))] @ more
       \<and> (\<forall>res. fst (generateTextWithOpenAIAndAudio key (InputTurns ts) audio w) = Inr res
              \<longrightarrow> ar_transcript res = or_empty v)))
   \<and> (net_script w = Responded t0 # Responded t1 # rest \<longrightarrow> status t0 \<in> {400, 404, 422} \<longrightarrow>
    ok t1 \<longrightarrow> body_json t1 = Inr v \<longrightarrow> ts \<noteq> [] \<longrightarrow> role (last ts) = User \<longrightarrow>
    (\<exists>more. net_log (snd (generateTextWithOpenAIAndAudio key (InputTurns ts) audio w)) =
         net_log w @ [OpenAITranscribe key (js ''gpt-4o-mini-transcribe'') audio,
                      OpenAITranscribe key (js ''whisper-1'') audio,
                      OpenAIChat key (js ''gpt-5-nano-2025-08-07'')
                        (map to_chat (append_transcript ts (or_empty v)))] @ more
       \<and> (\<forall>res. fst (generateTextWithOpenAIAndAudio key (InputTurns ts) audio w) = Inr res
              \<longrightarrow> ar_transcript res = or_empty v)))
   \<and> (transcribeWithYandexSTT key folder audio opts w = (Inr t, w1) \<longrightarrow>
    ts \<noteq> [] \<longrightarrow> role (last ts) = User \<longrightarrow>
    generateTextWithYandexAndAudio key folder (InputTurns ts) audio opts w =
       (case generateTextWithYandex key folder (InputTurns (append_transcript ts t)) None w1 of
          (Inl e, w2) \<Rightarrow> (Inl e, w2)
        | (Inr tx, w2) \<Rightarrow> (Inr \<lparr>ar_message = tx, ar_transcript = t\<rparr>, w2))
     \<and> (\<exists>uri temp mt.
          net_log (snd (generateTextWithYandex key folder (InputTurns (append_transcript ts t)) None w1))
            = net_log w1 @ [YandexCompletion key uri temp mt
                              (map to_yandex (append_transcript ts t))]))"
  using openai_audio_appends [of w t1 rest v ts key audio]
    openai_audio_appends_after_retry [of w t0 t1 rest v ts key audio]
    yandex_audio_appends [of key folder audio opts w t w1 ts]
  by (intro conjI impI) blast+

theorem transcript_appended_to_last_user_turn_witness:
  "(\<exists>more. net_log (snd (generateTextWithOpenAIAndAudio (js ''k'')
       (InputTurns [example_turn Assistant,
                    \<lparr>role = User, msg_text = Some (js ''Hi''), timestamp = None\<rparr>]) [1, 2]
       (example_world Map.empty [Responded (example_response 200 (js ''words'')),
                                 Responded (example_response 200 (js ''Hello''))])))
     = [OpenAITranscribe (js ''k'') (js ''gpt-4o-mini-transcribe'') [1, 2],
        OpenAIChat (js ''k'') (js ''gpt-5-nano-2025-08-07'')
          [\<lparr>cm_role = Assistant, cm_content = Some (js ''earlier'')\<rparr>,
           \<lparr>cm_role = User,
            cm_content = Some (js ''Hi'' @ transcription_suffix (js ''words''))\<rparr>]] @ more)
   \<and> (\<exists>more. net_log (snd (generateTextWithOpenAIAndAudio (js ''k'')
       (InputTurns [example_turn Assistant,
                    \<lparr>role = User, msg_text = Some (js ''Hi''), timestamp = None\<rparr>]) [1, 2]
       (example_world Map.empty [Responded (example_response 404 (js ''no model'')),
                                 Responded (example_response 200 (js ''words'')),
                                 Responded (example_response 200 (js ''Hello''))])))
     = [OpenAITranscribe (js ''k'') (js ''gpt-4o-mini-transcribe'') [1, 2],
        OpenAITranscribe (js ''k'') (js ''whisper-1'') [1, 2],
        OpenAIChat (js ''k'') (js ''gpt-5-nano-2025-08-07'')
          [\<lparr>cm_role = Assistant, cm_content = Some (js ''earlier'')\<rparr>,
           \<lparr>cm_role = User,
            cm_content = Some (js ''Hi'' @ transcription_suffix (js ''words''))\<rparr>]] @ more)
   \<and> (\<exists>uri temp mt.
        net_log (snd (generateTextWithYandex (js ''k'') (js ''f'')
           (InputTurns (append_transcript
              [example_turn Assistant,
               \<lparr>role = User, msg_text = Some (js ''Hi''), timestamp = None\<rparr>] (js ''words'')))
           None
           (snd (transcribeWithYandexSTT (js ''k'') (js ''f'') [1, 2]
              \<lparr>lang = None, format = None, sampleRateHertz = None\<rparr>
              (example_world Map.empty [Responded (example_response 200 (js ''words'')),
                                        Responded (example_response 200 (js ''Hello''))])))))
        = [YandexSTT (js ''k'') (js ''f'') (js ''ru-RU'') (js ''oggopus'') 48000 [1, 2],
           YandexCompletion (js ''k'') uri temp mt
             [\<lparr>ym_role = Assistant, ym_text = Some (js ''earlier'')\<rparr>,
              \<lparr>ym_role = User,
               ym_text = Some (js ''Hi'' @ transcription_suffix (js ''words''))\<rparr>]])"
proof -
  let ?u = "\<lparr>role = User, msg_text = Some (js ''Hi''), timestamp = None\<rparr>"
  let ?ts = "[example_turn Assistant, ?u]"
  let ?t1 = "example_response 200 (js ''words'')"
  let ?t0 = "example_response 404 (js ''no model'')"
  let ?r = "example_response 200 (js ''Hello'')"
  let ?w = "example_world Map.empty [Responded ?t1, Responded ?r]"
  let ?w' = "example_world Map.empty [Responded ?t0, Responded ?t1, Responded ?r]"
  let ?o = "\<lparr>lang = None, format = None, sampleRateHertz = None\<rparr>"
  have s: "net_script ?w = Responded ?t1 # [Responded ?r]"
    "net_script ?w' = Responded ?t0 # Responded ?t1 # [Responded ?r]"
    "net_log ?w = []" "net_log ?w' = []"
    by (simp_all add: example_world_def)
  have r: "ok ?t1" "body_json ?t1 = Inr (Some (js ''words''))" "status ?t0 \<in> {400, 404, 422}"
    by (simp_all add: example_response_def ok_def)
  have t: "?ts \<noteq> []" "role (last ?ts) = User" by simp_all
  have a: "append_transcript ?ts (js ''words'') =
      [example_turn Assistant,
       \<lparr>role = User, msg_text = Some (js ''Hi'' @ transcription_suffix (js ''words'')),
        timestamp = None\<rparr>]"
    by (simp add: append_transcript_def to_str_def)
  have y: "transcribeWithYandexSTT (js ''k'') (js ''f'') [1, 2] ?o ?w =
      (Inr (js ''words''), snd (transcribeWithYandexSTT (js ''k'') (js ''f'') [1, 2] ?o ?w))"
    "net_log (snd (transcribeWithYandexSTT (js ''k'') (js ''f'') [1, 2] ?o ?w)) =
       [YandexSTT (js ''k'') (js ''f'') (js ''ru-RU'') (js ''oggopus'') 48000 [1, 2]]"
    by (simp_all add: transcribeWithYandexSTT_def Let_def bind_io_def fetch_def example_world_def
          example_response_def ok_def return_io_def or_empty_def truthy_def)
  note inst = transcript_appended_to_last_user_turn
  have c: "map to_chat (append_transcript ?ts (js ''words'')) =
      [\<lparr>cm_role = Assistant, cm_content = Some (js ''earlier'')\<rparr>,
       \<lparr>cm_role = User, cm_content = Some (js ''Hi'' @ transcription_suffix (js ''words''))\<rparr>]"
    "map to_yandex (append_transcript ?ts (js ''words'')) =
      [\<lparr>ym_role = Assistant, ym_text = Some (js ''earlier'')\<rparr>,
       \<lparr>ym_role = User, ym_text = Some (js ''Hi'' @ transcription_suffix (js ''words''))\<rparr>]"
    "or_empty (Some (js ''words'')) = js ''words''"
    unfolding a by (simp_all add: to_chat_def to_yandex_def example_turn_def or_empty_def)
  obtain m1 where 1: "net_log (snd (generateTextWithOpenAIAndAudio (js ''k'') (InputTurns ?ts) [1, 2] ?w))
     = net_log ?w @ [OpenAITranscribe (js ''k'') (js ''gpt-4o-mini-transcribe'') [1, 2],
        OpenAIChat (js ''k'') (js ''gpt-5-nano-2025-08-07'')
          (map to_chat (append_transcript ?ts (or_empty (Some (js ''words'')))))] @ m1"
    using inst [of ?w ?t1 "[Responded ?r]" "Some (js ''words'')" ?ts "js ''k''" "[1, 2]"]
      s(1) r(1,2) t
    by blast
  obtain m2 where 2: "net_log (snd (generateTextWithOpenAIAndAudio (js ''k'') (InputTurns ?ts) [1, 2] ?w'))
     = net_log ?w' @ [OpenAITranscribe (js ''k'') (js ''gpt-4o-mini-transcribe'') [1, 2],
        OpenAITranscribe (js ''k'') (js ''whisper-1'') [1, 2],
        OpenAIChat (js ''k'') (js ''gpt-5-nano-2025-08-07'')
          (map to_chat (append_transcript ?ts (or_empty (Some (js ''words'')))))] @ m2"
    using inst [of ?w' ?t1 "[Responded ?r]" "Some (js ''words'')" ?ts "js ''k''" "[1, 2]" ?t0]
      s(2) r t
    by blast
  let ?w1 = "snd (transcribeWithYandexSTT (js ''k'') (js ''f'') [1, 2] ?o ?w)"
  obtain uri temp mt where 3:
    "net_log (snd (generateTextWithYandex (js ''k'') (js ''f'')
           (InputTurns (append_transcript ?ts (js ''words''))) None ?w1))
        = net_log ?w1 @ [YandexCompletion (js ''k'') uri temp mt
                          (map to_yandex (append_transcript ?ts (js ''words'')))]"
    using inst [of ?w _ _ _ ?ts "js ''k''" "[1, 2]" _ "js ''f''" ?o "js ''words''" ?w1]
      y(1) t
    by blast
  show ?thesis
    using 1 2 3 unfolding c s(3,4) y(2) by auto
qed

end
